theory Spec2Isabelle
  imports Complex_Main "HOL-Library.Word" "HOL-Library.Signed_Division"
begin

section \<open>The rendering plugin: data model\<close>

text \<open>
  The development embeds \<^verbatim>\<open>RenderingPlugin.cpp\<close> (built with \<^verbatim>\<open>SUPPORT_D3D11\<close>).
  The file-level globals of the plugin become the fields of one record, every exported
  function becomes a function on that record, and everything the plugin does to the outside
  (log lines, calls on the Direct3D device and its immediate context) is appended to a trace
  kept in the same record.

  Pointers are natural numbers; \<open>0\<close> is \<^verbatim>\<open>NULL\<close>. Dereferencing \<open>0\<close> is a fault, and
  so is a write outside a heap block, a signed overflow, and the conversion to \<^verbatim>\<open>int\<close> of a
  floating-point value that is not a number or does not fit: the C++ has undefined behaviour
  there, and the model stops with the corresponding value of type \<open>fault\<close>.
\<close>

type_synonym addr = nat

type_synonym byte = "8 word"

datatype fault = NullDeref | InvalidPointer | OutOfBounds | SignedOverflow | UndefinedConversion

text \<open>
  Modelled from the spec: the enumerations \<^verbatim>\<open>UnityGfxRenderer\<close> and
  \<^verbatim>\<open>UnityGfxDeviceEventType\<close> of \<^verbatim>\<open>Unity/IUnityGraphics.h\<close>, a header that the plugin
  includes and that is not among the sources. The spec gives the backend kind as None, the
  one backend, and others, and the device lifecycle events as Initialize, Shutdown,
  BeforeReset and AfterReset. The plugin names two renderers, \<^verbatim>\<open>kUnityGfxRendererNull\<close> and
  \<^verbatim>\<open>kUnityGfxRendererD3D11\<close>; every other value of the enumeration is
  \<open>kUnityGfxRendererOther n\<close>.
\<close>

datatype UnityGfxRenderer =
    kUnityGfxRendererNull
  | kUnityGfxRendererD3D11
  | kUnityGfxRendererOther nat

datatype UnityGfxDeviceEventType =
    kUnityGfxDeviceEventInitialize
  | kUnityGfxDeviceEventShutdown
  | kUnityGfxDeviceEventBeforeReset
  | kUnityGfxDeviceEventAfterReset

text \<open>\<^verbatim>\<open>struct MyVertex { float x, y, z; unsigned int color; }\<close>\<close>

datatype MyVertex = MyVertex real real real "32 word"

subsection \<open>Single-precision arithmetic\<close>

text \<open>
  A \<^verbatim>\<open>float\<close> that is a finite number is the real number it denotes; a \<^verbatim>\<open>float\<close> in general
  is a \<open>real option\<close>, where \<open>None\<close> stands for every value that is not a finite number (the
  infinities and NaN). The operations on floats round, and how they round belongs to the
  platform and its C library, so they are a parameter of the model: a record of the
  operations the plugin uses, each given on finite operands. The arithmetic operations and
  the square root give \<open>None\<close> where their result is not a finite number (an overflow, the
  square root of a negative number); sine and cosine of a finite number are finite, and so is
  the conversion of an \<^verbatim>\<open>int\<close>. Negation and the literals \<open>0\<close>, \<open>1\<close>, \<open>4\<close>, \<open>5\<close>, \<open>6\<close>,
  \<open>7\<close>, \<open>127\<close>, \<open>0.5\<close> and \<open>0.25\<close> are exact in binary floating point and are written as
  such. \<open>ideal_fpu\<close> is the arithmetic without rounding and without overflow.

  The globals and matrices of the plugin hold finite numbers (\<^verbatim>\<open>g_Time\<close> is the clock of the
  engine), so they are of type \<open>real\<close>; the one place where the plugin converts a float to
  \<^verbatim>\<open>int\<close>, the plasma formula of the texture fill, computes with \<open>real option\<close>, and the
  fill is modelled for every float that it may read as the time.
\<close>

record fpu =
  fadd :: "real \<Rightarrow> real \<Rightarrow> real option"
  fsub :: "real \<Rightarrow> real \<Rightarrow> real option"
  fmul :: "real \<Rightarrow> real \<Rightarrow> real option"
  fdiv :: "real \<Rightarrow> real \<Rightarrow> real option"
  sinf :: "real \<Rightarrow> real"
  cosf :: "real \<Rightarrow> real"
  sqrtf :: "real \<Rightarrow> real option"
  int_to_float :: "int \<Rightarrow> real"

definition ideal_fpu :: fpu where
  "ideal_fpu = \<lparr> fadd = (\<lambda>a b. Some (a + b)), fsub = (\<lambda>a b. Some (a - b)),
     fmul = (\<lambda>a b. Some (a * b)), fdiv = (\<lambda>a b. Some (a / b)), sinf = sin, cosf = cos,
     sqrtf = (\<lambda>a. if 0 \<le> a then Some (sqrt a) else None),
     int_to_float = real_of_int \<rparr>"

text \<open>
  An operation applied to operands that may be non-finite. In every operation that the
  plasma formula performs (sums, differences, products with 127, quotients by a non-zero
  literal, sine, square root), a non-finite operand gives a non-finite result.
\<close>

definition float2 :: "(real \<Rightarrow> real \<Rightarrow> real option) \<Rightarrow> real option \<Rightarrow> real option \<Rightarrow> real option" where
  "float2 op a b =
     (case a of None \<Rightarrow> None | Some u \<Rightarrow> (case b of None \<Rightarrow> None | Some v \<Rightarrow> op u v))"

text \<open>
  The conversion of a float to \<^verbatim>\<open>int\<close> drops the fraction. It is undefined for a value that
  is not a finite number, and for one whose integer part is not an \<^verbatim>\<open>int\<close> of 32 bits.
\<close>

definition float_to_int :: "real option \<Rightarrow> fault + int" where
  "float_to_int v =
     (case v of
        None \<Rightarrow> Inl UndefinedConversion
      | Some r \<Rightarrow>
          if - 2147483649 < r \<and> r < 2147483648
          then Inr (if 0 \<le> r then \<lfloor>r\<rfloor> else \<lceil>r\<rceil>)
          else Inl UndefinedConversion)"

text \<open>The literal \<^verbatim>\<open>0.7f\<close>: the single-precision number nearest to \<open>0.7\<close>.\<close>

definition f0_7 :: real where
  "f0_7 = 11744051 / 16777216"

subsection \<open>The Direct3D device as the plugin sees it\<close>

datatype bind_flag = D3D11_BIND_VERTEX_BUFFER | D3D11_BIND_CONSTANT_BUFFER

text \<open>What the plugin asks the device to create, with the arguments that vary.\<close>

datatype create_req =
    CreateBuffer nat bind_flag
  | CreateVertexShader "byte list"
  | CreatePixelShader "byte list"
  | CreateInputLayout "byte list"
  | CreateRasterizerState
  | CreateDepthStencilState
  | CreateBlendState

text \<open>
  One entry per call on the device, on a COM object or on the immediate context.
  \<open>Create req p\<close> is a creation call that stored \<open>p\<close> in its out-parameter (\<open>0\<close> when the
  call failed).
\<close>

datatype gpu_call =
    Create create_req addr
  | Release addr
  | GetImmediateContext
  | ContextRelease
  | OMSetDepthStencilState addr
  | RSSetState addr
  | OMSetBlendState addr
  | UpdateSubresourceCB addr "real list"
  | VSSetConstantBuffers addr
  | VSSetShader addr
  | PSSetShader addr
  | UpdateSubresourceVB addr "MyVertex list"
  | IASetInputLayout addr
  | IASetPrimitiveTopology
  | IASetVertexBuffers addr nat nat
  | Draw nat nat
  | GetDesc addr
  | UpdateSubresourceTex addr "byte list" nat

text \<open>
  The host: the engine, the file system and the device at the time of one call into the
  plugin. \<open>fopen\<close> gives the content of a file that can be opened; \<open>create_ok\<close> says which
  creation calls succeed; \<open>texture_desc\<close> gives width and height of the texture behind a valid
  texture pointer; \<open>uninit\<close> is the content of freshly allocated memory.
\<close>

record host =
  GetIUnityGraphics :: addr
  GetIUnityGraphicsD3D11 :: addr
  GetRenderer :: UnityGfxRenderer
  GetDevice :: addr
  fopen :: "string \<Rightarrow> byte list option"
  create_ok :: "create_req \<Rightarrow> bool"
  texture_desc :: "addr \<Rightarrow> (32 word \<times> 32 word) option"
  uninit :: "nat \<Rightarrow> byte"
  fp :: fpu

subsection \<open>The globals of the plugin\<close>

record plugin =
  g_Time :: real
  s_UnityStreamingAssetsPath :: string
  s_UnityInterfaces :: addr
  s_Graphics :: addr
  s_DeviceType :: UnityGfxRenderer
  g_TexturePointer :: addr
  g_D3D11Device :: addr
  g_D3D11VB :: addr
  g_D3D11CB :: addr
  g_D3D11VertexShader :: addr
  g_D3D11PixelShader :: addr
  g_D3D11InputLayout :: addr
  g_D3D11RasterState :: addr
  g_D3D11BlendState :: addr
  g_D3D11DepthState :: addr
  device_callback :: bool
  debug_log :: "string list"
  gpu_calls :: "gpu_call list"

text \<open>The state of a freshly loaded library: the static initialisers.\<close>

definition initial_plugin :: plugin where
  "initial_plugin = \<lparr> g_Time = 0, s_UnityStreamingAssetsPath = [], s_UnityInterfaces = 0,
     s_Graphics = 0, s_DeviceType = kUnityGfxRendererNull, g_TexturePointer = 0,
     g_D3D11Device = 0, g_D3D11VB = 0, g_D3D11CB = 0, g_D3D11VertexShader = 0,
     g_D3D11PixelShader = 0, g_D3D11InputLayout = 0, g_D3D11RasterState = 0,
     g_D3D11BlendState = 0, g_D3D11DepthState = 0, device_callback = False,
     debug_log = [], gpu_calls = [] \<rparr>"

section \<open>Helper utilities\<close>

definition DebugLog :: "string \<Rightarrow> plugin \<Rightarrow> plugin" where
  "DebugLog str s = s\<lparr>debug_log := debug_log s @ [str]\<rparr>"

definition issue :: "gpu_call \<Rightarrow> plugin \<Rightarrow> plugin" where
  "issue c s = s\<lparr>gpu_calls := gpu_calls s @ [c]\<rparr>"

text \<open>
  A creation call on the device. A handle that the device hands out is new and not null:
  the number of calls made so far, plus one. A failed call stores null.
\<close>

definition device_create :: "host \<Rightarrow> create_req \<Rightarrow> plugin \<Rightarrow> addr \<times> plugin" where
  "device_create h req s =
     (let p = (if create_ok h req then Suc (length (gpu_calls s)) else 0)
      in (p, issue (Create req p) s))"

text \<open>\<^verbatim>\<open>#define SAFE_RELEASE(a) if (a) { a->Release(); a = NULL; }\<close>: the call; the caller
  stores the null.\<close>

definition SAFE_RELEASE :: "addr \<Rightarrow> plugin \<Rightarrow> plugin" where
  "SAFE_RELEASE a s = (if a \<noteq> 0 then issue (Release a) s else s)"

section \<open>Exported setters\<close>

text \<open>\<^verbatim>\<open>SetTimeFromUnity\<close> is modelled for the calls in which the engine passes a finite
  number, which is what \<^verbatim>\<open>g_Time\<close> then holds.\<close>

definition SetTimeFromUnity :: "real \<Rightarrow> plugin \<Rightarrow> plugin" where
  "SetTimeFromUnity t s = s\<lparr>g_Time := t\<rparr>"

definition SetUnityStreamingAssetsPath :: "string \<Rightarrow> plugin \<Rightarrow> plugin" where
  "SetUnityStreamingAssetsPath path s = s\<lparr>s_UnityStreamingAssetsPath := path\<rparr>"

definition SetTextureFromUnity :: "addr \<Rightarrow> plugin \<Rightarrow> plugin" where
  "SetTextureFromUnity texturePtr s = s\<lparr>g_TexturePointer := texturePtr\<rparr>"

section \<open>Direct3D 11 setup and teardown\<close>

text \<open>\<^verbatim>\<open>LoadFileIntoBuffer\<close>: the flag it returns, the buffer (left empty when the file cannot be
  opened, and empty for an empty file), and the log. The callers in
  \<^verbatim>\<open>EnsureD3D11ResourcesAreCreated\<close> drop the flag and look at the size of the buffer.\<close>

definition LoadFileIntoBuffer :: "host \<Rightarrow> string \<Rightarrow> plugin \<Rightarrow> bool \<times> byte list \<times> plugin" where
  "LoadFileIntoBuffer h fileName s =
     (case fopen h fileName of
        Some content \<Rightarrow> (True, content, s)
      | None \<Rightarrow> (False, [], DebugLog (''Failed to find '' @ fileName) s))"

definition vertexShaderPath :: "plugin \<Rightarrow> string" where
  "vertexShaderPath s = s_UnityStreamingAssetsPath s @ ''/Shaders/DX11_9_1/SimpleVertexShader.cso''"

definition fragmentShaderPath :: "plugin \<Rightarrow> string" where
  "fragmentShaderPath s = s_UnityStreamingAssetsPath s @ ''/Shaders/DX11_9_1/SimplePixelShader.cso''"

text \<open>The two buffers of \<^verbatim>\<open>EnsureD3D11ResourcesAreCreated\<close> (lines 286 to 300).\<close>

definition create_buffers :: "host \<Rightarrow> plugin \<Rightarrow> plugin" where
  "create_buffers h s =
     (let (vb, s) = device_create h (CreateBuffer 1024 D3D11_BIND_VERTEX_BUFFER) s;
          s = s\<lparr>g_D3D11VB := vb\<rparr>;
          (cb, s) = device_create h (CreateBuffer 64 D3D11_BIND_CONSTANT_BUFFER) s
      in s\<lparr>g_D3D11CB := cb\<rparr>)"

text \<open>The shaders and the input layout (lines 303 to 328). \<^verbatim>\<open>FAILED(hr)\<close> is read off the
  handle: a creation call fails exactly when it stores null.\<close>

definition create_shaders :: "host \<Rightarrow> plugin \<Rightarrow> plugin" where
  "create_shaders h s =
     (let (ok1, vertexShader, s) = LoadFileIntoBuffer h (vertexShaderPath s) s;
          (ok2, pixelShader, s) = LoadFileIntoBuffer h (fragmentShaderPath s) s;
          s = (if vertexShader \<noteq> [] \<and> pixelShader \<noteq> [] then
                 (let (vs, s) = device_create h (CreateVertexShader vertexShader) s;
                      s = s\<lparr>g_D3D11VertexShader := vs\<rparr>;
                      s = (if vs = 0 then DebugLog (''Failed to create vertex shader.'' @ [CHR 0x0A]) s else s);
                      (ps, s) = device_create h (CreatePixelShader pixelShader) s;
                      s = s\<lparr>g_D3D11PixelShader := ps\<rparr>
                  in if ps = 0 then DebugLog (''Failed to create pixel shader.'' @ [CHR 0x0A]) s else s)
               else DebugLog (''Failed to load vertex or pixel shader.'' @ [CHR 0x0A]) s)
      in if g_D3D11VertexShader s \<noteq> 0 \<and> vertexShader \<noteq> [] then
           (let (il, s) = device_create h (CreateInputLayout vertexShader) s
            in s\<lparr>g_D3D11InputLayout := il\<rparr>)
         else s)"

text \<open>The render states (lines 330 to 349).\<close>

definition create_render_states :: "host \<Rightarrow> plugin \<Rightarrow> plugin" where
  "create_render_states h s =
     (let (rs, s) = device_create h CreateRasterizerState s;
          s = s\<lparr>g_D3D11RasterState := rs\<rparr>;
          (ds, s) = device_create h CreateDepthStencilState s;
          s = s\<lparr>g_D3D11DepthState := ds\<rparr>;
          (bs, s) = device_create h CreateBlendState s
      in s\<lparr>g_D3D11BlendState := bs\<rparr>)"

definition EnsureD3D11ResourcesAreCreated :: "host \<Rightarrow> plugin \<Rightarrow> fault + (bool \<times> plugin)" where
  "EnsureD3D11ResourcesAreCreated h s =
     (if g_D3D11VertexShader s \<noteq> 0 then Inr (True, s)
      else if s_UnityStreamingAssetsPath s = [] then Inr (False, s)
      else if g_D3D11Device s = 0 then Inl NullDeref
      else Inr (True, create_render_states h (create_shaders h (create_buffers h s))))"

definition ReleaseD3D11Resources :: "plugin \<Rightarrow> plugin" where
  "ReleaseD3D11Resources s =
     (let s = (SAFE_RELEASE (g_D3D11VB s) s)\<lparr>g_D3D11VB := 0\<rparr>;
          s = (SAFE_RELEASE (g_D3D11CB s) s)\<lparr>g_D3D11CB := 0\<rparr>;
          s = (SAFE_RELEASE (g_D3D11VertexShader s) s)\<lparr>g_D3D11VertexShader := 0\<rparr>;
          s = (SAFE_RELEASE (g_D3D11PixelShader s) s)\<lparr>g_D3D11PixelShader := 0\<rparr>;
          s = (SAFE_RELEASE (g_D3D11InputLayout s) s)\<lparr>g_D3D11InputLayout := 0\<rparr>;
          s = (SAFE_RELEASE (g_D3D11RasterState s) s)\<lparr>g_D3D11RasterState := 0\<rparr>;
          s = (SAFE_RELEASE (g_D3D11BlendState s) s)\<lparr>g_D3D11BlendState := 0\<rparr>
      in (SAFE_RELEASE (g_D3D11DepthState s) s)\<lparr>g_D3D11DepthState := 0\<rparr>)"

definition DoEventGraphicsDeviceD3D11 :: "host \<Rightarrow> UnityGfxDeviceEventType \<Rightarrow> plugin \<Rightarrow> fault + plugin" where
  "DoEventGraphicsDeviceD3D11 h eventType s =
     (if eventType = kUnityGfxDeviceEventInitialize then
        (if s_UnityInterfaces s = 0 then Inl NullDeref
         else if GetIUnityGraphicsD3D11 h = 0 then Inl NullDeref
         else (case EnsureD3D11ResourcesAreCreated h (s\<lparr>g_D3D11Device := GetDevice h\<rparr>) of
                 Inl e \<Rightarrow> Inl e
               | Inr (ready, s') \<Rightarrow> Inr s'))
      else if eventType = kUnityGfxDeviceEventShutdown then Inr (ReleaseD3D11Resources s)
      else Inr s)"

section \<open>Device events\<close>

definition OnGraphicsDeviceEvent :: "host \<Rightarrow> UnityGfxDeviceEventType \<Rightarrow> plugin \<Rightarrow> fault + plugin" where
  "OnGraphicsDeviceEvent h eventType s =
     (let currentDeviceType = s_DeviceType s;
          r = (case eventType of
                 kUnityGfxDeviceEventInitialize \<Rightarrow>
                   (let s = DebugLog (''OnGraphicsDeviceEvent(Initialize).'' @ [CHR 0x0A]) s
                    in if s_Graphics s = 0 then Inl NullDeref
                       else Inr (GetRenderer h, s\<lparr>s_DeviceType := GetRenderer h\<rparr>))
               | kUnityGfxDeviceEventShutdown \<Rightarrow>
                   (let s = DebugLog (''OnGraphicsDeviceEvent(Shutdown).'' @ [CHR 0x0A]) s
                    in Inr (currentDeviceType,
                            s\<lparr>s_DeviceType := kUnityGfxRendererNull, g_TexturePointer := 0\<rparr>))
               | kUnityGfxDeviceEventBeforeReset \<Rightarrow>
                   Inr (currentDeviceType,
                        DebugLog (''OnGraphicsDeviceEvent(BeforeReset).'' @ [CHR 0x0A]) s)
               | kUnityGfxDeviceEventAfterReset \<Rightarrow>
                   Inr (currentDeviceType,
                        DebugLog (''OnGraphicsDeviceEvent(AfterReset).'' @ [CHR 0x0A]) s))
      in case r of
           Inl e \<Rightarrow> Inl e
         | Inr (currentDeviceType, s) \<Rightarrow>
             if currentDeviceType = kUnityGfxRendererD3D11
             then DoEventGraphicsDeviceD3D11 h eventType s
             else Inr s)"

text \<open>\<^verbatim>\<open>UnityPluginLoad\<close> keeps the interface pointers, registers the callback and runs the
  Initialize event itself; \<^verbatim>\<open>UnityPluginUnload\<close> takes the callback back.\<close>

definition UnityPluginLoad :: "host \<Rightarrow> addr \<Rightarrow> plugin \<Rightarrow> fault + plugin" where
  "UnityPluginLoad h unityInterfaces s =
     (let s = s\<lparr>s_UnityInterfaces := unityInterfaces\<rparr>
      in if s_UnityInterfaces s = 0 then Inl NullDeref
         else let s = s\<lparr>s_Graphics := GetIUnityGraphics h\<rparr>
              in if s_Graphics s = 0 then Inl NullDeref
                 else OnGraphicsDeviceEvent h kUnityGfxDeviceEventInitialize
                        (s\<lparr>device_callback := True\<rparr>))"

definition UnityPluginUnload :: "plugin \<Rightarrow> fault + plugin" where
  "UnityPluginUnload s =
     (if s_Graphics s = 0 then Inl NullDeref else Inr (s\<lparr>device_callback := False\<rparr>))"

section \<open>The render event\<close>

text \<open>\<^verbatim>\<open>SetDefaultGraphicsState\<close>: the three state objects are bound on the immediate context.\<close>

definition issue_all :: "gpu_call list \<Rightarrow> plugin \<Rightarrow> plugin" where
  "issue_all cs s = s\<lparr>gpu_calls := gpu_calls s @ cs\<rparr>"

definition SetDefaultGraphicsState :: "plugin \<Rightarrow> fault + plugin" where
  "SetDefaultGraphicsState s =
     (if s_DeviceType s = kUnityGfxRendererD3D11 then
        (if g_D3D11Device s = 0 then Inl NullDeref
         else Inr (issue_all
                [GetImmediateContext,
                 OMSetDepthStencilState (g_D3D11DepthState s),
                 RSSetState (g_D3D11RasterState s),
                 OMSetBlendState (g_D3D11BlendState s),
                 ContextRelease] s))
      else Inr s)"

subsection \<open>The texture fill\<close>

text \<open>
  \<^verbatim>\<open>int\<close> is 32 bits wide. \<open>x\<close> and \<open>y\<close> are loop counters below \<open>width\<close> and \<open>height\<close>; the
  sums and products of them that the plasma formula takes are \<^verbatim>\<open>int\<close> arithmetic, where
  an overflow is undefined behaviour.
\<close>

definition fits_int :: "int \<Rightarrow> bool" where
  "fits_int v = (- 2147483648 \<le> v \<and> v \<le> 2147483647)"

text \<open>The value \<^verbatim>\<open>vv\<close> of one pixel (lines 423 to 428); \<open>t\<close> is \<^verbatim>\<open>g_Time * 4.0f\<close>, which
  may have overflowed. The division by 4 is the division of \<^verbatim>\<open>int\<close>, which truncates.\<close>

definition plasma :: "fpu \<Rightarrow> real option \<Rightarrow> int \<Rightarrow> int \<Rightarrow> fault + int" where
  "plasma f t x y =
     (if fits_int (x + y) \<and> fits_int (x * x) \<and> fits_int (y * y) \<and> fits_int (x * x + y * y) then
        (case float_to_int
              (float2 (fadd f)
                (float2 (fadd f)
                  (float2 (fadd f)
                    (float2 (fadd f) (Some 127) (float2 (fmul f) (Some 127) (map_option (sinf f)
                       (float2 (fadd f) (fdiv f (int_to_float f x) 7) t))))
                    (float2 (fadd f) (Some 127) (float2 (fmul f) (Some 127) (map_option (sinf f)
                       (float2 (fsub f) (fdiv f (int_to_float f y) 5) t)))))
                  (float2 (fadd f) (Some 127) (float2 (fmul f) (Some 127) (map_option (sinf f)
                     (float2 (fsub f) (fdiv f (int_to_float f (x + y)) 6) t)))))
                (float2 (fadd f) (Some 127) (float2 (fmul f) (Some 127) (map_option (sinf f)
                   (float2 (fsub f)
                      (float2 (fdiv f) (sqrtf f (int_to_float f (x * x + y * y))) (Some 4)) t)))))
         of Inl e \<Rightarrow> Inl e | Inr n \<Rightarrow> Inr (n sdiv 4))
      else Inl SignedOverflow)"

text \<open>A store of one byte at offset \<open>i\<close> of the block \<open>buf\<close>.\<close>

definition store_byte :: "byte list \<Rightarrow> int \<Rightarrow> byte \<Rightarrow> fault + byte list" where
  "store_byte buf i v =
     (if 0 \<le> i \<and> i < int (length buf) then Inr (buf[nat i := v]) else Inl OutOfBounds)"

text \<open>\<^verbatim>\<open>ptr[0] = vv; ptr[1] = vv; ptr[2] = vv; ptr[3] = vv;\<close> The conversion of \<^verbatim>\<open>vv\<close> to
  \<^verbatim>\<open>unsigned char\<close> keeps its low 8 bits.\<close>

definition write_pixel :: "byte list \<Rightarrow> int \<Rightarrow> int \<Rightarrow> fault + byte list" where
  "write_pixel buf ptr vv =
     (case store_byte buf ptr (word_of_int vv) of Inl e \<Rightarrow> Inl e | Inr buf \<Rightarrow>
       (case store_byte buf (ptr + 1) (word_of_int vv) of Inl e \<Rightarrow> Inl e | Inr buf \<Rightarrow>
         (case store_byte buf (ptr + 2) (word_of_int vv) of Inl e \<Rightarrow> Inl e | Inr buf \<Rightarrow>
            store_byte buf (ptr + 3) (word_of_int vv))))"

text \<open>The loop over \<open>x\<close>; \<open>ptr\<close> is the offset of the pixel in the block.\<close>

function fill_row :: "fpu \<Rightarrow> real option \<Rightarrow> int \<Rightarrow> int \<Rightarrow> int \<Rightarrow> int \<Rightarrow> byte list \<Rightarrow> fault + byte list" where
  "fill_row f t width y x ptr buf =
     (if x < width then
        (case plasma f t x y of Inl e \<Rightarrow> Inl e | Inr vv \<Rightarrow>
          (case write_pixel buf ptr vv of Inl e \<Rightarrow> Inl e | Inr buf' \<Rightarrow>
             fill_row f t width y (x + 1) (ptr + 4) buf'))
      else Inr buf)"
  by pat_completeness auto
termination
  by (relation "measure (\<lambda>(f, t, width, y, x, ptr, buf). nat (width - x))") auto

text \<open>The loop over \<open>y\<close>; \<open>dst\<close> is the offset of the row in the block.\<close>

function fill_rows :: "fpu \<Rightarrow> real option \<Rightarrow> int \<Rightarrow> int \<Rightarrow> int \<Rightarrow> int \<Rightarrow> int \<Rightarrow> byte list \<Rightarrow> fault + byte list" where
  "fill_rows f t width height stride y dst buf =
     (if y < height then
        (case fill_row f t width y 0 dst buf of Inl e \<Rightarrow> Inl e | Inr buf' \<Rightarrow>
         fill_rows f t width height stride (y + 1) (dst + stride) buf')
      else Inr buf)"
  by pat_completeness auto
termination
  by (relation "measure (\<lambda>(f, t, width, height, stride, y, dst, buf). nat (height - y))") auto

text \<open>\<^verbatim>\<open>FillTextureFromCode\<close>; \<open>time\<close> is the float \<^verbatim>\<open>g_Time\<close> that it reads (any float, also one
  that is not a finite number), \<open>buf\<close> the block that \<^verbatim>\<open>dst\<close> points to.\<close>

definition FillTextureFromCode :: "fpu \<Rightarrow> real option \<Rightarrow> int \<Rightarrow> int \<Rightarrow> int \<Rightarrow> byte list \<Rightarrow> fault + byte list" where
  "FillTextureFromCode f time width height stride buf =
     (let t = float2 (fmul f) time (Some 4) in fill_rows f t width height stride 0 0 buf)"

subsection \<open>Drawing\<close>

text \<open>The texture update at the end of \<^verbatim>\<open>DoRendering\<close> (lines 477 to 487). \<^verbatim>\<open>desc.Width\<close>
  and \<^verbatim>\<open>desc.Height\<close> are \<^verbatim>\<open>UINT\<close>, so the size of the block and the stride wrap at
  \<open>2 ^ 32\<close>, and \<^verbatim>\<open>FillTextureFromCode\<close> receives them as \<^verbatim>\<open>int\<close>. The fill reads
  \<^verbatim>\<open>g_Time\<close>, a finite number here.\<close>

definition update_texture :: "host \<Rightarrow> plugin \<Rightarrow> fault + plugin" where
  "update_texture h s =
     (if g_TexturePointer s \<noteq> 0 then
        (case texture_desc h (g_TexturePointer s) of
           None \<Rightarrow> Inl InvalidPointer
         | Some (Width, Height) \<Rightarrow>
             (let s = issue (GetDesc (g_TexturePointer s)) s;
                  data = map (uninit h) [0 ..< unat (Width * Height * 4)]
              in case FillTextureFromCode (fp h) (Some (g_Time s)) (sint Width) (sint Height)
                        (sint (Width * 4)) data of
                   Inl e \<Rightarrow> Inl e
                 | Inr data \<Rightarrow>
                     Inr (issue (UpdateSubresourceTex (g_TexturePointer s) data (unat (Width * 4))) s)))
      else Inr s)"

definition DoRendering ::
    "host \<Rightarrow> real list \<Rightarrow> real list \<Rightarrow> real list \<Rightarrow> MyVertex list \<Rightarrow> plugin \<Rightarrow> fault + plugin" where
  "DoRendering h worldMatrix identityMatrix projectionMatrix verts s =
     (if s_DeviceType s = kUnityGfxRendererD3D11 then
        (case EnsureD3D11ResourcesAreCreated h s of
           Inl e \<Rightarrow> Inl e
         | Inr (ready, s) \<Rightarrow>
             if ready then
               (if g_D3D11Device s = 0 then Inl NullDeref
                else
                  (let s = issue_all
                         [GetImmediateContext,
                          UpdateSubresourceCB (g_D3D11CB s) worldMatrix,
                          VSSetConstantBuffers (g_D3D11CB s),
                          VSSetShader (g_D3D11VertexShader s),
                          PSSetShader (g_D3D11PixelShader s),
                          UpdateSubresourceVB (g_D3D11VB s) (take 3 verts),
                          IASetInputLayout (g_D3D11InputLayout s),
                          IASetPrimitiveTopology,
                          IASetVertexBuffers (g_D3D11VB s) 16 0,
                          Draw 3 0] s
                   in case update_texture h s of
                        Inl e \<Rightarrow> Inl e
                      | Inr s \<Rightarrow> Inr (issue ContextRelease s)))
             else Inr s)
      else Inr s)"

text \<open>The world matrix that \<^verbatim>\<open>OnRenderEvent\<close> builds from \<^verbatim>\<open>g_Time\<close> (lines 186 to 195),
  in the order of the array.\<close>

definition worldMatrix :: "fpu \<Rightarrow> real \<Rightarrow> real list" where
  "worldMatrix f time =
     (let phi = time;
          cosPhi = cosf f phi;
          sinPhi = sinf f phi
      in [cosPhi, - sinPhi, 0, 0,
          sinPhi, cosPhi, 0, 0,
          0, 0, 1, 0,
          0, 0, f0_7, 1])"

definition identityMatrix :: "real list" where
  "identityMatrix = [1, 0, 0, 0,  0, 1, 0, 0,  0, 0, 1, 0,  0, 0, 0, 1]"

definition triangle :: "MyVertex list" where
  "triangle = [MyVertex (- 0.5) (- 0.25) 0 0xFFff0000,
               MyVertex 0.5 (- 0.25) 0 0xFF00ff00,
               MyVertex 0 0.5 0 0xFF0000ff]"

definition OnRenderEvent :: "host \<Rightarrow> int \<Rightarrow> plugin \<Rightarrow> fault + plugin" where
  "OnRenderEvent h eventID s =
     (if s_DeviceType s = kUnityGfxRendererNull then Inr s
      else
        (case SetDefaultGraphicsState s of
           Inl e \<Rightarrow> Inl e
         | Inr s' \<Rightarrow>
             DoRendering h (worldMatrix (fp h) (g_Time s)) identityMatrix identityMatrix triangle s'))"

section \<open>Sequences of calls, and what the traces are measured by\<close>

text \<open>The calls the host can make into the plugin.\<close>

datatype api_call =
    CallSetTimeFromUnity real
  | CallSetUnityStreamingAssetsPath string
  | CallSetTextureFromUnity addr
  | CallUnityPluginLoad addr
  | CallUnityPluginUnload
  | CallOnGraphicsDeviceEvent UnityGfxDeviceEventType
  | CallOnRenderEvent int

fun api_step :: "host \<Rightarrow> api_call \<Rightarrow> plugin \<Rightarrow> fault + plugin" where
  "api_step h (CallSetTimeFromUnity t) s = Inr (SetTimeFromUnity t s)"
| "api_step h (CallSetUnityStreamingAssetsPath p) s = Inr (SetUnityStreamingAssetsPath p s)"
| "api_step h (CallSetTextureFromUnity p) s = Inr (SetTextureFromUnity p s)"
| "api_step h (CallUnityPluginLoad p) s = UnityPluginLoad h p s"
| "api_step h CallUnityPluginUnload s = UnityPluginUnload s"
| "api_step h (CallOnGraphicsDeviceEvent e) s = OnGraphicsDeviceEvent h e s"
| "api_step h (CallOnRenderEvent e) s = OnRenderEvent h e s"

text \<open>A run: each call with the host as it is at that call. It stops at the first fault.\<close>

fun run :: "(host \<times> api_call) list \<Rightarrow> plugin \<Rightarrow> fault + plugin" where
  "run [] s = Inr s"
| "run ((h, c) # cs) s = (case api_step h c s of Inl e \<Rightarrow> Inl e | Inr s' \<Rightarrow> run cs s')"

text \<open>
  The states the plugin can be in when the engine runs on the renderer \<open>r\<close>: the engine
  chooses its graphics API once, so \<^verbatim>\<open>GetRenderer\<close> has the same answer at every call;
  everything else about the host may change from call to call.
\<close>

inductive reachable :: "UnityGfxRenderer \<Rightarrow> plugin \<Rightarrow> bool" for r :: UnityGfxRenderer where
  reachable_initial: "reachable r initial_plugin"
| reachable_step:
    "reachable r s \<Longrightarrow> GetRenderer h = r \<Longrightarrow> api_step h c s = Inr s' \<Longrightarrow> reachable r s'"

text \<open>Render events only, each with its host and its event id.\<close>

fun render_events :: "(host \<times> int) list \<Rightarrow> plugin \<Rightarrow> fault + plugin" where
  "render_events [] s = Inr s"
| "render_events ((h, eventID) # es) s =
     (case OnRenderEvent h eventID s of Inl e \<Rightarrow> Inl e | Inr s' \<Rightarrow> render_events es s')"

text \<open>\<open>n\<close> calls of \<^verbatim>\<open>EnsureD3D11ResourcesAreCreated\<close> in a row: what each returned, and the
  state after the last.\<close>

fun ensure_times :: "nat \<Rightarrow> host \<Rightarrow> plugin \<Rightarrow> fault + (bool list \<times> plugin)" where
  "ensure_times 0 h s = Inr ([], s)"
| "ensure_times (Suc n) h s =
     (case EnsureD3D11ResourcesAreCreated h s of
        Inl e \<Rightarrow> Inl e
      | Inr (b, s') \<Rightarrow>
          (case ensure_times n h s' of Inl e \<Rightarrow> Inl e | Inr (bs, s'') \<Rightarrow> Inr (b # bs, s'')))"

text \<open>The eight members of the resource set, in the order in which they are released.\<close>

definition resource_handles :: "plugin \<Rightarrow> addr list" where
  "resource_handles s =
     [g_D3D11VB s, g_D3D11CB s, g_D3D11VertexShader s, g_D3D11PixelShader s,
      g_D3D11InputLayout s, g_D3D11RasterState s, g_D3D11BlendState s, g_D3D11DepthState s]"

fun is_created :: "gpu_call \<Rightarrow> bool" where
  "is_created (Create req p) = (p \<noteq> 0)"
| "is_created c = False"

fun is_release :: "gpu_call \<Rightarrow> bool" where
  "is_release (Release p) = True"
| "is_release c = False"

fun is_create_call :: "gpu_call \<Rightarrow> bool" where
  "is_create_call (Create req p) = True"
| "is_create_call c = False"

fun created_reqs :: "gpu_call list \<Rightarrow> create_req list" where
  "created_reqs [] = []"
| "created_reqs (Create req p # cs) = req # created_reqs cs"
| "created_reqs (c # cs) = created_reqs cs"

fun is_texture_call :: "gpu_call \<Rightarrow> bool" where
  "is_texture_call (GetDesc p) = True"
| "is_texture_call (UpdateSubresourceTex p d n) = True"
| "is_texture_call c = False"

fun is_draw :: "gpu_call \<Rightarrow> bool" where
  "is_draw (Draw n k) = True"
| "is_draw c = False"

definition create_count :: "gpu_call list \<Rightarrow> nat" where
  "create_count cs = length (filter is_created cs)"

definition release_count :: "gpu_call list \<Rightarrow> nat" where
  "release_count cs = length (filter is_release cs)"

text \<open>The calls a step added to the trace.\<close>

definition new_calls :: "plugin \<Rightarrow> plugin \<Rightarrow> gpu_call list" where
  "new_calls s s' = drop (length (gpu_calls s)) (gpu_calls s')"

text \<open>The shader files can be loaded: both files open and are not empty, and the device
  accepts the vertex shader.\<close>

definition shaders_loadable :: "host \<Rightarrow> plugin \<Rightarrow> bool" where
  "shaders_loadable h s =
     (case (fopen h (vertexShaderPath s), fopen h (fragmentShaderPath s)) of
        (Some vs, Some ps) \<Rightarrow> vs \<noteq> [] \<and> ps \<noteq> [] \<and> create_ok h (CreateVertexShader vs)
      | _ \<Rightarrow> False)"

text \<open>Whether the device pointer can be dereferenced where the plugin does so.\<close>

definition device_valid :: "plugin \<Rightarrow> bool" where
  "device_valid s = (if s_DeviceType s = kUnityGfxRendererD3D11 then g_D3D11Device s \<noteq> 0 else True)"

text \<open>The globals that only the host sets, or that a device event sets: they are the same
  in both states.\<close>

definition same_globals :: "plugin \<Rightarrow> plugin \<Rightarrow> bool" where
  "same_globals s s' =
     (g_Time s' = g_Time s \<and> s_UnityStreamingAssetsPath s' = s_UnityStreamingAssetsPath s
      \<and> s_UnityInterfaces s' = s_UnityInterfaces s \<and> s_Graphics s' = s_Graphics s
      \<and> s_DeviceType s' = s_DeviceType s \<and> g_TexturePointer s' = g_TexturePointer s
      \<and> g_D3D11Device s' = g_D3D11Device s \<and> device_callback s' = device_callback s)"

text \<open>A render event in this state gets past the ready check of \<^verbatim>\<open>DoRendering\<close>.\<close>

definition will_draw :: "plugin \<Rightarrow> bool" where
  "will_draw s =
     (s_DeviceType s = kUnityGfxRendererD3D11
      \<and> (g_D3D11VertexShader s \<noteq> 0 \<or> s_UnityStreamingAssetsPath s \<noteq> []))"

text \<open>Resources exist only while the device type is Direct3D 11, and the device type is
  Direct3D 11 only on an engine that runs on it.\<close>

definition resources_follow_device :: "UnityGfxRenderer \<Rightarrow> plugin \<Rightarrow> bool" where
  "resources_follow_device r s =
     ((resource_handles s = [0, 0, 0, 0, 0, 0, 0, 0] \<or> s_DeviceType s = kUnityGfxRendererD3D11)
      \<and> (s_DeviceType s \<noteq> kUnityGfxRendererD3D11 \<or> r = kUnityGfxRendererD3D11))"

text \<open>
  Arithmetic that rounds: each operation whose exact result is at most \<open>2\<^sup>1\<^sup>0\<^sup>0\<close> in size
  gives a finite number that differs from the exact result by at most the fraction
  \<open>2\<^sup>-\<^sup>2\<^sup>0\<close> of it plus \<open>2\<^sup>-\<^sup>1\<^sup>0\<^sup>0\<close>, and the sine is between \<open>-1\<close> and \<open>1\<close>. Single precision
  meets these bounds with room to spare in every rounding mode (it rounds within the fraction
  \<open>2\<^sup>-\<^sup>2\<^sup>3\<close>, within \<open>2\<^sup>-\<^sup>1\<^sup>4\<^sup>9\<close> near zero, and overflows beyond \<open>2\<^sup>1\<^sup>2\<^sup>7\<close> only), and so does exact
  arithmetic.
\<close>

definition fpu_accurate :: "fpu \<Rightarrow> bool" where
  "fpu_accurate f =
     ((\<forall>a. \<bar>sinf f a\<bar> \<le> 1)
      \<and> (\<forall>a b. \<bar>a + b\<bar> \<le> 2 ^ 100 \<longrightarrow>
             (\<exists>r. fadd f a b = Some r \<and> \<bar>r - (a + b)\<bar> \<le> \<bar>a + b\<bar> / 2 ^ 20 + 1 / 2 ^ 100))
      \<and> (\<forall>a b. \<bar>a - b\<bar> \<le> 2 ^ 100 \<longrightarrow>
             (\<exists>r. fsub f a b = Some r \<and> \<bar>r - (a - b)\<bar> \<le> \<bar>a - b\<bar> / 2 ^ 20 + 1 / 2 ^ 100))
      \<and> (\<forall>a b. \<bar>a * b\<bar> \<le> 2 ^ 100 \<longrightarrow>
             (\<exists>r. fmul f a b = Some r \<and> \<bar>r - a * b\<bar> \<le> \<bar>a * b\<bar> / 2 ^ 20 + 1 / 2 ^ 100))
      \<and> (\<forall>a b. b \<noteq> 0 \<and> \<bar>a / b\<bar> \<le> 2 ^ 100 \<longrightarrow>
             (\<exists>r. fdiv f a b = Some r \<and> \<bar>r - a / b\<bar> \<le> \<bar>a / b\<bar> / 2 ^ 20 + 1 / 2 ^ 100))
      \<and> (\<forall>a. 0 \<le> a \<and> a \<le> 2 ^ 100 \<longrightarrow>
             (\<exists>r. sqrtf f a = Some r \<and> \<bar>r - sqrt a\<bar> \<le> sqrt a / 2 ^ 20 + 1 / 2 ^ 100))
      \<and> (\<forall>n. \<bar>int_to_float f n - real_of_int n\<bar> \<le> \<bar>real_of_int n\<bar> / 2 ^ 20))"

text \<open>The byte that the fill stores in each channel of the pixel \<open>(x, y)\<close>.\<close>

definition pixel_byte :: "fpu \<Rightarrow> real option \<Rightarrow> int \<Rightarrow> int \<Rightarrow> byte" where
  "pixel_byte f t x y = (case plasma f t x y of Inl e \<Rightarrow> 0 | Inr vv \<Rightarrow> word_of_int vv)"

subsection \<open>Matrices, as the description of the world matrix reads\<close>

text \<open>Matrices of 4 by 4 are lists of 16 numbers, row after row, as the arrays of
  \<^verbatim>\<open>OnRenderEvent\<close> are. \<open>mat_mul\<close> is the matrix product, \<open>rotation_z c s\<close> the rotation
  about the third (viewing) axis with cosine \<open>c\<close> and sine \<open>s\<close>, \<open>depth_shift d\<close> the identity
  but for the entry \<open>d\<close> of the depth axis in the last row, and \<open>rotation_block\<close> the upper
  left 2 by 2 block of a matrix.\<close>

definition mat_mul :: "real list \<Rightarrow> real list \<Rightarrow> real list" where
  "mat_mul a b =
     concat (map (\<lambda>i. map (\<lambda>j. sum_list (map (\<lambda>k. a ! (4 * i + k) * b ! (4 * k + j)) [0, 1, 2, 3]))
                          [0, 1, 2, 3])
                 [0, 1, 2, 3])"

definition rotation_z :: "real \<Rightarrow> real \<Rightarrow> real list" where
  "rotation_z c s = [c, - s, 0, 0,  s, c, 0, 0,  0, 0, 1, 0,  0, 0, 0, 1]"

definition depth_shift :: "real \<Rightarrow> real list" where
  "depth_shift d = [1, 0, 0, 0,  0, 1, 0, 0,  0, 0, 1, 0,  0, 0, d, 1]"

definition rotation_block :: "real list \<Rightarrow> real list" where
  "rotation_block m = [m ! 0, m ! 1, m ! 4, m ! 5]"

section \<open>Concrete hosts and states\<close>

text \<open>An engine on Direct3D 11 whose device creates everything it is asked for, where every
  file opens with one byte of content, and where address 9 is a texture of 2 by 1 pixels.\<close>

definition d3d11_host :: host where
  "d3d11_host = \<lparr> GetIUnityGraphics = 1, GetIUnityGraphicsD3D11 = 2,
     GetRenderer = kUnityGfxRendererD3D11, GetDevice = 3,
     fopen = (\<lambda>name. Some [1]), create_ok = (\<lambda>req. True),
     texture_desc = (\<lambda>p. if p = 9 then Some (2, 1) else None),
     uninit = (\<lambda>i. 0), fp = ideal_fpu \<rparr>"

text \<open>The same engine with no shader file on disk.\<close>

definition no_shader_host :: host where
  "no_shader_host = d3d11_host\<lparr>fopen := (\<lambda>name. None)\<rparr>"

text \<open>The first engine with a device that rejects every pixel shader.\<close>

definition pixel_reject_host :: host where
  "pixel_reject_host =
     d3d11_host\<lparr>create_ok := (\<lambda>req. case req of CreatePixelShader ps \<Rightarrow> False | _ \<Rightarrow> True)\<rparr>"

text \<open>The plugin after \<^verbatim>\<open>UnityPluginLoad\<close> on that engine and
  \<^verbatim>\<open>SetUnityStreamingAssetsPath("A")\<close>, with nothing created yet.\<close>

definition path_set_plugin :: plugin where
  "path_set_plugin = initial_plugin\<lparr>s_UnityStreamingAssetsPath := ''A'', s_UnityInterfaces := 1,
     s_Graphics := 1, s_DeviceType := kUnityGfxRendererD3D11, g_D3D11Device := 3,
     device_callback := True,
     debug_log := [''OnGraphicsDeviceEvent(Initialize).'' @ [CHR 0x0A]]\<rparr>"

text \<open>The plugin after \<^verbatim>\<open>SetUnityStreamingAssetsPath("A")\<close> and then
  \<^verbatim>\<open>UnityPluginLoad\<close> on \<open>d3d11_host\<close>: the Initialize event has created all eight
  resources.\<close>

definition ready_plugin :: plugin where
  "ready_plugin = \<lparr> g_Time = 0, s_UnityStreamingAssetsPath = ''A'', s_UnityInterfaces = 1,
     s_Graphics = 1, s_DeviceType = kUnityGfxRendererD3D11, g_TexturePointer = 0,
     g_D3D11Device = 3, g_D3D11VB = 1, g_D3D11CB = 2, g_D3D11VertexShader = 3,
     g_D3D11PixelShader = 4, g_D3D11InputLayout = 5, g_D3D11RasterState = 6,
     g_D3D11BlendState = 8, g_D3D11DepthState = 7, device_callback = True,
     debug_log = [''OnGraphicsDeviceEvent(Initialize).'' @ [CHR 0x0A]],
     gpu_calls = [Create (CreateBuffer 1024 D3D11_BIND_VERTEX_BUFFER) 1,
                  Create (CreateBuffer 64 D3D11_BIND_CONSTANT_BUFFER) 2,
                  Create (CreateVertexShader [1]) 3,
                  Create (CreatePixelShader [1]) 4,
                  Create (CreateInputLayout [1]) 5,
                  Create CreateRasterizerState 6,
                  Create CreateDepthStencilState 7,
                  Create CreateBlendState 8] \<rparr>"

text \<open>A session on an engine with no shader file on disk: the plugin is loaded (which runs
  the Initialize event), the script sets the asset path, two frames are rendered, and the
  device shuts down.\<close>

definition leak_calls :: "(host \<times> api_call) list" where
  "leak_calls =
     [(no_shader_host, CallUnityPluginLoad 1),
      (no_shader_host, CallSetUnityStreamingAssetsPath ''A''),
      (no_shader_host, CallOnRenderEvent 1),
      (no_shader_host, CallOnRenderEvent 1),
      (no_shader_host, CallOnGraphicsDeviceEvent kUnityGfxDeviceEventShutdown)]"

section \<open>Properties of the resource creation\<close>

lemmas create_defs = device_create_def issue_def Let_def LoadFileIntoBuffer_def DebugLog_def

lemma create_buffers_frame:
  "g_Time (create_buffers h s) = g_Time s"
  "s_UnityStreamingAssetsPath (create_buffers h s) = s_UnityStreamingAssetsPath s"
  "s_UnityInterfaces (create_buffers h s) = s_UnityInterfaces s"
  "s_Graphics (create_buffers h s) = s_Graphics s"
  "s_DeviceType (create_buffers h s) = s_DeviceType s"
  "g_TexturePointer (create_buffers h s) = g_TexturePointer s"
  "g_D3D11Device (create_buffers h s) = g_D3D11Device s"
  "device_callback (create_buffers h s) = device_callback s"
  "g_D3D11VertexShader (create_buffers h s) = g_D3D11VertexShader s"
  by (simp_all add: create_buffers_def create_defs)

lemma create_shaders_frame:
  "g_Time (create_shaders h s) = g_Time s"
  "s_UnityStreamingAssetsPath (create_shaders h s) = s_UnityStreamingAssetsPath s"
  "s_UnityInterfaces (create_shaders h s) = s_UnityInterfaces s"
  "s_Graphics (create_shaders h s) = s_Graphics s"
  "s_DeviceType (create_shaders h s) = s_DeviceType s"
  "g_TexturePointer (create_shaders h s) = g_TexturePointer s"
  "g_D3D11Device (create_shaders h s) = g_D3D11Device s"
  "device_callback (create_shaders h s) = device_callback s"
  by (simp_all add: create_shaders_def create_defs split: option.split)

lemma create_render_states_frame:
  "g_Time (create_render_states h s) = g_Time s"
  "s_UnityStreamingAssetsPath (create_render_states h s) = s_UnityStreamingAssetsPath s"
  "s_UnityInterfaces (create_render_states h s) = s_UnityInterfaces s"
  "s_Graphics (create_render_states h s) = s_Graphics s"
  "s_DeviceType (create_render_states h s) = s_DeviceType s"
  "g_TexturePointer (create_render_states h s) = g_TexturePointer s"
  "g_D3D11Device (create_render_states h s) = g_D3D11Device s"
  "device_callback (create_render_states h s) = device_callback s"
  "g_D3D11VertexShader (create_render_states h s) = g_D3D11VertexShader s"
  by (simp_all add: create_render_states_def create_defs)

lemma create_shaders_vs:
  "g_D3D11VertexShader s = 0 \<Longrightarrow>
   (g_D3D11VertexShader (create_shaders h s) = 0) = (\<not> shaders_loadable h s)"
  by (simp add: create_shaders_def create_defs shaders_loadable_def vertexShaderPath_def fragmentShaderPath_def split: option.split)

lemma shaders_loadable_cong:
  "s_UnityStreamingAssetsPath s' = s_UnityStreamingAssetsPath s \<Longrightarrow> shaders_loadable h s' = shaders_loadable h s"
  by (simp add: shaders_loadable_def vertexShaderPath_def fragmentShaderPath_def)

lemma create_buffers_calls:
  "\<exists>vb cb. gpu_calls (create_buffers h s) = gpu_calls s @
     [Create (CreateBuffer 1024 D3D11_BIND_VERTEX_BUFFER) vb, Create (CreateBuffer 64 D3D11_BIND_CONSTANT_BUFFER) cb]"
  by (simp add: create_buffers_def create_defs)

lemma create_render_states_calls:
  "\<exists>a b c. gpu_calls (create_render_states h s) = gpu_calls s @
     [Create CreateRasterizerState a, Create CreateDepthStencilState b, Create CreateBlendState c]"
  by (simp add: create_render_states_def create_defs)

lemma create_shaders_calls_loadable:
  "g_D3D11VertexShader s = 0 \<Longrightarrow> shaders_loadable h s \<Longrightarrow>
   \<exists>vs ps a b c. fopen h (vertexShaderPath s) = Some vs \<and> fopen h (fragmentShaderPath s) = Some ps \<and>
     gpu_calls (create_shaders h s) = gpu_calls s @
     [Create (CreateVertexShader vs) a, Create (CreatePixelShader ps) b, Create (CreateInputLayout vs) c]"
  by (auto simp add: create_shaders_def create_defs shaders_loadable_def vertexShaderPath_def fragmentShaderPath_def split: option.splits)


lemma ensure_ready: "g_D3D11VertexShader s \<noteq> 0 \<Longrightarrow> EnsureD3D11ResourcesAreCreated h s = Inr (True, s)"
  by (simp add: EnsureD3D11ResourcesAreCreated_def)

lemma ensure_waiting:
  "g_D3D11VertexShader s = 0 \<Longrightarrow> s_UnityStreamingAssetsPath s = [] \<Longrightarrow>
   EnsureD3D11ResourcesAreCreated h s = Inr (False, s)"
  by (simp add: EnsureD3D11ResourcesAreCreated_def)

lemma ensure_attempt:
  "g_D3D11VertexShader s = 0 \<Longrightarrow> s_UnityStreamingAssetsPath s \<noteq> [] \<Longrightarrow> g_D3D11Device s \<noteq> 0 \<Longrightarrow>
   EnsureD3D11ResourcesAreCreated h s =
     Inr (True, create_render_states h (create_shaders h (create_buffers h s)))"
  by (simp add: EnsureD3D11ResourcesAreCreated_def)

lemma attempt_vs:
  "g_D3D11VertexShader s = 0 \<Longrightarrow>
   (g_D3D11VertexShader (create_render_states h (create_shaders h (create_buffers h s))) = 0)
     = (\<not> shaders_loadable h s)"
  by (simp add: create_render_states_frame create_shaders_vs create_buffers_frame
      shaders_loadable_cong [of "create_buffers h s" s])

lemma ensure_times_ready:
  "g_D3D11VertexShader s \<noteq> 0 \<Longrightarrow> ensure_times n h s = Inr (replicate n True, s)"
  by (induction n) (simp_all add: ensure_ready)

lemma attempt_calls:
  assumes "g_D3D11VertexShader s = 0" "shaders_loadable h s"
  shows "\<exists>vs ps. fopen h (vertexShaderPath s) = Some vs \<and> fopen h (fragmentShaderPath s) = Some ps \<and>
     length (new_calls s (create_render_states h (create_shaders h (create_buffers h s)))) = 8 \<and>
     created_reqs (new_calls s (create_render_states h (create_shaders h (create_buffers h s)))) =
       [CreateBuffer 1024 D3D11_BIND_VERTEX_BUFFER, CreateBuffer 64 D3D11_BIND_CONSTANT_BUFFER,
        CreateVertexShader vs, CreatePixelShader ps, CreateInputLayout vs,
        CreateRasterizerState, CreateDepthStencilState, CreateBlendState]"
proof -
  let ?s1 = "create_buffers h s"
  let ?s2 = "create_shaders h ?s1"
  let ?s3 = "create_render_states h ?s2"
  obtain vb cb where c1: "gpu_calls ?s1 = gpu_calls s @
     [Create (CreateBuffer 1024 D3D11_BIND_VERTEX_BUFFER) vb, Create (CreateBuffer 64 D3D11_BIND_CONSTANT_BUFFER) cb]"
    using create_buffers_calls by blast
  have p: "vertexShaderPath ?s1 = vertexShaderPath s" "fragmentShaderPath ?s1 = fragmentShaderPath s"
    by (simp_all add: vertexShaderPath_def fragmentShaderPath_def create_buffers_frame)
  have "g_D3D11VertexShader ?s1 = 0" "shaders_loadable h ?s1"
    using assms by (simp_all add: create_buffers_frame shaders_loadable_cong [of ?s1 s])
  then obtain vs ps a b c where f: "fopen h (vertexShaderPath s) = Some vs" "fopen h (fragmentShaderPath s) = Some ps"
    and c2: "gpu_calls ?s2 = gpu_calls ?s1 @
     [Create (CreateVertexShader vs) a, Create (CreatePixelShader ps) b, Create (CreateInputLayout vs) c]"
    using create_shaders_calls_loadable [of ?s1 h] p by auto
  obtain x y z where c3: "gpu_calls ?s3 = gpu_calls ?s2 @
     [Create CreateRasterizerState x, Create CreateDepthStencilState y, Create CreateBlendState z]"
    using create_render_states_calls by blast
  have "new_calls s ?s3 = [Create (CreateBuffer 1024 D3D11_BIND_VERTEX_BUFFER) vb, Create (CreateBuffer 64 D3D11_BIND_CONSTANT_BUFFER) cb,
     Create (CreateVertexShader vs) a, Create (CreatePixelShader ps) b, Create (CreateInputLayout vs) c,
     Create CreateRasterizerState x, Create CreateDepthStencilState y, Create CreateBlendState z]"
    by (simp add: new_calls_def c1 c2 c3)
  then show ?thesis using f by simp
qed

text \<open>
  Claim C3. \<^verbatim>\<open>EnsureD3D11ResourcesAreCreated\<close> is idempotent. When the vertex shader
  exists, the call returns true and the state it was given: nothing is created and no handle
  changes. So from a state with no vertex shader, an asset path, a device and loadable shader
  files, \<open>n \<ge> 1\<close> calls in a row all return true and end in the state that the first call
  alone produces; the device calls made are eight creation calls, one for each member of the
  resource set.
\<close>

theorem ensure_idempotent:
  "(g_D3D11VertexShader s \<noteq> 0 \<longrightarrow> EnsureD3D11ResourcesAreCreated h s = Inr (True, s))
   \<and> (g_D3D11VertexShader s = 0 \<and> s_UnityStreamingAssetsPath s \<noteq> [] \<and> g_D3D11Device s \<noteq> 0
        \<and> shaders_loadable h s \<and> 1 \<le> n \<longrightarrow>
       (\<exists>s' vs ps. EnsureD3D11ResourcesAreCreated h s = Inr (True, s')
          \<and> ensure_times n h s = Inr (replicate n True, s')
          \<and> g_D3D11VertexShader s' \<noteq> 0
          \<and> fopen h (vertexShaderPath s) = Some vs \<and> fopen h (fragmentShaderPath s) = Some ps
          \<and> length (new_calls s s') = 8
          \<and> created_reqs (new_calls s s') =
              [CreateBuffer 1024 D3D11_BIND_VERTEX_BUFFER, CreateBuffer 64 D3D11_BIND_CONSTANT_BUFFER,
               CreateVertexShader vs, CreatePixelShader ps, CreateInputLayout vs,
               CreateRasterizerState, CreateDepthStencilState, CreateBlendState]))"
proof (intro conjI impI)
  assume "g_D3D11VertexShader s \<noteq> 0"
  then show "EnsureD3D11ResourcesAreCreated h s = Inr (True, s)" by (rule ensure_ready)
next
  assume a: "g_D3D11VertexShader s = 0 \<and> s_UnityStreamingAssetsPath s \<noteq> [] \<and> g_D3D11Device s \<noteq> 0
        \<and> shaders_loadable h s \<and> 1 \<le> n"
  let ?s' = "create_render_states h (create_shaders h (create_buffers h s))"
  have e: "EnsureD3D11ResourcesAreCreated h s = Inr (True, ?s')"
    using a by (simp add: ensure_attempt)
  have v: "g_D3D11VertexShader ?s' \<noteq> 0"
    using a attempt_vs [of s h] by simp
  obtain m where n: "n = Suc m" using a by (cases n) auto
  have t: "ensure_times n h s = Inr (replicate n True, ?s')"
    unfolding n by (simp add: e ensure_times_ready [OF v])
  from attempt_calls [of s h] a obtain vs ps where
    c: "fopen h (vertexShaderPath s) = Some vs" "fopen h (fragmentShaderPath s) = Some ps"
       "length (new_calls s ?s') = 8"
       "created_reqs (new_calls s ?s') =
              [CreateBuffer 1024 D3D11_BIND_VERTEX_BUFFER, CreateBuffer 64 D3D11_BIND_CONSTANT_BUFFER,
               CreateVertexShader vs, CreatePixelShader ps, CreateInputLayout vs,
               CreateRasterizerState, CreateDepthStencilState, CreateBlendState]"
    by auto
  show "\<exists>s' vs ps. EnsureD3D11ResourcesAreCreated h s = Inr (True, s')
          \<and> ensure_times n h s = Inr (replicate n True, s')
          \<and> g_D3D11VertexShader s' \<noteq> 0
          \<and> fopen h (vertexShaderPath s) = Some vs \<and> fopen h (fragmentShaderPath s) = Some ps
          \<and> length (new_calls s s') = 8
          \<and> created_reqs (new_calls s s') =
              [CreateBuffer 1024 D3D11_BIND_VERTEX_BUFFER, CreateBuffer 64 D3D11_BIND_CONSTANT_BUFFER,
               CreateVertexShader vs, CreatePixelShader ps, CreateInputLayout vs,
               CreateRasterizerState, CreateDepthStencilState, CreateBlendState]"
    apply (rule exI [of _ ?s'])
    apply (rule exI [of _ vs])
    apply (rule exI [of _ ps])
    using e t v c apply (intro conjI)
          apply assumption+
    done
qed

lemma path_set_plugin_run:
  "run [(d3d11_host, CallUnityPluginLoad 1), (d3d11_host, CallSetUnityStreamingAssetsPath ''A'')]
     initial_plugin = Inr path_set_plugin"
  by (simp add: UnityPluginLoad_def OnGraphicsDeviceEvent_def DoEventGraphicsDeviceD3D11_def
      EnsureD3D11ResourcesAreCreated_def d3d11_host_def initial_plugin_def path_set_plugin_def
      DebugLog_def SetUnityStreamingAssetsPath_def)


lemma path_set_plugin_fields:
  "g_D3D11VertexShader path_set_plugin = 0"
  "s_UnityStreamingAssetsPath path_set_plugin = ''A''"
  "g_D3D11Device path_set_plugin = 3"
  "s_DeviceType path_set_plugin = kUnityGfxRendererD3D11"
  "g_TexturePointer path_set_plugin = 0"
  "gpu_calls path_set_plugin = []"
  by (simp_all add: path_set_plugin_def initial_plugin_def)

lemma d3d11_host_loadable: "shaders_loadable d3d11_host s"
  by (simp add: shaders_loadable_def d3d11_host_def)

lemma no_shader_host_not_loadable: "\<not> shaders_loadable no_shader_host s"
  by (simp add: shaders_loadable_def no_shader_host_def d3d11_host_def)

theorem ensure_idempotent_witness:
  "g_D3D11VertexShader (path_set_plugin\<lparr>g_D3D11VertexShader := 5\<rparr>) \<noteq> 0
   \<and> EnsureD3D11ResourcesAreCreated d3d11_host (path_set_plugin\<lparr>g_D3D11VertexShader := 5\<rparr>)
       = Inr (True, path_set_plugin\<lparr>g_D3D11VertexShader := 5\<rparr>)
   \<and> (g_D3D11VertexShader path_set_plugin = 0 \<and> s_UnityStreamingAssetsPath path_set_plugin \<noteq> []
        \<and> g_D3D11Device path_set_plugin \<noteq> 0 \<and> shaders_loadable d3d11_host path_set_plugin
        \<and> (1::nat) \<le> 3)
   \<and> (\<exists>s' vs ps. EnsureD3D11ResourcesAreCreated d3d11_host path_set_plugin = Inr (True, s')
          \<and> ensure_times 3 d3d11_host path_set_plugin = Inr (replicate 3 True, s')
          \<and> g_D3D11VertexShader s' \<noteq> 0
          \<and> fopen d3d11_host (vertexShaderPath path_set_plugin) = Some vs
          \<and> fopen d3d11_host (fragmentShaderPath path_set_plugin) = Some ps
          \<and> length (new_calls path_set_plugin s') = 8
          \<and> created_reqs (new_calls path_set_plugin s') =
              [CreateBuffer 1024 D3D11_BIND_VERTEX_BUFFER, CreateBuffer 64 D3D11_BIND_CONSTANT_BUFFER,
               CreateVertexShader vs, CreatePixelShader ps, CreateInputLayout vs,
               CreateRasterizerState, CreateDepthStencilState, CreateBlendState])"
proof -
  have h1: "g_D3D11VertexShader (path_set_plugin\<lparr>g_D3D11VertexShader := 5\<rparr>) \<noteq> 0"
    by simp
  have h2: "g_D3D11VertexShader path_set_plugin = 0 \<and> s_UnityStreamingAssetsPath path_set_plugin \<noteq> []
        \<and> g_D3D11Device path_set_plugin \<noteq> 0 \<and> shaders_loadable d3d11_host path_set_plugin
        \<and> (1::nat) \<le> 3"
    by (simp add: path_set_plugin_fields d3d11_host_loadable)
  note c1 = ensure_idempotent [of "path_set_plugin\<lparr>g_D3D11VertexShader := 5\<rparr>" d3d11_host 1,
      THEN conjunct1, THEN mp, OF h1]
  note c2 = ensure_idempotent [of path_set_plugin d3d11_host 3, THEN conjunct2, THEN mp, OF h2]
  show ?thesis
    by (rule conjI, rule h1, rule conjI, rule c1, rule conjI, rule h2, rule c2)
qed

subsection \<open>Release\<close>

lemma SAFE_RELEASE_eq:
  "SAFE_RELEASE a s = s\<lparr>gpu_calls := gpu_calls s @ (if a \<noteq> 0 then [Release a] else [])\<rparr>"
  by (simp add: SAFE_RELEASE_def issue_def)

lemma releases_Cons:
  "map Release (filter (\<lambda>a. a \<noteq> 0) (a # as)) =
     (if a \<noteq> 0 then [Release a] else []) @ map Release (filter (\<lambda>a. a \<noteq> 0) as)"
  by simp

lemma release_calls:
  "gpu_calls (ReleaseD3D11Resources s) =
     gpu_calls s @ map Release (filter (\<lambda>a. a \<noteq> 0) (resource_handles s))"
  unfolding resource_handles_def releases_Cons
  by (simp add: ReleaseD3D11Resources_def SAFE_RELEASE_eq Let_def del: filter.simps cong: if_cong split del: if_split)

lemma release_handles: "resource_handles (ReleaseD3D11Resources s) = [0, 0, 0, 0, 0, 0, 0, 0]"
  by (simp add: ReleaseD3D11Resources_def SAFE_RELEASE_eq Let_def resource_handles_def cong: if_cong split del: if_split)

lemma release_frame:
  "g_Time (ReleaseD3D11Resources s) = g_Time s"
  "s_UnityStreamingAssetsPath (ReleaseD3D11Resources s) = s_UnityStreamingAssetsPath s"
  "s_UnityInterfaces (ReleaseD3D11Resources s) = s_UnityInterfaces s"
  "s_Graphics (ReleaseD3D11Resources s) = s_Graphics s"
  "s_DeviceType (ReleaseD3D11Resources s) = s_DeviceType s"
  "g_TexturePointer (ReleaseD3D11Resources s) = g_TexturePointer s"
  "g_D3D11Device (ReleaseD3D11Resources s) = g_D3D11Device s"
  "device_callback (ReleaseD3D11Resources s) = device_callback s"
  "debug_log (ReleaseD3D11Resources s) = debug_log s"
  by (simp_all add: ReleaseD3D11Resources_def SAFE_RELEASE_eq Let_def cong: if_cong split del: if_split)

subsection \<open>What a creation attempt and a render event leave alone\<close>

lemma same_globals_refl: "same_globals s s"
  by (simp add: same_globals_def)

lemma same_globals_trans: "same_globals s s' \<Longrightarrow> same_globals s' s'' \<Longrightarrow> same_globals s s''"
  by (simp add: same_globals_def)

lemma attempt_same_globals:
  "same_globals s (create_render_states h (create_shaders h (create_buffers h s)))"
  by (simp add: same_globals_def create_render_states_frame create_shaders_frame create_buffers_frame)

lemma create_shaders_calls:
  "\<exists>cs. gpu_calls (create_shaders h s) = gpu_calls s @ cs \<and> list_all is_create_call cs"
  by (simp add: create_shaders_def create_defs split: option.split)

lemma attempt_calls_create:
  "\<exists>cs. gpu_calls (create_render_states h (create_shaders h (create_buffers h s))) = gpu_calls s @ cs
     \<and> list_all is_create_call cs"
proof -
  let ?s1 = "create_buffers h s"
  let ?s2 = "create_shaders h ?s1"
  obtain c1 where c1: "gpu_calls ?s1 = gpu_calls s @ c1" "list_all is_create_call c1"
    using create_buffers_calls [of h s] by auto
  obtain c2 where c2: "gpu_calls ?s2 = gpu_calls ?s1 @ c2" "list_all is_create_call c2"
    using create_shaders_calls [of h ?s1] by auto
  obtain c3 where c3: "gpu_calls (create_render_states h ?s2) = gpu_calls ?s2 @ c3" "list_all is_create_call c3"
    using create_render_states_calls [of h ?s2] by auto
  have "gpu_calls (create_render_states h ?s2) = gpu_calls s @ (c1 @ c2 @ c3)"
    by (simp add: c1 c2 c3)
  moreover have "list_all is_create_call (c1 @ c2 @ c3)"
    by (simp add: c1 c2 c3)
  ultimately show ?thesis by blast
qed

lemma ensure_cases:
  assumes "EnsureD3D11ResourcesAreCreated h s = Inr (b, s')"
  shows "(s' = s \<and> b = (g_D3D11VertexShader s \<noteq> 0))
       \<or> (g_D3D11VertexShader s = 0 \<and> s_UnityStreamingAssetsPath s \<noteq> [] \<and> b
          \<and> s' = create_render_states h (create_shaders h (create_buffers h s)))"
  using assms unfolding EnsureD3D11ResourcesAreCreated_def
  by (simp split: if_splits)

lemma ensure_no_fault:
  "s_DeviceType s = kUnityGfxRendererD3D11 \<Longrightarrow> device_valid s \<Longrightarrow>
   \<exists>b s'. EnsureD3D11ResourcesAreCreated h s = Inr (b, s')"
  by (auto simp add: EnsureD3D11ResourcesAreCreated_def device_valid_def)

lemma ensure_props:
  assumes "EnsureD3D11ResourcesAreCreated h s = Inr (b, s')"
  shows "same_globals s s'"
    and "\<exists>cs. gpu_calls s' = gpu_calls s @ cs \<and> list_all is_create_call cs"
    and "b = (g_D3D11VertexShader s \<noteq> 0 \<or> s_UnityStreamingAssetsPath s \<noteq> [])"
    and "(g_D3D11VertexShader s' \<noteq> 0 \<or> s_UnityStreamingAssetsPath s' \<noteq> [])
         = (g_D3D11VertexShader s \<noteq> 0 \<or> s_UnityStreamingAssetsPath s \<noteq> [])"
proof -
  from ensure_cases [OF assms] show "same_globals s s'"
    using same_globals_refl attempt_same_globals by auto
  from ensure_cases [OF assms] show "\<exists>cs. gpu_calls s' = gpu_calls s @ cs \<and> list_all is_create_call cs"
    using attempt_calls_create [of h s] by auto
  from ensure_cases [OF assms] show "b = (g_D3D11VertexShader s \<noteq> 0 \<or> s_UnityStreamingAssetsPath s \<noteq> [])"
    using assms by (auto simp: EnsureD3D11ResourcesAreCreated_def split: if_splits)
  from ensure_cases [OF assms] show "(g_D3D11VertexShader s' \<noteq> 0 \<or> s_UnityStreamingAssetsPath s' \<noteq> [])
         = (g_D3D11VertexShader s \<noteq> 0 \<or> s_UnityStreamingAssetsPath s \<noteq> [])"
    using attempt_same_globals [of s h] by (auto simp: same_globals_def)
qed


lemma issue_all_fields:
  "same_globals s (issue_all cs s)"
  "gpu_calls (issue_all cs s) = gpu_calls s @ cs"
  "g_D3D11VertexShader (issue_all cs s) = g_D3D11VertexShader s"
  "resource_handles (issue_all cs s) = resource_handles s"
  by (simp_all add: issue_all_def same_globals_def resource_handles_def)

lemma issue_fields:
  "same_globals s (issue c s)"
  "gpu_calls (issue c s) = gpu_calls s @ [c]"
  "g_D3D11VertexShader (issue c s) = g_D3D11VertexShader s"
  "resource_handles (issue c s) = resource_handles s"
  by (simp_all add: issue_def same_globals_def resource_handles_def)

lemma same_globals_device_valid: "same_globals s s' \<Longrightarrow> device_valid s' = device_valid s"
  by (simp add: same_globals_def device_valid_def)

lemma create_call_kinds:
  "is_create_call c \<Longrightarrow> \<not> is_texture_call c \<and> \<not> is_draw c \<and> \<not> is_release c"
  by (cases c) simp_all

lemma creates_filtered:
  assumes "list_all is_create_call cs"
  shows "filter is_texture_call cs = []" "filter is_draw cs = []" "filter is_release cs = []"
  using assms create_call_kinds by (auto simp: filter_empty_conv list_all_iff)

lemma update_texture_null: "g_TexturePointer s = 0 \<Longrightarrow> update_texture h s = Inr s"
  by (simp add: update_texture_def)

lemma DoRendering_no_texture:
  assumes tex: "g_TexturePointer s = 0" and dev: "device_valid s"
  shows "\<exists>s' cs. DoRendering h w i p v s = Inr s' \<and> same_globals s s'
           \<and> gpu_calls s' = gpu_calls s @ cs \<and> filter is_texture_call cs = []
           \<and> length (filter is_draw cs) = (if will_draw s then 1 else 0)
           \<and> will_draw s' = will_draw s"
proof (cases "s_DeviceType s = kUnityGfxRendererD3D11")
  case False
  then have "DoRendering h w i p v s = Inr s" "\<not> will_draw s"
    by (simp_all add: DoRendering_def will_draw_def)
  then show ?thesis
    using same_globals_refl [of s] by auto
next
  case True
  obtain b s1 where e: "EnsureD3D11ResourcesAreCreated h s = Inr (b, s1)"
    using ensure_no_fault [OF True dev] by blast
  note pr = ensure_props [OF e]
  obtain c1 where c1: "gpu_calls s1 = gpu_calls s @ c1" "list_all is_create_call c1"
    using pr(2) by blast
  have g1: "same_globals s s1" by (rule pr(1))
  have b: "b = will_draw s" using pr(3) True by (simp add: will_draw_def)
  have w1: "will_draw s1 = will_draw s"
    using pr(4) g1 by (simp add: will_draw_def same_globals_def)
  show ?thesis
  proof (cases b)
    case False
    then have "DoRendering h w i p v s = Inr s1"
      using True e by (simp add: DoRendering_def)
    moreover have "length (filter is_draw c1) = (if will_draw s then 1 else 0)"
      using False b creates_filtered(2) [OF c1(2)] by simp
    ultimately show ?thesis
      using g1 c1(1) creates_filtered(1) [OF c1(2)] w1 by blast
  next
    case ready: True
    let ?draw = "[GetImmediateContext,
                          UpdateSubresourceCB (g_D3D11CB s1) w,
                          VSSetConstantBuffers (g_D3D11CB s1),
                          VSSetShader (g_D3D11VertexShader s1),
                          PSSetShader (g_D3D11PixelShader s1),
                          UpdateSubresourceVB (g_D3D11VB s1) (take 3 v),
                          IASetInputLayout (g_D3D11InputLayout s1),
                          IASetPrimitiveTopology,
                          IASetVertexBuffers (g_D3D11VB s1) 16 0,
                          Draw 3 0]"
    let ?s2 = "issue_all ?draw s1"
    let ?s3 = "issue ContextRelease ?s2"
    have d1: "g_D3D11Device s1 \<noteq> 0"
      using g1 dev True by (simp add: same_globals_def device_valid_def)
    have t2: "g_TexturePointer ?s2 = 0"
      using issue_all_fields(1) [of s1 ?draw] g1 tex by (simp add: same_globals_def)
    have r: "DoRendering h w i p v s = Inr ?s3"
      using True e ready d1 update_texture_null [OF t2, of h]
      by (simp add: DoRendering_def Let_def)
    have g3: "same_globals s ?s3"
      using g1 issue_all_fields(1) [of s1 ?draw] issue_fields(1) [of ?s2 ContextRelease]
      by (blast intro: same_globals_trans)
    have c3: "gpu_calls ?s3 = gpu_calls s @ (c1 @ ?draw @ [ContextRelease])"
      by (simp add: issue_fields issue_all_fields c1)
    have f3: "filter is_texture_call (c1 @ ?draw @ [ContextRelease]) = []"
      using creates_filtered(1) [OF c1(2)] by simp
    have n3: "length (filter is_draw (c1 @ ?draw @ [ContextRelease])) = (if will_draw s then 1 else 0)"
      using creates_filtered(2) [OF c1(2)] ready b by simp
    have w3: "will_draw ?s3 = will_draw s"
      using w1 g3 g1 by (simp add: will_draw_def same_globals_def issue_fields issue_all_fields)
    show ?thesis
      using r g3 c3 f3 n3 w3 by blast
  qed
qed

lemma OnRenderEvent_no_texture:
  assumes tex: "g_TexturePointer s = 0" and dev: "device_valid s"
  shows "\<exists>s' cs. OnRenderEvent h e s = Inr s' \<and> same_globals s s'
           \<and> gpu_calls s' = gpu_calls s @ cs \<and> filter is_texture_call cs = []
           \<and> length (filter is_draw cs) = (if will_draw s then 1 else 0)
           \<and> will_draw s' = will_draw s"
proof (cases "s_DeviceType s = kUnityGfxRendererD3D11")
  case False
  then have sd: "SetDefaultGraphicsState s = Inr s"
    by (simp add: SetDefaultGraphicsState_def)
  have "DoRendering h w i p v s = Inr s" for w i p v
    using False by (simp add: DoRendering_def)
  then have "OnRenderEvent h e s = Inr s"
    using sd by (simp add: OnRenderEvent_def)
  moreover have "\<not> will_draw s" using False by (simp add: will_draw_def)
  ultimately show ?thesis using same_globals_refl [of s] by auto
next
  case True
  let ?pre = "[GetImmediateContext,
                 OMSetDepthStencilState (g_D3D11DepthState s),
                 RSSetState (g_D3D11RasterState s),
                 OMSetBlendState (g_D3D11BlendState s),
                 ContextRelease]"
  let ?s1 = "issue_all ?pre s"
  have sd: "SetDefaultGraphicsState s = Inr ?s1"
    using True dev by (simp add: SetDefaultGraphicsState_def device_valid_def)
  have g1: "same_globals s ?s1" by (rule issue_all_fields)
  have t1: "g_TexturePointer ?s1 = 0" using g1 tex by (simp add: same_globals_def)
  have d1: "device_valid ?s1" using same_globals_device_valid [OF g1] dev by simp
  have w1: "will_draw ?s1 = will_draw s"
    using g1 by (simp add: will_draw_def same_globals_def issue_all_fields)
  obtain s' cs where r: "DoRendering h (worldMatrix (fp h) (g_Time s)) identityMatrix identityMatrix triangle ?s1 = Inr s'"
    and g: "same_globals ?s1 s'" and c: "gpu_calls s' = gpu_calls ?s1 @ cs"
    and f: "filter is_texture_call cs = []"
    and n: "length (filter is_draw cs) = (if will_draw ?s1 then 1 else 0)"
    and w: "will_draw s' = will_draw ?s1"
    using DoRendering_no_texture [OF t1 d1] by blast
  have "OnRenderEvent h e s = Inr s'"
    using True sd r by (simp add: OnRenderEvent_def)
  moreover have "same_globals s s'" using g1 g by (rule same_globals_trans)
  moreover have "gpu_calls s' = gpu_calls s @ (?pre @ cs)"
    using c by (simp add: issue_all_fields)
  moreover have "filter is_texture_call (?pre @ cs) = []" using f by simp
  moreover have "length (filter is_draw (?pre @ cs)) = (if will_draw s then 1 else 0)"
    using n w1 by simp
  moreover have "will_draw s' = will_draw s" using w w1 by simp
  ultimately show ?thesis by blast
qed

lemma render_events_no_texture:
  assumes "g_TexturePointer s = 0" "device_valid s"
  shows "\<exists>s' cs. render_events es s = Inr s' \<and> same_globals s s'
           \<and> gpu_calls s' = gpu_calls s @ cs \<and> filter is_texture_call cs = []
           \<and> length (filter is_draw cs) = (if will_draw s then length es else 0)"
  using assms
proof (induction es arbitrary: s)
  case Nil
  then show ?case using same_globals_refl [of s] by simp
next
  case (Cons he es)
  obtain h e where he: "he = (h, e)" by (cases he)
  obtain s1 c1 where r1: "OnRenderEvent h e s = Inr s1" and g1: "same_globals s s1"
    and c1: "gpu_calls s1 = gpu_calls s @ c1" and f1: "filter is_texture_call c1 = []"
    and n1: "length (filter is_draw c1) = (if will_draw s then 1 else 0)"
    and w1: "will_draw s1 = will_draw s"
    using OnRenderEvent_no_texture [OF Cons.prems, of h e] by blast
  have t1: "g_TexturePointer s1 = 0" using g1 Cons.prems(1) by (simp add: same_globals_def)
  have d1: "device_valid s1" using same_globals_device_valid [OF g1] Cons.prems(2) by simp
  obtain s' cs where r: "render_events es s1 = Inr s'" and g: "same_globals s1 s'"
    and c: "gpu_calls s' = gpu_calls s1 @ cs" and f: "filter is_texture_call cs = []"
    and n: "length (filter is_draw cs) = (if will_draw s1 then length es else 0)"
    using Cons.IH [OF t1 d1] by blast
  have "render_events (he # es) s = Inr s'" using he r1 r by simp
  moreover have "same_globals s s'" using g1 g by (rule same_globals_trans)
  moreover have "gpu_calls s' = gpu_calls s @ (c1 @ cs)" using c c1 by simp
  moreover have "filter is_texture_call (c1 @ cs) = []" using f1 f by simp
  moreover have "length (filter is_draw (c1 @ cs)) = (if will_draw s then length (he # es) else 0)"
    using n1 n w1 by simp
  ultimately show ?case by blast
qed

subsection \<open>Reachable states\<close>

lemma ready_plugin_run:
  "run [(d3d11_host, CallSetUnityStreamingAssetsPath ''A''), (d3d11_host, CallUnityPluginLoad 1)]
     initial_plugin = Inr ready_plugin"
  by (simp add: UnityPluginLoad_def OnGraphicsDeviceEvent_def DoEventGraphicsDeviceD3D11_def
      EnsureD3D11ResourcesAreCreated_def d3d11_host_def initial_plugin_def ready_plugin_def
      DebugLog_def SetUnityStreamingAssetsPath_def create_buffers_def create_shaders_def
      create_render_states_def create_defs vertexShaderPath_def fragmentShaderPath_def)

lemma run_reachable:
  assumes "reachable r s" "run cs s = Inr s'" "list_all (\<lambda>(h, c). GetRenderer h = r) cs"
  shows "reachable r s'"
  using assms
proof (induction cs arbitrary: s)
  case Nil
  then show ?case by simp
next
  case (Cons hc cs)
  obtain h c where hc: "hc = (h, c)" by (cases hc)
  from Cons.prems(2) hc obtain s1 where s1: "api_step h c s = Inr s1" "run cs s1 = Inr s'"
    by (auto split: sum.splits)
  have "reachable r s1"
    using Cons.prems(1,3) hc s1(1) by (auto intro: reachable_step)
  then show ?case using Cons.IH s1(2) Cons.prems(3) by simp
qed

lemma ready_plugin_reachable: "reachable kUnityGfxRendererD3D11 ready_plugin"
  by (rule run_reachable [OF reachable_initial ready_plugin_run]) (simp add: d3d11_host_def)

lemma update_texture_props:
  assumes "update_texture h s = Inr s'"
  shows "same_globals s s'" "resource_handles s' = resource_handles s"
  using assms
  by (auto simp: update_texture_def Let_def issue_def same_globals_def resource_handles_def
      split: if_splits option.splits sum.splits)

lemma DoRendering_globals:
  assumes "DoRendering h w i p v s = Inr s'"
  shows "same_globals s s'"
proof (cases "s_DeviceType s = kUnityGfxRendererD3D11")
  case False
  then show ?thesis using assms by (auto simp: DoRendering_def intro: same_globals_refl)
next
  case True
  from assms True obtain b s1 where e: "EnsureD3D11ResourcesAreCreated h s = Inr (b, s1)"
    by (auto simp: DoRendering_def split: sum.splits)
  have g1: "same_globals s s1" by (rule ensure_props(1) [OF e])
  show ?thesis
  proof (cases b)
    case False
    then show ?thesis using assms True e g1 by (simp add: DoRendering_def)
  next
    case ready: True
    let ?draw = "[GetImmediateContext,
                          UpdateSubresourceCB (g_D3D11CB s1) w,
                          VSSetConstantBuffers (g_D3D11CB s1),
                          VSSetShader (g_D3D11VertexShader s1),
                          PSSetShader (g_D3D11PixelShader s1),
                          UpdateSubresourceVB (g_D3D11VB s1) (take 3 v),
                          IASetInputLayout (g_D3D11InputLayout s1),
                          IASetPrimitiveTopology,
                          IASetVertexBuffers (g_D3D11VB s1) 16 0,
                          Draw 3 0]"
    from assms True e ready obtain s2 where
      u: "update_texture h (issue_all ?draw s1) = Inr s2" and s': "s' = issue ContextRelease s2"
      by (auto simp: DoRendering_def Let_def split: if_splits sum.splits)
    have "same_globals s1 (issue_all ?draw s1)" by (rule issue_all_fields)
    moreover have "same_globals (issue_all ?draw s1) s2" by (rule update_texture_props(1) [OF u])
    moreover have "same_globals s2 s'" unfolding s' by (rule issue_fields)
    ultimately show ?thesis using g1 by (blast intro: same_globals_trans)
  qed
qed

lemma OnRenderEvent_globals:
  assumes "OnRenderEvent h e s = Inr s'"
  shows "same_globals s s'" "s_DeviceType s \<noteq> kUnityGfxRendererD3D11 \<Longrightarrow> s' = s"
proof -
  show "s' = s" if "s_DeviceType s \<noteq> kUnityGfxRendererD3D11"
    using assms that by (simp add: OnRenderEvent_def SetDefaultGraphicsState_def DoRendering_def split: if_splits)
  show "same_globals s s'"
  proof (cases "s_DeviceType s = kUnityGfxRendererNull")
    case True
    then show ?thesis using assms by (auto simp: OnRenderEvent_def intro: same_globals_refl)
  next
    case False
    from assms False obtain s1 where d: "SetDefaultGraphicsState s = Inr s1"
      and r: "DoRendering h (worldMatrix (fp h) (g_Time s)) identityMatrix identityMatrix triangle s1 = Inr s'"
      by (auto simp: OnRenderEvent_def split: sum.splits)
    have "same_globals s s1"
      using d by (auto simp: SetDefaultGraphicsState_def issue_all_fields split: if_splits intro: same_globals_refl)
    then show ?thesis using DoRendering_globals [OF r] by (blast intro: same_globals_trans)
  qed
qed

lemma follow_device_render:
  assumes "resources_follow_device r s" "OnRenderEvent h e s = Inr s'"
  shows "resources_follow_device r s'"
proof (cases "s_DeviceType s = kUnityGfxRendererD3D11")
  case True
  then have "s_DeviceType s' = kUnityGfxRendererD3D11"
    using OnRenderEvent_globals(1) [OF assms(2)] by (simp add: same_globals_def)
  then show ?thesis using assms(1) True by (simp add: resources_follow_device_def)
next
  case False
  then show ?thesis using OnRenderEvent_globals(2) [OF assms(2)] assms(1) by simp
qed

lemma shutdown_eq:
  "OnGraphicsDeviceEvent h kUnityGfxDeviceEventShutdown s =
     (let s1 = s\<lparr>debug_log := debug_log s @ [''OnGraphicsDeviceEvent(Shutdown).'' @ [CHR 0x0A]],
                 s_DeviceType := kUnityGfxRendererNull, g_TexturePointer := 0\<rparr>
      in Inr (if s_DeviceType s = kUnityGfxRendererD3D11 then ReleaseD3D11Resources s1 else s1))"
  by (simp add: OnGraphicsDeviceEvent_def DoEventGraphicsDeviceD3D11_def DebugLog_def)

lemma reset_event_eq:
  "OnGraphicsDeviceEvent h kUnityGfxDeviceEventBeforeReset s =
     Inr (DebugLog (''OnGraphicsDeviceEvent(BeforeReset).'' @ [CHR 0x0A]) s)"
  "OnGraphicsDeviceEvent h kUnityGfxDeviceEventAfterReset s =
     Inr (DebugLog (''OnGraphicsDeviceEvent(AfterReset).'' @ [CHR 0x0A]) s)"
  by (simp_all add: OnGraphicsDeviceEvent_def DoEventGraphicsDeviceD3D11_def)

lemma follow_device_event:
  assumes "resources_follow_device r s" "GetRenderer h = r" "OnGraphicsDeviceEvent h ev s = Inr s'"
  shows "resources_follow_device r s'"
proof (cases ev)
  case kUnityGfxDeviceEventInitialize
  show ?thesis
  proof (cases "r = kUnityGfxRendererD3D11")
    case True
    from assms(3) kUnityGfxDeviceEventInitialize True assms(2) obtain b s0 where
      "EnsureD3D11ResourcesAreCreated h s0 = Inr (b, s')" "s_DeviceType s0 = kUnityGfxRendererD3D11"
      by (auto simp: OnGraphicsDeviceEvent_def DoEventGraphicsDeviceD3D11_def DebugLog_def
          split: if_splits sum.splits)
    then have "s_DeviceType s' = kUnityGfxRendererD3D11"
      using ensure_props(1) by (fastforce simp: same_globals_def)
    then show ?thesis using True by (simp add: resources_follow_device_def)
  next
    case False
    then have z: "resource_handles s = [0, 0, 0, 0, 0, 0, 0, 0]" "s_DeviceType s \<noteq> kUnityGfxRendererD3D11"
      using assms(1) by (auto simp: resources_follow_device_def)
    from assms(3) kUnityGfxDeviceEventInitialize False assms(2)
    have "s' = s\<lparr>debug_log := debug_log s @ [''OnGraphicsDeviceEvent(Initialize).'' @ [CHR 0x0A]],
                 s_DeviceType := r\<rparr>"
      by (auto simp: OnGraphicsDeviceEvent_def DebugLog_def split: if_splits)
    then show ?thesis using z False by (simp add: resources_follow_device_def resource_handles_def)
  qed
next
  case kUnityGfxDeviceEventShutdown
  show ?thesis
  proof (cases "s_DeviceType s = kUnityGfxRendererD3D11")
    case True
    then show ?thesis
      using assms(3) kUnityGfxDeviceEventShutdown
      by (auto simp: shutdown_eq resources_follow_device_def release_handles release_frame)
  next
    case False
    then have "resource_handles s = [0, 0, 0, 0, 0, 0, 0, 0]"
      using assms(1) by (auto simp: resources_follow_device_def)
    then show ?thesis
      using assms(3) kUnityGfxDeviceEventShutdown False
      by (auto simp: shutdown_eq resources_follow_device_def resource_handles_def)
  qed
next
  case kUnityGfxDeviceEventBeforeReset
  then show ?thesis
    using assms by (auto simp: reset_event_eq DebugLog_def
        resources_follow_device_def resource_handles_def)
next
  case kUnityGfxDeviceEventAfterReset
  then show ?thesis
    using assms by (auto simp: reset_event_eq DebugLog_def
        resources_follow_device_def resource_handles_def)
qed

lemma follow_device_step:
  assumes "resources_follow_device r s" "GetRenderer h = r" "api_step h c s = Inr s'"
  shows "resources_follow_device r s'"
proof (cases c)
  case (CallUnityPluginLoad p)
  let ?s1 = "s\<lparr>s_UnityInterfaces := p, s_Graphics := GetIUnityGraphics h, device_callback := True\<rparr>"
  have "resources_follow_device r ?s1"
    using assms(1) by (simp add: resources_follow_device_def resource_handles_def)
  moreover have "OnGraphicsDeviceEvent h kUnityGfxDeviceEventInitialize ?s1 = Inr s'"
    using assms(3) CallUnityPluginLoad by (simp add: UnityPluginLoad_def Let_def split: if_splits)
  ultimately show ?thesis using follow_device_event assms(2) by blast
next
  case (CallOnGraphicsDeviceEvent ev)
  then show ?thesis using assms follow_device_event by simp
next
  case (CallOnRenderEvent e)
  then show ?thesis using assms follow_device_render by simp
qed (use assms in \<open>auto simp: resources_follow_device_def resource_handles_def SetTimeFromUnity_def
      SetUnityStreamingAssetsPath_def SetTextureFromUnity_def UnityPluginUnload_def split: if_splits\<close>)

lemma reachable_follow_device: "reachable r s \<Longrightarrow> resources_follow_device r s"
proof (induction rule: reachable.induct)
  case reachable_initial
  show ?case by (simp add: resources_follow_device_def resource_handles_def initial_plugin_def)
next
  case (reachable_step s h c s')
  then show ?case using follow_device_step by blast
qed

section \<open>Properties of the render event\<close>

text \<open>
  Claim C6. For every event id, \<^verbatim>\<open>OnRenderEvent\<close> with the device type
  \<^verbatim>\<open>kUnityGfxRendererNull\<close> returns the state it was given: no field of the plugin changes
  and no call is added to the trace of device calls. Any sequence of render events, with any
  hosts and event ids, is a no-op as well.
\<close>

theorem render_event_null_device_noop:
  assumes "s_DeviceType s = kUnityGfxRendererNull"
  shows "OnRenderEvent h eventID s = Inr s \<and> render_events es s = Inr s"
proof
  show one: "OnRenderEvent h eventID s = Inr s" for h eventID
    using assms by (simp add: OnRenderEvent_def)
  show "render_events es s = Inr s"
    by (induction es) (auto simp: one)
qed

theorem render_event_null_device_noop_witness:
  "s_DeviceType initial_plugin = kUnityGfxRendererNull
   \<and> OnRenderEvent d3d11_host 7 initial_plugin = Inr initial_plugin
   \<and> render_events [(d3d11_host, 1), (no_shader_host, - 2)] initial_plugin = Inr initial_plugin"
proof -
  have h: "s_DeviceType initial_plugin = kUnityGfxRendererNull"
    by (simp add: initial_plugin_def)
  show ?thesis
    using h render_event_null_device_noop [OF h, of d3d11_host 7 "[(d3d11_host, 1), (no_shader_host, - 2)]"]
    by simp
qed

text \<open>
  Claim C9. \<^verbatim>\<open>OnRenderEvent\<close> does not depend on its event id: from the same state and
  with the same host, any two event ids give the same result, that is the same fault or the
  same new state, which holds the trace of the device calls.
\<close>

theorem render_event_ignores_event_id:
  "OnRenderEvent h eventID1 s = OnRenderEvent h eventID2 s"
  by (simp add: OnRenderEvent_def)

lemma render_event_steps:
  assumes tex: "g_TexturePointer s = 0" and ty: "s_DeviceType s = kUnityGfxRendererD3D11"
    and dev: "g_D3D11Device s \<noteq> 0"
  shows "\<exists>ready s1.
      EnsureD3D11ResourcesAreCreated h
        (issue_all [GetImmediateContext,
                    OMSetDepthStencilState (g_D3D11DepthState s),
                    RSSetState (g_D3D11RasterState s),
                    OMSetBlendState (g_D3D11BlendState s),
                    ContextRelease] s) = Inr (ready, s1)
    \<and> ready = (g_D3D11VertexShader s \<noteq> 0 \<or> s_UnityStreamingAssetsPath s \<noteq> [])
    \<and> OnRenderEvent h e s =
        Inr (if ready then
               issue_all [GetImmediateContext,
                          UpdateSubresourceCB (g_D3D11CB s1) (worldMatrix (fp h) (g_Time s)),
                          VSSetConstantBuffers (g_D3D11CB s1),
                          VSSetShader (g_D3D11VertexShader s1),
                          PSSetShader (g_D3D11PixelShader s1),
                          UpdateSubresourceVB (g_D3D11VB s1) triangle,
                          IASetInputLayout (g_D3D11InputLayout s1),
                          IASetPrimitiveTopology,
                          IASetVertexBuffers (g_D3D11VB s1) 16 0,
                          Draw 3 0,
                          ContextRelease] s1
             else s1)"
proof -
  let ?pre = "[GetImmediateContext,
                 OMSetDepthStencilState (g_D3D11DepthState s),
                 RSSetState (g_D3D11RasterState s),
                 OMSetBlendState (g_D3D11BlendState s),
                 ContextRelease]"
  let ?s0 = "issue_all ?pre s"
  let ?w = "worldMatrix (fp h) (g_Time s)"
  have sd: "SetDefaultGraphicsState s = Inr ?s0"
    using ty dev by (simp add: SetDefaultGraphicsState_def)
  have g0: "same_globals s ?s0" by (rule issue_all_fields)
  have ty0: "s_DeviceType ?s0 = kUnityGfxRendererD3D11"
    using g0 ty by (simp add: same_globals_def)
  have "device_valid ?s0"
    using g0 ty dev by (simp add: same_globals_def device_valid_def)
  then obtain b s1 where en: "EnsureD3D11ResourcesAreCreated h ?s0 = Inr (b, s1)"
    using ensure_no_fault [OF ty0] by blast
  note pr = ensure_props [OF en]
  have g1: "same_globals s s1" using g0 pr(1) by (rule same_globals_trans)
  have b: "b = (g_D3D11VertexShader s \<noteq> 0 \<or> s_UnityStreamingAssetsPath s \<noteq> [])"
    using pr(3) g0 by (simp add: issue_all_fields same_globals_def)
  let ?draw = "[GetImmediateContext,
                          UpdateSubresourceCB (g_D3D11CB s1) ?w,
                          VSSetConstantBuffers (g_D3D11CB s1),
                          VSSetShader (g_D3D11VertexShader s1),
                          PSSetShader (g_D3D11PixelShader s1),
                          UpdateSubresourceVB (g_D3D11VB s1) (take 3 triangle),
                          IASetInputLayout (g_D3D11InputLayout s1),
                          IASetPrimitiveTopology,
                          IASetVertexBuffers (g_D3D11VB s1) 16 0,
                          Draw 3 0]"
  let ?s2 = "issue_all ?draw s1"
  have d1: "g_D3D11Device s1 \<noteq> 0" using g1 dev by (simp add: same_globals_def)
  have t2: "g_TexturePointer ?s2 = 0"
    using issue_all_fields(1) [of s1 ?draw] g1 tex by (simp add: same_globals_def)
  have dr: "DoRendering h ?w identityMatrix identityMatrix triangle ?s0 =
      Inr (if b then issue ContextRelease ?s2 else s1)"
    using ty0 en d1 update_texture_null [OF t2, of h]
    by (simp add: DoRendering_def Let_def)
  have tk: "take 3 triangle = triangle" by (simp add: triangle_def)
  have fin: "issue ContextRelease ?s2 =
      issue_all [GetImmediateContext,
                          UpdateSubresourceCB (g_D3D11CB s1) ?w,
                          VSSetConstantBuffers (g_D3D11CB s1),
                          VSSetShader (g_D3D11VertexShader s1),
                          PSSetShader (g_D3D11PixelShader s1),
                          UpdateSubresourceVB (g_D3D11VB s1) triangle,
                          IASetInputLayout (g_D3D11InputLayout s1),
                          IASetPrimitiveTopology,
                          IASetVertexBuffers (g_D3D11VB s1) 16 0,
                          Draw 3 0,
                          ContextRelease] s1"
    by (simp add: issue_def issue_all_def tk)
  have "OnRenderEvent h e s = Inr (if b then issue ContextRelease ?s2 else s1)"
    using ty sd dr by (simp add: OnRenderEvent_def)
  then have ev: "OnRenderEvent h e s =
      Inr (if b then
               issue_all [GetImmediateContext,
                          UpdateSubresourceCB (g_D3D11CB s1) ?w,
                          VSSetConstantBuffers (g_D3D11CB s1),
                          VSSetShader (g_D3D11VertexShader s1),
                          PSSetShader (g_D3D11PixelShader s1),
                          UpdateSubresourceVB (g_D3D11VB s1) triangle,
                          IASetInputLayout (g_D3D11InputLayout s1),
                          IASetPrimitiveTopology,
                          IASetVertexBuffers (g_D3D11VB s1) 16 0,
                          Draw 3 0,
                          ContextRelease] s1
             else s1)"
    by (simp only: fin)
  show ?thesis
    using en b ev by (intro exI [of _ b] exI [of _ s1] conjI) assumption+
qed

lemma render_event_steps_ready:
  assumes tex: "g_TexturePointer s = 0" and ty: "s_DeviceType s = kUnityGfxRendererD3D11"
    and dev: "g_D3D11Device s \<noteq> 0" and vs: "g_D3D11VertexShader s \<noteq> 0"
  shows "OnRenderEvent h e s =
      Inr (issue_all [GetImmediateContext,
                      OMSetDepthStencilState (g_D3D11DepthState s),
                      RSSetState (g_D3D11RasterState s),
                      OMSetBlendState (g_D3D11BlendState s),
                      ContextRelease,
                      GetImmediateContext,
                      UpdateSubresourceCB (g_D3D11CB s) (worldMatrix (fp h) (g_Time s)),
                      VSSetConstantBuffers (g_D3D11CB s),
                      VSSetShader (g_D3D11VertexShader s),
                      PSSetShader (g_D3D11PixelShader s),
                      UpdateSubresourceVB (g_D3D11VB s) triangle,
                      IASetInputLayout (g_D3D11InputLayout s),
                      IASetPrimitiveTopology,
                      IASetVertexBuffers (g_D3D11VB s) 16 0,
                      Draw 3 0,
                      ContextRelease] s)"
proof -
  let ?pre = "[GetImmediateContext,
                 OMSetDepthStencilState (g_D3D11DepthState s),
                 RSSetState (g_D3D11RasterState s),
                 OMSetBlendState (g_D3D11BlendState s),
                 ContextRelease]"
  let ?s0 = "issue_all ?pre s"
  have "g_D3D11VertexShader ?s0 \<noteq> 0" using vs by (simp add: issue_all_fields)
  then have en: "EnsureD3D11ResourcesAreCreated h ?s0 = Inr (True, ?s0)" by (rule ensure_ready)
  obtain ready s1 where e1: "EnsureD3D11ResourcesAreCreated h ?s0 = Inr (ready, s1)"
    and ev: "OnRenderEvent h e s =
        Inr (if ready then
               issue_all [GetImmediateContext,
                          UpdateSubresourceCB (g_D3D11CB s1) (worldMatrix (fp h) (g_Time s)),
                          VSSetConstantBuffers (g_D3D11CB s1),
                          VSSetShader (g_D3D11VertexShader s1),
                          PSSetShader (g_D3D11PixelShader s1),
                          UpdateSubresourceVB (g_D3D11VB s1) triangle,
                          IASetInputLayout (g_D3D11InputLayout s1),
                          IASetPrimitiveTopology,
                          IASetVertexBuffers (g_D3D11VB s1) 16 0,
                          Draw 3 0,
                          ContextRelease] s1
             else s1)"
    using render_event_steps [OF tex ty dev, of h e] by blast
  have "ready" "s1 = ?s0" using en e1 by simp_all
  then show ?thesis using ev by (simp add: issue_all_def)
qed

text \<open>
  Claim C7. After \<^verbatim>\<open>SetTextureFromUnity(NULL)\<close>, any sequence of render events, with any
  hosts and event ids, runs without fault when the device pointer is valid: no call on a
  texture is made (no \<^verbatim>\<open>GetDesc\<close>, no texture upload, so the null handle is never
  dereferenced), the texture pointer stays null, the device type and the validity of the
  device pointer are kept, and each event that gets past the ready check issues its draw
  call. The one fault a render event can end in with a null texture is the null device
  pointer.

  The rest of the render operation goes on as usual. In every state with a null texture and
  a device (so in every state that such a sequence passes through), a render event on
  Direct3D 11 is exactly this: \<^verbatim>\<open>SetDefaultGraphicsState\<close> takes the immediate context, binds
  the depth, rasterizer and blend state and releases the context;
  \<^verbatim>\<open>EnsureD3D11ResourcesAreCreated\<close> runs on the state that this leaves; when it reports
  ready, the event takes the context, uploads the world matrix to the constant buffer and
  binds it, binds the vertex and the pixel shader, uploads the three vertices, sets the
  input layout, the topology and the vertex buffer with stride 16, draws three vertices and
  releases the context, and nothing else changes; when it does not report ready, nothing
  more happens. Where the vertex shader exists already, that is sixteen calls on the handles
  of the state, and the state is otherwise unchanged. On a device type other than
  Direct3D 11 the event changes nothing.
\<close>

theorem null_texture_skips_fill:
  "(device_valid s \<longrightarrow>
      (\<exists>s' cs. render_events es (SetTextureFromUnity 0 s) = Inr s'
         \<and> g_TexturePointer s' = 0
         \<and> s_DeviceType s' = s_DeviceType s
         \<and> device_valid s'
         \<and> gpu_calls s' = gpu_calls s @ cs
         \<and> filter is_texture_call cs = []
         \<and> length (filter is_draw cs) = (if will_draw s then length es else 0)))
   \<and> (\<not> device_valid s \<and> es \<noteq> [] \<longrightarrow>
        render_events es (SetTextureFromUnity 0 s) = Inl NullDeref)
   \<and> (g_TexturePointer s = 0 \<and> s_DeviceType s = kUnityGfxRendererD3D11 \<and> g_D3D11Device s \<noteq> 0 \<longrightarrow>
        (\<exists>ready s1.
           EnsureD3D11ResourcesAreCreated h
             (issue_all [GetImmediateContext,
                         OMSetDepthStencilState (g_D3D11DepthState s),
                         RSSetState (g_D3D11RasterState s),
                         OMSetBlendState (g_D3D11BlendState s),
                         ContextRelease] s) = Inr (ready, s1)
         \<and> ready = (g_D3D11VertexShader s \<noteq> 0 \<or> s_UnityStreamingAssetsPath s \<noteq> [])
         \<and> OnRenderEvent h eventID s =
             Inr (if ready then
                    issue_all [GetImmediateContext,
                               UpdateSubresourceCB (g_D3D11CB s1) (worldMatrix (fp h) (g_Time s)),
                               VSSetConstantBuffers (g_D3D11CB s1),
                               VSSetShader (g_D3D11VertexShader s1),
                               PSSetShader (g_D3D11PixelShader s1),
                               UpdateSubresourceVB (g_D3D11VB s1) triangle,
                               IASetInputLayout (g_D3D11InputLayout s1),
                               IASetPrimitiveTopology,
                               IASetVertexBuffers (g_D3D11VB s1) 16 0,
                               Draw 3 0,
                               ContextRelease] s1
                  else s1)))
   \<and> (g_TexturePointer s = 0 \<and> s_DeviceType s = kUnityGfxRendererD3D11 \<and> g_D3D11Device s \<noteq> 0
        \<and> g_D3D11VertexShader s \<noteq> 0 \<longrightarrow>
        OnRenderEvent h eventID s =
          Inr (issue_all [GetImmediateContext,
                          OMSetDepthStencilState (g_D3D11DepthState s),
                          RSSetState (g_D3D11RasterState s),
                          OMSetBlendState (g_D3D11BlendState s),
                          ContextRelease,
                          GetImmediateContext,
                          UpdateSubresourceCB (g_D3D11CB s) (worldMatrix (fp h) (g_Time s)),
                          VSSetConstantBuffers (g_D3D11CB s),
                          VSSetShader (g_D3D11VertexShader s),
                          PSSetShader (g_D3D11PixelShader s),
                          UpdateSubresourceVB (g_D3D11VB s) triangle,
                          IASetInputLayout (g_D3D11InputLayout s),
                          IASetPrimitiveTopology,
                          IASetVertexBuffers (g_D3D11VB s) 16 0,
                          Draw 3 0,
                          ContextRelease] s))
   \<and> (s_DeviceType s \<noteq> kUnityGfxRendererD3D11 \<longrightarrow> OnRenderEvent h eventID s = Inr s)"
proof -
  let ?s = "SetTextureFromUnity 0 s"
  have w: "will_draw ?s = will_draw s" "gpu_calls ?s = gpu_calls s"
    "device_valid ?s = device_valid s" "g_TexturePointer ?s = 0" "s_DeviceType ?s = s_DeviceType s"
    by (simp_all add: will_draw_def SetTextureFromUnity_def device_valid_def)
  have first: "\<exists>s' cs. render_events es ?s = Inr s'
         \<and> g_TexturePointer s' = 0
         \<and> s_DeviceType s' = s_DeviceType s
         \<and> device_valid s'
         \<and> gpu_calls s' = gpu_calls s @ cs
         \<and> filter is_texture_call cs = []
         \<and> length (filter is_draw cs) = (if will_draw s then length es else 0)"
    if dv: "device_valid s"
  proof -
    have dv': "device_valid ?s" using dv w by simp
    obtain s' cs where r: "render_events es ?s = Inr s'" and g: "same_globals ?s s'"
      and c: "gpu_calls s' = gpu_calls ?s @ cs" and f: "filter is_texture_call cs = []"
      and n: "length (filter is_draw cs) = (if will_draw ?s then length es else 0)"
      using render_events_no_texture [OF w(4) dv', of es] by blast
    have t: "g_TexturePointer s' = 0" using g w(4) by (simp add: same_globals_def)
    have y: "s_DeviceType s' = s_DeviceType s" using g w(5) by (simp add: same_globals_def)
    have d: "device_valid s'" using same_globals_device_valid [OF g] dv' by simp
    have c': "gpu_calls s' = gpu_calls s @ cs" using c w(2) by simp
    have n': "length (filter is_draw cs) = (if will_draw s then length es else 0)"
      using n w(1) by simp
    show ?thesis
      using r t y d c' f n' by (intro exI [of _ s'] exI [of _ cs] conjI) assumption+
  qed
  have second: "render_events es ?s = Inl NullDeref" if a: "\<not> device_valid s \<and> es \<noteq> []"
  proof -
    obtain h e es' where es: "es = (h, e) # es'" using a by (cases es) auto
    have "s_DeviceType ?s = kUnityGfxRendererD3D11" "g_D3D11Device ?s = 0"
      using a by (auto simp: device_valid_def SetTextureFromUnity_def split: if_splits)
    then have "OnRenderEvent h e ?s = Inl NullDeref"
      by (simp add: OnRenderEvent_def SetDefaultGraphicsState_def)
    then show ?thesis using es by simp
  qed
  have fifth: "OnRenderEvent h eventID s = Inr s" if "s_DeviceType s \<noteq> kUnityGfxRendererD3D11"
    using that by (simp add: OnRenderEvent_def SetDefaultGraphicsState_def DoRendering_def)
  show ?thesis
    apply (rule conjI)
     apply (rule impI)
     apply (erule first)
    apply (rule conjI)
     apply (rule impI)
     apply (erule second)
    apply (rule conjI)
     apply (rule impI)
     apply (elim conjE)
     apply (erule (2) render_event_steps)
    apply (rule conjI)
     apply (rule impI)
     apply (elim conjE)
     apply (erule (3) render_event_steps_ready)
    apply (rule impI)
    apply (erule fifth)
    done
qed

theorem null_texture_skips_fill_witness:
  "device_valid (ready_plugin\<lparr>g_TexturePointer := 9\<rparr>)
   \<and> will_draw (ready_plugin\<lparr>g_TexturePointer := 9\<rparr>)
   \<and> (\<exists>s' cs. render_events [(d3d11_host, 1), (no_shader_host, 2)]
                  (SetTextureFromUnity 0 (ready_plugin\<lparr>g_TexturePointer := 9\<rparr>)) = Inr s'
         \<and> g_TexturePointer s' = 0
         \<and> s_DeviceType s' = s_DeviceType (ready_plugin\<lparr>g_TexturePointer := 9\<rparr>)
         \<and> device_valid s'
         \<and> gpu_calls s' = gpu_calls (ready_plugin\<lparr>g_TexturePointer := 9\<rparr>) @ cs
         \<and> filter is_texture_call cs = []
         \<and> length (filter is_draw cs) =
             (if will_draw (ready_plugin\<lparr>g_TexturePointer := 9\<rparr>)
              then length [(d3d11_host, 1::int), (no_shader_host, 2)] else 0))
   \<and> (\<not> device_valid (path_set_plugin\<lparr>g_D3D11Device := 0\<rparr>) \<and> [(d3d11_host, 1::int)] \<noteq> [])
   \<and> render_events [(d3d11_host, 1)] (SetTextureFromUnity 0 (path_set_plugin\<lparr>g_D3D11Device := 0\<rparr>))
       = Inl NullDeref
   \<and> (g_TexturePointer path_set_plugin = 0 \<and> s_DeviceType path_set_plugin = kUnityGfxRendererD3D11
       \<and> g_D3D11Device path_set_plugin \<noteq> 0)
   \<and> (\<exists>ready s1.
         EnsureD3D11ResourcesAreCreated d3d11_host
           (issue_all [GetImmediateContext,
                       OMSetDepthStencilState (g_D3D11DepthState path_set_plugin),
                       RSSetState (g_D3D11RasterState path_set_plugin),
                       OMSetBlendState (g_D3D11BlendState path_set_plugin),
                       ContextRelease] path_set_plugin) = Inr (ready, s1)
       \<and> ready = (g_D3D11VertexShader path_set_plugin \<noteq> 0
                  \<or> s_UnityStreamingAssetsPath path_set_plugin \<noteq> [])
       \<and> OnRenderEvent d3d11_host 1 path_set_plugin =
           Inr (if ready then
                  issue_all [GetImmediateContext,
                             UpdateSubresourceCB (g_D3D11CB s1)
                               (worldMatrix (fp d3d11_host) (g_Time path_set_plugin)),
                             VSSetConstantBuffers (g_D3D11CB s1),
                             VSSetShader (g_D3D11VertexShader s1),
                             PSSetShader (g_D3D11PixelShader s1),
                             UpdateSubresourceVB (g_D3D11VB s1) triangle,
                             IASetInputLayout (g_D3D11InputLayout s1),
                             IASetPrimitiveTopology,
                             IASetVertexBuffers (g_D3D11VB s1) 16 0,
                             Draw 3 0,
                             ContextRelease] s1
                else s1))
   \<and> (g_TexturePointer ready_plugin = 0 \<and> s_DeviceType ready_plugin = kUnityGfxRendererD3D11
       \<and> g_D3D11Device ready_plugin \<noteq> 0 \<and> g_D3D11VertexShader ready_plugin \<noteq> 0)
   \<and> OnRenderEvent d3d11_host 1 ready_plugin =
       Inr (issue_all [GetImmediateContext,
                       OMSetDepthStencilState 7,
                       RSSetState 6,
                       OMSetBlendState 8,
                       ContextRelease,
                       GetImmediateContext,
                       UpdateSubresourceCB 2 [1, 0, 0, 0,  0, 1, 0, 0,  0, 0, 1, 0,  0, 0, f0_7, 1],
                       VSSetConstantBuffers 2,
                       VSSetShader 3,
                       PSSetShader 4,
                       UpdateSubresourceVB 1 triangle,
                       IASetInputLayout 5,
                       IASetPrimitiveTopology,
                       IASetVertexBuffers 1 16 0,
                       Draw 3 0,
                       ContextRelease] ready_plugin)
   \<and> s_DeviceType initial_plugin \<noteq> kUnityGfxRendererD3D11
   \<and> OnRenderEvent d3d11_host 1 initial_plugin = Inr initial_plugin"
proof -
  have h1: "device_valid (ready_plugin\<lparr>g_TexturePointer := 9\<rparr>)"
    by (simp add: device_valid_def ready_plugin_def)
  have w: "will_draw (ready_plugin\<lparr>g_TexturePointer := 9\<rparr>)"
    by (simp add: will_draw_def ready_plugin_def)
  have h2: "\<not> device_valid (path_set_plugin\<lparr>g_D3D11Device := 0\<rparr>) \<and> [(d3d11_host, 1::int)] \<noteq> []"
    by (simp add: device_valid_def path_set_plugin_fields)
  have h3: "g_TexturePointer path_set_plugin = 0 \<and> s_DeviceType path_set_plugin = kUnityGfxRendererD3D11
       \<and> g_D3D11Device path_set_plugin \<noteq> 0"
    by (simp add: path_set_plugin_fields)
  have h4: "g_TexturePointer ready_plugin = 0 \<and> s_DeviceType ready_plugin = kUnityGfxRendererD3D11
       \<and> g_D3D11Device ready_plugin \<noteq> 0 \<and> g_D3D11VertexShader ready_plugin \<noteq> 0"
    by (simp add: ready_plugin_def)
  have h5: "s_DeviceType initial_plugin \<noteq> kUnityGfxRendererD3D11"
    by (simp add: initial_plugin_def)
  note c1 = null_texture_skips_fill [of "ready_plugin\<lparr>g_TexturePointer := 9\<rparr>"
      "[(d3d11_host, 1), (no_shader_host, 2)]", THEN conjunct1, THEN mp, OF h1]
  note c2 = null_texture_skips_fill [of "path_set_plugin\<lparr>g_D3D11Device := 0\<rparr>"
      "[(d3d11_host, 1)]", THEN conjunct2, THEN conjunct1, THEN mp, OF h2]
  note c3 = null_texture_skips_fill [where s = path_set_plugin and h = d3d11_host and eventID = 1,
      THEN conjunct2, THEN conjunct2, THEN conjunct1, THEN mp, OF h3]
  note c4 = null_texture_skips_fill [where s = ready_plugin and h = d3d11_host and eventID = 1,
      THEN conjunct2, THEN conjunct2, THEN conjunct2, THEN conjunct1, THEN mp, OF h4]
  note c5 = null_texture_skips_fill [where s = initial_plugin and h = d3d11_host and eventID = 1,
      THEN conjunct2, THEN conjunct2, THEN conjunct2, THEN conjunct2, THEN mp, OF h5]
  have c4': "OnRenderEvent d3d11_host 1 ready_plugin =
       Inr (issue_all [GetImmediateContext,
                       OMSetDepthStencilState 7,
                       RSSetState 6,
                       OMSetBlendState 8,
                       ContextRelease,
                       GetImmediateContext,
                       UpdateSubresourceCB 2 [1, 0, 0, 0,  0, 1, 0, 0,  0, 0, 1, 0,  0, 0, f0_7, 1],
                       VSSetConstantBuffers 2,
                       VSSetShader 3,
                       PSSetShader 4,
                       UpdateSubresourceVB 1 triangle,
                       IASetInputLayout 5,
                       IASetPrimitiveTopology,
                       IASetVertexBuffers 1 16 0,
                       Draw 3 0,
                       ContextRelease] ready_plugin)"
    using c4 by (simp add: ready_plugin_def worldMatrix_def d3d11_host_def ideal_fpu_def)
  show ?thesis
    by (rule conjI, rule h1, rule conjI, rule w, rule conjI, rule c1, rule conjI, rule h2,
        rule conjI, rule c2, rule conjI, rule h3, rule conjI, rule c3, rule conjI, rule h4,
        rule conjI, rule c4', rule conjI, rule h5, rule c5)
qed

subsection \<open>A failed load of the shaders\<close>

lemma create_render_states_ps:
  "g_D3D11PixelShader (create_render_states h s) = g_D3D11PixelShader s"
  by (simp add: create_render_states_def create_defs)

lemma create_shaders_ps_rejected:
  assumes "shaders_loadable h s" "\<forall>ps. \<not> create_ok h (CreatePixelShader ps)"
  shows "g_D3D11PixelShader (create_shaders h s) = 0"
  using assms
  by (auto simp add: create_shaders_def create_defs shaders_loadable_def vertexShaderPath_def
      fragmentShaderPath_def split: option.splits)

lemma attempt_ps_rejected:
  assumes "shaders_loadable h s" "\<forall>ps. \<not> create_ok h (CreatePixelShader ps)"
  shows "g_D3D11PixelShader (create_render_states h (create_shaders h (create_buffers h s))) = 0"
proof -
  have "shaders_loadable h (create_buffers h s)"
    using assms(1) by (simp add: create_buffers_frame shaders_loadable_cong [of "create_buffers h s" s])
  then show ?thesis
    using assms(2) by (simp add: create_render_states_ps create_shaders_ps_rejected)
qed

text \<open>
  Claim C1 does not hold of the code. \<^verbatim>\<open>EnsureD3D11ResourcesAreCreated\<close> ends in an
  unconditional \<^verbatim>\<open>return true\<close> (line 351): the results of loading the files and of the
  creation calls are logged and dropped.

  \<^item> With the asset path set and a device, a call in which a shader file is missing or
    empty, or in which the device rejects the vertex shader, returns true, and leaves the
    plugin without a vertex shader.
  \<^item> The caller takes the value for readiness: the render event of such a state (on
    Direct3D 11, with no texture) goes on to bind the null vertex shader and to draw.
  \<^item> When the files load and the device rejects the pixel shader, the call returns true and
    leaves a vertex shader and no pixel shader; every later call then returns true at the
    first test and changes nothing, so this failure is never retried.
\<close>

theorem ensure_true_without_shaders:
  "(g_D3D11VertexShader s = 0 \<and> s_UnityStreamingAssetsPath s \<noteq> [] \<and> g_D3D11Device s \<noteq> 0
      \<and> \<not> shaders_loadable h s \<longrightarrow>
      (\<exists>s'. EnsureD3D11ResourcesAreCreated h s = Inr (True, s') \<and> g_D3D11VertexShader s' = 0))
   \<and> (g_D3D11VertexShader s = 0 \<and> s_UnityStreamingAssetsPath s \<noteq> [] \<and> g_D3D11Device s \<noteq> 0
      \<and> \<not> shaders_loadable h s \<and> s_DeviceType s = kUnityGfxRendererD3D11 \<and> g_TexturePointer s = 0 \<longrightarrow>
      (\<exists>s1. g_D3D11VertexShader s1 = 0
         \<and> OnRenderEvent h eventID s =
             Inr (issue_all [GetImmediateContext,
                             UpdateSubresourceCB (g_D3D11CB s1) (worldMatrix (fp h) (g_Time s)),
                             VSSetConstantBuffers (g_D3D11CB s1),
                             VSSetShader 0,
                             PSSetShader (g_D3D11PixelShader s1),
                             UpdateSubresourceVB (g_D3D11VB s1) triangle,
                             IASetInputLayout (g_D3D11InputLayout s1),
                             IASetPrimitiveTopology,
                             IASetVertexBuffers (g_D3D11VB s1) 16 0,
                             Draw 3 0,
                             ContextRelease] s1)))
   \<and> (g_D3D11VertexShader s = 0 \<and> s_UnityStreamingAssetsPath s \<noteq> [] \<and> g_D3D11Device s \<noteq> 0
      \<and> shaders_loadable h s \<and> (\<forall>ps. \<not> create_ok h (CreatePixelShader ps)) \<longrightarrow>
      (\<exists>s'. EnsureD3D11ResourcesAreCreated h s = Inr (True, s')
         \<and> g_D3D11VertexShader s' \<noteq> 0 \<and> g_D3D11PixelShader s' = 0
         \<and> (\<forall>h'. EnsureD3D11ResourcesAreCreated h' s' = Inr (True, s'))))"
proof -
  let ?a = "\<lambda>h s. create_render_states h (create_shaders h (create_buffers h s))"
  have first: "\<exists>s'. EnsureD3D11ResourcesAreCreated h s = Inr (True, s') \<and> g_D3D11VertexShader s' = 0"
    if a: "g_D3D11VertexShader s = 0 \<and> s_UnityStreamingAssetsPath s \<noteq> [] \<and> g_D3D11Device s \<noteq> 0
      \<and> \<not> shaders_loadable h s"
  proof -
    have "EnsureD3D11ResourcesAreCreated h s = Inr (True, ?a h s)"
      using a by (simp add: ensure_attempt)
    moreover have "g_D3D11VertexShader (?a h s) = 0"
      using a attempt_vs [of s h] by simp
    ultimately show ?thesis by blast
  qed
  have second: "\<exists>s1. g_D3D11VertexShader s1 = 0
         \<and> OnRenderEvent h eventID s =
             Inr (issue_all [GetImmediateContext,
                             UpdateSubresourceCB (g_D3D11CB s1) (worldMatrix (fp h) (g_Time s)),
                             VSSetConstantBuffers (g_D3D11CB s1),
                             VSSetShader 0,
                             PSSetShader (g_D3D11PixelShader s1),
                             UpdateSubresourceVB (g_D3D11VB s1) triangle,
                             IASetInputLayout (g_D3D11InputLayout s1),
                             IASetPrimitiveTopology,
                             IASetVertexBuffers (g_D3D11VB s1) 16 0,
                             Draw 3 0,
                             ContextRelease] s1)"
    if a: "g_D3D11VertexShader s = 0 \<and> s_UnityStreamingAssetsPath s \<noteq> [] \<and> g_D3D11Device s \<noteq> 0
      \<and> \<not> shaders_loadable h s \<and> s_DeviceType s = kUnityGfxRendererD3D11 \<and> g_TexturePointer s = 0"
  proof -
    let ?s0 = "issue_all [GetImmediateContext,
                    OMSetDepthStencilState (g_D3D11DepthState s),
                    RSSetState (g_D3D11RasterState s),
                    OMSetBlendState (g_D3D11BlendState s),
                    ContextRelease] s"
    have tex: "g_TexturePointer s = 0" and ty: "s_DeviceType s = kUnityGfxRendererD3D11"
      and dev: "g_D3D11Device s \<noteq> 0"
      using a by simp_all
    obtain ready s1 where en: "EnsureD3D11ResourcesAreCreated h ?s0 = Inr (ready, s1)"
      and rd: "ready = (g_D3D11VertexShader s \<noteq> 0 \<or> s_UnityStreamingAssetsPath s \<noteq> [])"
      and ev: "OnRenderEvent h eventID s =
        Inr (if ready then
               issue_all [GetImmediateContext,
                          UpdateSubresourceCB (g_D3D11CB s1) (worldMatrix (fp h) (g_Time s)),
                          VSSetConstantBuffers (g_D3D11CB s1),
                          VSSetShader (g_D3D11VertexShader s1),
                          PSSetShader (g_D3D11PixelShader s1),
                          UpdateSubresourceVB (g_D3D11VB s1) triangle,
                          IASetInputLayout (g_D3D11InputLayout s1),
                          IASetPrimitiveTopology,
                          IASetVertexBuffers (g_D3D11VB s1) 16 0,
                          Draw 3 0,
                          ContextRelease] s1
             else s1)"
      using render_event_steps [OF tex ty dev, of h eventID] by blast
    have g0: "same_globals s ?s0" by (rule issue_all_fields)
    have v0: "g_D3D11VertexShader ?s0 = 0" using a by (simp add: issue_all_fields)
    have p0: "s_UnityStreamingAssetsPath ?s0 = s_UnityStreamingAssetsPath s"
      using g0 by (simp add: same_globals_def)
    have d0: "g_D3D11Device ?s0 \<noteq> 0" using g0 a by (simp add: same_globals_def)
    have n0: "\<not> shaders_loadable h ?s0"
      using a shaders_loadable_cong [OF p0, of h] by simp
    have "EnsureD3D11ResourcesAreCreated h ?s0 = Inr (True, ?a h ?s0)"
      using v0 p0 d0 a by (simp add: ensure_attempt)
    then have s1: "s1 = ?a h ?s0" using en by simp
    have "g_D3D11VertexShader (?a h ?s0) = 0"
      using attempt_vs [OF v0, of h] n0 by simp
    then have v1: "g_D3D11VertexShader s1 = 0" using s1 by simp
    have "ready" using rd a by simp
    then have "OnRenderEvent h eventID s =
             Inr (issue_all [GetImmediateContext,
                             UpdateSubresourceCB (g_D3D11CB s1) (worldMatrix (fp h) (g_Time s)),
                             VSSetConstantBuffers (g_D3D11CB s1),
                             VSSetShader 0,
                             PSSetShader (g_D3D11PixelShader s1),
                             UpdateSubresourceVB (g_D3D11VB s1) triangle,
                             IASetInputLayout (g_D3D11InputLayout s1),
                             IASetPrimitiveTopology,
                             IASetVertexBuffers (g_D3D11VB s1) 16 0,
                             Draw 3 0,
                             ContextRelease] s1)"
      using ev v1 by simp
    then show ?thesis using v1 by (intro exI [of _ s1] conjI) assumption+
  qed
  have third: "\<exists>s'. EnsureD3D11ResourcesAreCreated h s = Inr (True, s')
         \<and> g_D3D11VertexShader s' \<noteq> 0 \<and> g_D3D11PixelShader s' = 0
         \<and> (\<forall>h'. EnsureD3D11ResourcesAreCreated h' s' = Inr (True, s'))"
    if a: "g_D3D11VertexShader s = 0 \<and> s_UnityStreamingAssetsPath s \<noteq> [] \<and> g_D3D11Device s \<noteq> 0
      \<and> shaders_loadable h s \<and> (\<forall>ps. \<not> create_ok h (CreatePixelShader ps))"
  proof -
    have e: "EnsureD3D11ResourcesAreCreated h s = Inr (True, ?a h s)"
      using a by (simp add: ensure_attempt)
    have v: "g_D3D11VertexShader (?a h s) \<noteq> 0"
      using a attempt_vs [of s h] by simp
    have p: "g_D3D11PixelShader (?a h s) = 0"
      using a by (intro attempt_ps_rejected) simp_all
    have r: "\<forall>h'. EnsureD3D11ResourcesAreCreated h' (?a h s) = Inr (True, ?a h s)"
      using v by (simp add: ensure_ready)
    show ?thesis
      using e v p r by (intro exI [of _ "?a h s"] conjI) assumption+
  qed
  show ?thesis
    apply (rule conjI)
     apply (rule impI)
     apply (erule first)
    apply (rule conjI)
     apply (rule impI)
     apply (erule second)
    apply (rule impI)
    apply (erule third)
    done
qed

theorem ensure_true_without_shaders_witness:
  "(g_D3D11VertexShader path_set_plugin = 0 \<and> s_UnityStreamingAssetsPath path_set_plugin \<noteq> []
      \<and> g_D3D11Device path_set_plugin \<noteq> 0 \<and> \<not> shaders_loadable no_shader_host path_set_plugin
      \<and> s_DeviceType path_set_plugin = kUnityGfxRendererD3D11 \<and> g_TexturePointer path_set_plugin = 0)
   \<and> fopen no_shader_host (vertexShaderPath path_set_plugin) = None
   \<and> fopen no_shader_host (fragmentShaderPath path_set_plugin) = None
   \<and> (\<exists>s'. EnsureD3D11ResourcesAreCreated no_shader_host path_set_plugin = Inr (True, s')
         \<and> g_D3D11VertexShader s' = 0)
   \<and> (\<exists>s1. g_D3D11VertexShader s1 = 0
         \<and> OnRenderEvent no_shader_host 1 path_set_plugin =
             Inr (issue_all [GetImmediateContext,
                             UpdateSubresourceCB (g_D3D11CB s1)
                               (worldMatrix (fp no_shader_host) (g_Time path_set_plugin)),
                             VSSetConstantBuffers (g_D3D11CB s1),
                             VSSetShader 0,
                             PSSetShader (g_D3D11PixelShader s1),
                             UpdateSubresourceVB (g_D3D11VB s1) triangle,
                             IASetInputLayout (g_D3D11InputLayout s1),
                             IASetPrimitiveTopology,
                             IASetVertexBuffers (g_D3D11VB s1) 16 0,
                             Draw 3 0,
                             ContextRelease] s1))
   \<and> (shaders_loadable pixel_reject_host path_set_plugin
       \<and> (\<forall>ps. \<not> create_ok pixel_reject_host (CreatePixelShader ps)))
   \<and> (\<exists>s'. EnsureD3D11ResourcesAreCreated pixel_reject_host path_set_plugin = Inr (True, s')
         \<and> g_D3D11VertexShader s' \<noteq> 0 \<and> g_D3D11PixelShader s' = 0
         \<and> (\<forall>h'. EnsureD3D11ResourcesAreCreated h' s' = Inr (True, s')))"
proof -
  have h1: "g_D3D11VertexShader path_set_plugin = 0 \<and> s_UnityStreamingAssetsPath path_set_plugin \<noteq> []
      \<and> g_D3D11Device path_set_plugin \<noteq> 0 \<and> \<not> shaders_loadable no_shader_host path_set_plugin"
    by (simp add: path_set_plugin_fields no_shader_host_not_loadable)
  have h2: "g_D3D11VertexShader path_set_plugin = 0 \<and> s_UnityStreamingAssetsPath path_set_plugin \<noteq> []
      \<and> g_D3D11Device path_set_plugin \<noteq> 0 \<and> \<not> shaders_loadable no_shader_host path_set_plugin
      \<and> s_DeviceType path_set_plugin = kUnityGfxRendererD3D11 \<and> g_TexturePointer path_set_plugin = 0"
    by (simp add: path_set_plugin_fields no_shader_host_not_loadable)
  have f: "fopen no_shader_host (vertexShaderPath path_set_plugin) = None"
    "fopen no_shader_host (fragmentShaderPath path_set_plugin) = None"
    by (simp_all add: no_shader_host_def d3d11_host_def)
  have l: "shaders_loadable pixel_reject_host path_set_plugin
       \<and> (\<forall>ps. \<not> create_ok pixel_reject_host (CreatePixelShader ps))"
    by (simp add: shaders_loadable_def pixel_reject_host_def d3d11_host_def)
  have h3: "g_D3D11VertexShader path_set_plugin = 0 \<and> s_UnityStreamingAssetsPath path_set_plugin \<noteq> []
      \<and> g_D3D11Device path_set_plugin \<noteq> 0 \<and> shaders_loadable pixel_reject_host path_set_plugin
      \<and> (\<forall>ps. \<not> create_ok pixel_reject_host (CreatePixelShader ps))"
    using l by (simp add: path_set_plugin_fields)
  note c1 = ensure_true_without_shaders [where s = path_set_plugin and h = no_shader_host,
      THEN conjunct1, THEN mp, OF h1]
  note c2 = ensure_true_without_shaders [where s = path_set_plugin and h = no_shader_host
      and eventID = 1, THEN conjunct2, THEN conjunct1, THEN mp, OF h2]
  note c3 = ensure_true_without_shaders [where s = path_set_plugin and h = pixel_reject_host,
      THEN conjunct2, THEN conjunct2, THEN mp, OF h3]
  show ?thesis
    by (rule conjI, rule h2, rule conjI, rule f(1), rule conjI, rule f(2), rule conjI, rule c1,
        rule conjI, rule c2, rule conjI, rule l, rule c3)
qed

subsection \<open>The world matrix\<close>

lemma world_matrix_product:
  "worldMatrix f t = mat_mul (rotation_z (cosf f t) (sinf f t)) (depth_shift f0_7)"
  "worldMatrix f t = mat_mul (depth_shift f0_7) (rotation_z (cosf f t) (sinf f t))"
  by (simp_all add: worldMatrix_def mat_mul_def rotation_z_def depth_shift_def Let_def)

lemma f0_7_near: "\<bar>f0_7 - 0.7\<bar> \<le> 1 / 2 ^ 26"
  by (simp add: f0_7_def)

lemma rotation_block_world:
  "rotation_block (worldMatrix f t) = [cosf f t, - sinf f t, sinf f t, cosf f t]"
  by (simp add: rotation_block_def worldMatrix_def Let_def)

lemma one_minus_cos_le: "1 - cos x \<le> \<bar>x\<bar>" for x :: real
proof -
  have c: "cos x = 1 - 2 * (sin (x / 2))\<^sup>2"
    using cos_double_sin [of "x / 2"] by simp
  have "(sin (x / 2))\<^sup>2 = \<bar>sin (x / 2)\<bar> * \<bar>sin (x / 2)\<bar>"
    by (simp add: power2_eq_square)
  also have "\<dots> \<le> \<bar>sin (x / 2)\<bar> * 1"
    by (rule mult_left_mono) simp_all
  also have "\<dots> \<le> \<bar>x / 2\<bar>"
    using abs_sin_x_le_abs_x [of "x / 2"] by simp
  finally show ?thesis using c by simp
qed

lemma cos_near_pi: "\<bar>cos t + 1\<bar> \<le> \<bar>t - pi\<bar>" for t :: real
proof -
  have "0 \<le> cos t + 1"
    using cos_ge_minus_one [of t] by linarith
  moreover have "cos t + 1 = 1 - cos (t - pi)" by simp
  ultimately show ?thesis using one_minus_cos_le [of "t - pi"] by simp
qed

lemma sin_near_pi: "\<bar>sin t\<bar> \<le> \<bar>t - pi\<bar>" for t :: real
  by (metis sin_pi_minus abs_sin_x_le_abs_x abs_minus_commute)

lemma rotation_block_near_pi:
  assumes "\<bar>cosf f t - cos t\<bar> \<le> e" "\<bar>sinf f t - sin t\<bar> \<le> e" "\<bar>t - pi\<bar> \<le> d"
  shows "\<bar>rotation_block (worldMatrix f t) ! 0 - (- 1)\<bar> \<le> e + d"
    and "\<bar>rotation_block (worldMatrix f t) ! 1 - 0\<bar> \<le> e + d"
    and "\<bar>rotation_block (worldMatrix f t) ! 2 - 0\<bar> \<le> e + d"
    and "\<bar>rotation_block (worldMatrix f t) ! 3 - (- 1)\<bar> \<le> e + d"
proof -
  have c: "\<bar>cosf f t + 1\<bar> \<le> e + d"
    using assms(1,3) cos_near_pi [of t] by linarith
  have s: "\<bar>sinf f t\<bar> \<le> e + d"
    using assms(2,3) sin_near_pi [of t] by linarith
  show "\<bar>rotation_block (worldMatrix f t) ! 0 - (- 1)\<bar> \<le> e + d"
    and "\<bar>rotation_block (worldMatrix f t) ! 1 - 0\<bar> \<le> e + d"
    and "\<bar>rotation_block (worldMatrix f t) ! 2 - 0\<bar> \<le> e + d"
    and "\<bar>rotation_block (worldMatrix f t) ! 3 - (- 1)\<bar> \<le> e + d"
    using c s by (simp_all add: rotation_block_world)
qed

lemma update_texture_calls:
  assumes "update_texture h s = Inr s'"
  shows "\<exists>cs. gpu_calls s' = gpu_calls s @ cs"
  using assms
  by (auto simp: update_texture_def Let_def issue_def split: if_splits option.splits sum.splits)

lemma render_event_uploads_world_matrix:
  assumes w: "will_draw s" and r: "OnRenderEvent h e s = Inr s'"
  shows "\<exists>cb cs1 cs2. gpu_calls s' =
           gpu_calls s @ cs1 @ UpdateSubresourceCB cb (worldMatrix (fp h) (g_Time s)) # cs2"
proof -
  let ?w = "worldMatrix (fp h) (g_Time s)"
  have ty: "s_DeviceType s = kUnityGfxRendererD3D11" using w by (simp add: will_draw_def)
  from r ty obtain s1 where d: "SetDefaultGraphicsState s = Inr s1"
    and dr: "DoRendering h ?w identityMatrix identityMatrix triangle s1 = Inr s'"
    by (auto simp: OnRenderEvent_def split: sum.splits)
  obtain pre where s1: "s1 = issue_all pre s"
    using d ty by (auto simp: SetDefaultGraphicsState_def split: if_splits)
  have ty1: "s_DeviceType s1 = kUnityGfxRendererD3D11"
    using ty issue_all_fields(1) [where s=s and cs=pre] by (simp add: s1 same_globals_def)
  have w1: "g_D3D11VertexShader s1 \<noteq> 0 \<or> s_UnityStreamingAssetsPath s1 \<noteq> []"
    using w issue_all_fields(1,3) [where s=s and cs=pre] by (simp add: s1 same_globals_def will_draw_def)
  from dr ty1 obtain b s2 where e: "EnsureD3D11ResourcesAreCreated h s1 = Inr (b, s2)"
    by (auto simp: DoRendering_def split: sum.splits)
  have b: b using ensure_props(3) [OF e] w1 by simp
  obtain c1 where c1: "gpu_calls s2 = gpu_calls s1 @ c1"
    using ensure_props(2) [OF e] by blast
  let ?rest = "[VSSetConstantBuffers (g_D3D11CB s2),
                          VSSetShader (g_D3D11VertexShader s2),
                          PSSetShader (g_D3D11PixelShader s2),
                          UpdateSubresourceVB (g_D3D11VB s2) (take 3 triangle),
                          IASetInputLayout (g_D3D11InputLayout s2),
                          IASetPrimitiveTopology,
                          IASetVertexBuffers (g_D3D11VB s2) 16 0,
                          Draw 3 0]"
  let ?draw = "GetImmediateContext # UpdateSubresourceCB (g_D3D11CB s2) ?w # ?rest"
  from dr ty1 e b obtain s3 where
    u: "update_texture h (issue_all ?draw s2) = Inr s3" and s': "s' = issue ContextRelease s3"
    by (auto simp: DoRendering_def Let_def split: if_splits sum.splits)
  obtain c3 where c3: "gpu_calls s3 = gpu_calls (issue_all ?draw s2) @ c3"
    using update_texture_calls [OF u] by blast
  have "gpu_calls s' = gpu_calls s @ (pre @ c1 @ [GetImmediateContext])
          @ UpdateSubresourceCB (g_D3D11CB s2) ?w # (?rest @ c3 @ [ContextRelease])"
    by (simp add: s' issue_fields c3 issue_all_fields c1 s1)
  then show ?thesis by blast
qed

text \<open>
  Claim C4. The world matrix that \<^verbatim>\<open>OnRenderEvent\<close> builds from the shared time \<open>t\<close> is the
  product of the rotation about the viewing axis, with the cosine and sine that the C library
  computes for the angle \<open>t\<close>, and the fixed matrix that is the identity but for the entry
  \<^verbatim>\<open>0.7f\<close> of the depth axis (a single-precision number within \<open>2\<^sup>-\<^sup>2\<^sup>6\<close> of 0.7). At time
  0, where \<^verbatim>\<open>cosf\<close> gives 1 and \<^verbatim>\<open>sinf\<close> gives 0, the world matrix is that fixed matrix and
  its rotation block is the identity. Near \<open>\<pi>\<close> the rotation block is minus the identity
  up to the tolerance: if \<^verbatim>\<open>cosf\<close> and \<^verbatim>\<open>sinf\<close> are within \<open>e\<close> of the cosine and the sine,
  and \<open>t\<close> is within \<open>d\<close> of \<open>\<pi>\<close>, every entry of the block is within \<open>e + d\<close> of the entry
  of minus the identity. This is the matrix that a render event which gets past the ready
  check uploads to the constant buffer.
\<close>

theorem world_matrix_is_rotation:
  "worldMatrix f t = mat_mul (rotation_z (cosf f t) (sinf f t)) (depth_shift f0_7)
   \<and> \<bar>f0_7 - 0.7\<bar> \<le> 1 / 2 ^ 26
   \<and> (cosf f 0 = 1 \<and> sinf f 0 = 0 \<longrightarrow>
        worldMatrix f 0 = depth_shift f0_7 \<and> rotation_block (worldMatrix f 0) = [1, 0, 0, 1])
   \<and> (\<bar>cosf f t - cos t\<bar> \<le> e \<and> \<bar>sinf f t - sin t\<bar> \<le> e \<and> \<bar>t - pi\<bar> \<le> d \<longrightarrow>
        \<bar>rotation_block (worldMatrix f t) ! 0 - (- 1)\<bar> \<le> e + d
        \<and> \<bar>rotation_block (worldMatrix f t) ! 1 - 0\<bar> \<le> e + d
        \<and> \<bar>rotation_block (worldMatrix f t) ! 2 - 0\<bar> \<le> e + d
        \<and> \<bar>rotation_block (worldMatrix f t) ! 3 - (- 1)\<bar> \<le> e + d)
   \<and> (will_draw s \<and> OnRenderEvent h eventID s = Inr s' \<longrightarrow>
        (\<exists>cb cs1 cs2. gpu_calls s' =
           gpu_calls s @ cs1 @ UpdateSubresourceCB cb (worldMatrix (fp h) (g_Time s)) # cs2))"
proof (intro conjI impI)
  show "worldMatrix f t = mat_mul (rotation_z (cosf f t) (sinf f t)) (depth_shift f0_7)"
    by (rule world_matrix_product)
  show "\<bar>f0_7 - 0.7\<bar> \<le> 1 / 2 ^ 26"
    by (rule f0_7_near)
next
  assume z: "cosf f 0 = 1 \<and> sinf f 0 = 0"
  then show "worldMatrix f 0 = depth_shift f0_7"
    by (simp add: worldMatrix_def depth_shift_def Let_def)
  from z show "rotation_block (worldMatrix f 0) = [1, 0, 0, 1]"
    by (simp add: rotation_block_world)
next
  assume a: "\<bar>cosf f t - cos t\<bar> \<le> e \<and> \<bar>sinf f t - sin t\<bar> \<le> e \<and> \<bar>t - pi\<bar> \<le> d"
  then have a': "\<bar>cosf f t - cos t\<bar> \<le> e" "\<bar>sinf f t - sin t\<bar> \<le> e" "\<bar>t - pi\<bar> \<le> d"
    by simp_all
  show "\<bar>rotation_block (worldMatrix f t) ! 0 - (- 1)\<bar> \<le> e + d"
    by (rule rotation_block_near_pi(1) [OF a'])
  show "\<bar>rotation_block (worldMatrix f t) ! 1 - 0\<bar> \<le> e + d"
    by (rule rotation_block_near_pi(2) [OF a'])
  show "\<bar>rotation_block (worldMatrix f t) ! 2 - 0\<bar> \<le> e + d"
    by (rule rotation_block_near_pi(3) [OF a'])
  show "\<bar>rotation_block (worldMatrix f t) ! 3 - (- 1)\<bar> \<le> e + d"
    by (rule rotation_block_near_pi(4) [OF a'])
next
  assume "will_draw s \<and> OnRenderEvent h eventID s = Inr s'"
  then show "\<exists>cb cs1 cs2. gpu_calls s' =
           gpu_calls s @ cs1 @ UpdateSubresourceCB cb (worldMatrix (fp h) (g_Time s)) # cs2"
    using render_event_uploads_world_matrix by blast
qed

theorem world_matrix_is_rotation_witness:
  "(cosf ideal_fpu 0 = 1 \<and> sinf ideal_fpu 0 = 0)
   \<and> worldMatrix ideal_fpu 0 = depth_shift f0_7
   \<and> rotation_block (worldMatrix ideal_fpu 0) = [1, 0, 0, 1]
   \<and> (\<bar>cosf ideal_fpu pi - cos pi\<bar> \<le> 0 \<and> \<bar>sinf ideal_fpu pi - sin pi\<bar> \<le> 0 \<and> \<bar>pi - pi\<bar> \<le> 0)
   \<and> rotation_block (worldMatrix ideal_fpu pi) = [- 1, 0, 0, - 1]
   \<and> will_draw ready_plugin
   \<and> (\<exists>s'. OnRenderEvent d3d11_host 1 ready_plugin = Inr s'
         \<and> (\<exists>cb cs1 cs2. gpu_calls s' = gpu_calls ready_plugin @ cs1 @
               UpdateSubresourceCB cb (worldMatrix (fp d3d11_host) (g_Time ready_plugin)) # cs2))"
proof -
  have h0: "cosf ideal_fpu 0 = 1 \<and> sinf ideal_fpu 0 = 0"
    by (simp add: ideal_fpu_def)
  have hp: "\<bar>cosf ideal_fpu pi - cos pi\<bar> \<le> 0 \<and> \<bar>sinf ideal_fpu pi - sin pi\<bar> \<le> 0 \<and> \<bar>pi - pi\<bar> \<le> 0"
    by (simp add: ideal_fpu_def)
  have w: "will_draw ready_plugin"
    by (simp add: will_draw_def ready_plugin_def)
  obtain s' where r: "OnRenderEvent d3d11_host 1 ready_plugin = Inr s'"
    using OnRenderEvent_no_texture [of ready_plugin d3d11_host 1]
    by (auto simp: ready_plugin_def device_valid_def)
  note th = world_matrix_is_rotation [of ideal_fpu pi 0 0 ready_plugin d3d11_host 1 s']
  from th h0 have c0: "worldMatrix ideal_fpu 0 = depth_shift f0_7"
    "rotation_block (worldMatrix ideal_fpu 0) = [1, 0, 0, 1]"
    by blast+
  from th hp have cp: "\<bar>rotation_block (worldMatrix ideal_fpu pi) ! 0 - (- 1)\<bar> \<le> 0 + 0"
    "\<bar>rotation_block (worldMatrix ideal_fpu pi) ! 1 - 0\<bar> \<le> 0 + 0"
    "\<bar>rotation_block (worldMatrix ideal_fpu pi) ! 2 - 0\<bar> \<le> 0 + 0"
    "\<bar>rotation_block (worldMatrix ideal_fpu pi) ! 3 - (- 1)\<bar> \<le> 0 + 0"
    by blast+
  have len: "length (rotation_block (worldMatrix ideal_fpu pi)) = 4"
    by (simp add: rotation_block_def)
  have bp: "rotation_block (worldMatrix ideal_fpu pi) = [- 1, 0, 0, - 1]"
  proof (rule nth_equalityI)
    show "length (rotation_block (worldMatrix ideal_fpu pi)) = length [- 1, 0, 0, - 1 :: real]"
      using len by simp
    fix i assume "i < length (rotation_block (worldMatrix ideal_fpu pi))"
    then consider "i = 0" | "i = 1" | "i = 2" | "i = 3" using len by linarith
    then show "rotation_block (worldMatrix ideal_fpu pi) ! i = [- 1, 0, 0, - 1] ! i"
      using cp by cases simp_all
  qed
  from th w r have cu: "\<exists>cb cs1 cs2. gpu_calls s' = gpu_calls ready_plugin @ cs1 @
               UpdateSubresourceCB cb (worldMatrix (fp d3d11_host) (g_Time ready_plugin)) # cs2"
    by blast
  show ?thesis
    using h0 c0 hp bp w r cu by blast
qed

section \<open>Properties of the device events\<close>

text \<open>
  Claim C10. A BeforeReset or AfterReset event changes nothing but the log: the new state is
  the old one with one line appended to the log, so the device type, the device and texture
  pointers, the time, the asset path, all eight resource handles and the trace of device
  calls are what they were. This holds in every state and never faults.
\<close>

theorem reset_events_only_log:
  "OnGraphicsDeviceEvent h kUnityGfxDeviceEventBeforeReset s =
     Inr (s\<lparr>debug_log := debug_log s @ [''OnGraphicsDeviceEvent(BeforeReset).'' @ [CHR 0x0A]]\<rparr>)
   \<and> OnGraphicsDeviceEvent h kUnityGfxDeviceEventAfterReset s =
     Inr (s\<lparr>debug_log := debug_log s @ [''OnGraphicsDeviceEvent(AfterReset).'' @ [CHR 0x0A]]\<rparr>)"
  by (simp add: OnGraphicsDeviceEvent_def DoEventGraphicsDeviceD3D11_def DebugLog_def)

text \<open>
  Claim C8. In every state that the plugin can reach on an engine whose renderer is fixed, a
  Shutdown event never faults and leaves the device type at \<^verbatim>\<open>kUnityGfxRendererNull\<close>, the
  texture pointer null and all eight resource handles null; the device calls it makes are
  exactly one \<^verbatim>\<open>Release\<close> for every resource handle that was not null.
\<close>

theorem shutdown_releases_everything:
  assumes "reachable r s"
  shows "\<exists>s'. OnGraphicsDeviceEvent h kUnityGfxDeviceEventShutdown s = Inr s'
           \<and> s_DeviceType s' = kUnityGfxRendererNull
           \<and> g_TexturePointer s' = 0
           \<and> resource_handles s' = [0, 0, 0, 0, 0, 0, 0, 0]
           \<and> gpu_calls s' = gpu_calls s @ map Release (filter (\<lambda>a. a \<noteq> 0) (resource_handles s))"
proof -
  note inv = reachable_follow_device [OF assms]
  show ?thesis
  proof (cases "s_DeviceType s = kUnityGfxRendererD3D11")
    case True
    have "resource_handles (s\<lparr>debug_log := l, s_DeviceType := t, g_TexturePointer := p\<rparr>)
        = resource_handles s" for l t p
      by (simp add: resource_handles_def)
    then show ?thesis
      using True by (simp add: shutdown_eq release_handles release_frame release_calls)
  next
    case False
    then have "resource_handles s = [0, 0, 0, 0, 0, 0, 0, 0]"
      using inv by (auto simp: resources_follow_device_def)
    then show ?thesis
      using False by (simp add: shutdown_eq) (simp add: resource_handles_def)
  qed
qed

theorem shutdown_releases_everything_witness:
  "reachable kUnityGfxRendererD3D11 ready_plugin
   \<and> (\<exists>s'. OnGraphicsDeviceEvent d3d11_host kUnityGfxDeviceEventShutdown ready_plugin = Inr s'
           \<and> s_DeviceType s' = kUnityGfxRendererNull
           \<and> g_TexturePointer s' = 0
           \<and> resource_handles s' = [0, 0, 0, 0, 0, 0, 0, 0]
           \<and> gpu_calls s' = gpu_calls ready_plugin @
                [Release 1, Release 2, Release 3, Release 4, Release 5, Release 6, Release 8, Release 7])"
  using ready_plugin_reachable
    shutdown_releases_everything [OF ready_plugin_reachable, of d3d11_host]
  by (simp add: resource_handles_def ready_plugin_def)

text \<open>
  Claim C2 does not hold of the code. In the session \<open>leak_calls\<close> the shader files are
  missing, so every call of \<^verbatim>\<open>EnsureD3D11ResourcesAreCreated\<close> that gets past the asset
  path creates the two buffers and the three state objects again and overwrites the handles
  of the previous attempt. Between the Initialize event of \<^verbatim>\<open>UnityPluginLoad\<close> and the
  Shutdown event, ten objects are created and five are released, although all eight
  handles are null at the end.
\<close>

theorem leak_on_retry:
  "map_sum id (\<lambda>s. (create_count (gpu_calls s), release_count (gpu_calls s), resource_handles s))
     (run leak_calls initial_plugin) = Inr (10, 5, [0, 0, 0, 0, 0, 0, 0, 0])"
  by (simp add: leak_calls_def UnityPluginLoad_def OnGraphicsDeviceEvent_def DoEventGraphicsDeviceD3D11_def
      EnsureD3D11ResourcesAreCreated_def d3d11_host_def no_shader_host_def initial_plugin_def
      DebugLog_def SetUnityStreamingAssetsPath_def OnRenderEvent_def SetDefaultGraphicsState_def
      DoRendering_def issue_all_def issue_def update_texture_def create_buffers_def create_shaders_def
      create_render_states_def device_create_def LoadFileIntoBuffer_def Let_def
      ReleaseD3D11Resources_def SAFE_RELEASE_def create_count_def release_count_def
      vertexShaderPath_def fragmentShaderPath_def resource_handles_def)

section \<open>Properties of the texture fill\<close>

subsection \<open>The loops\<close>

lemma write_pixel_ok:
  assumes "0 \<le> ptr" "ptr + 3 < int (length buf)"
  shows "write_pixel buf ptr vv =
    Inr (buf[nat ptr := word_of_int vv, nat ptr + 1 := word_of_int vv,
             nat ptr + 2 := word_of_int vv, nat ptr + 3 := word_of_int vv])"
  using assms by (simp add: write_pixel_def store_byte_def nat_add_distrib)

lemma plasma_fits:
  assumes "0 \<le> x" "x \<le> 16384" "0 \<le> y" "y \<le> 16384"
  shows "fits_int (x + y) \<and> fits_int (x * x) \<and> fits_int (y * y) \<and> fits_int (x * x + y * y)"
proof -
  have "x * x \<le> 16384 * 16384" "y * y \<le> 16384 * 16384"
    using mult_mono [of x 16384 x 16384] mult_mono [of y 16384 y 16384] assms by simp_all
  then show ?thesis
    using assms zero_le_square [of x] zero_le_square [of y] unfolding fits_int_def by linarith
qed

lemma float_to_int_fault: "float_to_int v = Inl e \<Longrightarrow> e = UndefinedConversion"
  by (auto simp: float_to_int_def split: option.splits if_splits)

lemma plasma_fault_kind:
  assumes "0 \<le> x" "x \<le> 16384" "0 \<le> y" "y \<le> 16384" "plasma f t x y = Inl e"
  shows "e = UndefinedConversion"
  using plasma_fits [OF assms(1-4)] assms(5) float_to_int_fault
  unfolding plasma_def by (auto split: sum.splits)

lemma update_nth:
  "buf[k := v] ! i = (if i = k \<and> k < length buf then v else buf ! i)"
  by (cases "k < length buf") (simp_all add: nth_list_update list_update_beyond eq_commute [of i k])

lemma pixel_update_nth:
  "(buf[p := v, p + 1 := v, p + 2 := v, p + 3 := v]) ! i =
     (if p \<le> i \<and> i < p + 4 \<and> i < length buf then v else buf ! i)"
proof -
  have "(p \<le> i \<and> i < p + 4) = (i = p \<or> i = p + 1 \<or> i = p + 2 \<or> i = p + 3)"
    by linarith
  then show ?thesis
    by (auto simp: update_nth)
qed

text \<open>A row whose pixels all have a value: the loop over \<open>x\<close> writes them and nothing else.\<close>

lemma fill_row_correct:
  assumes "n = nat (width - x)" "0 \<le> x" "x \<le> width" "width \<le> 16384" "0 \<le> y" "y \<le> 16384"
    "0 \<le> base" "base + 4 * width \<le> int (length buf)"
    "\<forall>x'. x \<le> x' \<and> x' < width \<longrightarrow> (\<exists>vv. plasma f t x' y = Inr vv)"
  shows "\<exists>out. fill_row f t width y x (base + 4 * x) buf = Inr out \<and> length out = length buf
      \<and> (\<forall>i. out ! i = (if base + 4 * x \<le> int i \<and> int i < base + 4 * width
                          then pixel_byte f t ((int i - base) div 4) y else buf ! i))"
  using assms
proof (induction n arbitrary: x buf)
  case 0
  then have "x = width" by simp
  then show ?case by (subst fill_row.simps) auto
next
  case (Suc n)
  then have lt: "x < width" by linarith
  have ok: "\<exists>vv. plasma f t x' y = Inr vv" if "x \<le> x'" "x' < width" for x'
    using Suc.prems(9) that by blast
  obtain vv where vv1: "plasma f t x y = Inr vv"
    using ok [of x] lt by auto
  then have vv2: "pixel_byte f t x y = word_of_int vv"
    by (simp add: pixel_byte_def)
  note vv = vv1 vv2
  let ?p = "nat (base + 4 * x)"
  let ?v = "word_of_int vv :: byte"
  let ?buf1 = "buf[?p := ?v, ?p + 1 := ?v, ?p + 2 := ?v, ?p + 3 := ?v]"
  have wp: "write_pixel buf (base + 4 * x) vv = Inr ?buf1"
    using Suc.prems lt by (intro write_pixel_ok) auto
  have "\<exists>out. fill_row f t width y (x + 1) (base + 4 * (x + 1)) ?buf1 = Inr out \<and> length out = length ?buf1
      \<and> (\<forall>i. out ! i = (if base + 4 * (x + 1) \<le> int i \<and> int i < base + 4 * width
                          then pixel_byte f t ((int i - base) div 4) y else ?buf1 ! i))"
  proof (rule Suc.IH)
    show "n = nat (width - (x + 1))" using Suc.prems(1) by linarith
    show "0 \<le> x + 1" "x + 1 \<le> width" using Suc.prems lt by simp_all
    show "width \<le> 16384" "0 \<le> y" "y \<le> 16384" "0 \<le> base" using Suc.prems by simp_all
    show "base + 4 * width \<le> int (length ?buf1)" using Suc.prems by simp
    show "\<forall>x'. x + 1 \<le> x' \<and> x' < width \<longrightarrow> (\<exists>vv. plasma f t x' y = Inr vv)"
      using ok by simp
  qed
  then obtain out where out: "fill_row f t width y (x + 1) (base + 4 * (x + 1)) ?buf1 = Inr out"
    "length out = length buf"
    "\<And>i. out ! i = (if base + 4 * (x + 1) \<le> int i \<and> int i < base + 4 * width
                          then pixel_byte f t ((int i - base) div 4) y else ?buf1 ! i)"
    by auto
  have step: "fill_row f t width y x (base + 4 * x) buf = Inr out"
    using lt vv wp out(1) by (subst fill_row.simps) (simp add: algebra_simps)
  have nth: "out ! i = (if base + 4 * x \<le> int i \<and> int i < base + 4 * width
                          then pixel_byte f t ((int i - base) div 4) y else buf ! i)" for i
  proof (cases "base + 4 * (x + 1) \<le> int i \<and> int i < base + 4 * width")
    case True
    then show ?thesis using out(3) [of i] by auto
  next
    case False
    then have o: "out ! i = ?buf1 ! i" using out(3) [of i] by (simp only: if_False)
    show ?thesis
    proof (cases "base + 4 * x \<le> int i \<and> int i < base + 4 * x + 4")
      case True
      then have d: "(int i - base) div 4 = x" by linarith
      have "i < length buf" using True Suc.prems(8) lt by linarith
      moreover have "?p \<le> i \<and> i < ?p + 4" using True Suc.prems(2,7) by linarith
      ultimately have "?buf1 ! i = ?v" using pixel_update_nth [of buf ?p ?v i] by simp
      then show ?thesis using o d vv(2) True lt by auto
    next
      case False
      then have "\<not> (?p \<le> i \<and> i < ?p + 4)" using Suc.prems(2,7) by linarith
      then have "?buf1 ! i = buf ! i" using pixel_update_nth [of buf ?p ?v i] by auto
      then show ?thesis using o False \<open>\<not> (base + 4 * (x + 1) \<le> int i \<and> int i < base + 4 * width)\<close>
        by auto
    qed
  qed
  show ?case using step out(2) nth by blast
qed

text \<open>A row with a pixel that has no value: the loop over \<open>x\<close> stops at the first of them.\<close>

lemma fill_row_fault:
  assumes "n = nat (width - x)" "0 \<le> x" "x \<le> width" "width \<le> 16384" "0 \<le> y" "y \<le> 16384"
    "0 \<le> base" "base + 4 * width \<le> int (length buf)"
    "\<exists>x'. x \<le> x' \<and> x' < width \<and> (\<forall>vv. plasma f t x' y \<noteq> Inr vv)"
  shows "fill_row f t width y x (base + 4 * x) buf = Inl UndefinedConversion"
  using assms
proof (induction n arbitrary: x buf)
  case 0
  then show ?case by auto
next
  case (Suc n)
  then have lt: "x < width" by linarith
  obtain xb where xb: "x \<le> xb" "xb < width" "\<forall>vv. plasma f t xb y \<noteq> Inr vv"
    using Suc.prems(9) by blast
  show ?case
  proof (cases "plasma f t x y")
    case (Inl e)
    have "x \<le> 16384" using lt Suc.prems(4) by linarith
    then have "e = UndefinedConversion"
      using plasma_fault_kind [of x y f t e] Suc.prems(2,5,6) Inl by simp
    then show ?thesis using lt Inl by (subst fill_row.simps) simp
  next
    case (Inr vv)
    let ?p = "nat (base + 4 * x)"
    let ?v = "word_of_int vv :: byte"
    let ?buf1 = "buf[?p := ?v, ?p + 1 := ?v, ?p + 2 := ?v, ?p + 3 := ?v]"
    have wp: "write_pixel buf (base + 4 * x) vv = Inr ?buf1"
      using Suc.prems lt by (intro write_pixel_ok) auto
    have "xb \<noteq> x" using xb(3) Inr by auto
    then have xb1: "x + 1 \<le> xb" using xb(1) by linarith
    have "fill_row f t width y (x + 1) (base + 4 * (x + 1)) ?buf1 = Inl UndefinedConversion"
    proof (rule Suc.IH)
      show "n = nat (width - (x + 1))" using Suc.prems(1) by linarith
      show "0 \<le> x + 1" "x + 1 \<le> width" using Suc.prems lt by simp_all
      show "width \<le> 16384" "0 \<le> y" "y \<le> 16384" "0 \<le> base" using Suc.prems by simp_all
      show "base + 4 * width \<le> int (length ?buf1)" using Suc.prems by simp
      show "\<exists>x'. x + 1 \<le> x' \<and> x' < width \<and> (\<forall>vv. plasma f t x' y \<noteq> Inr vv)"
        using xb1 xb(2,3) by blast
    qed
    then show ?thesis
      using lt Inr wp by (subst fill_row.simps) (simp add: algebra_simps)
  qed
qed

lemma index_split:
  fixes i W H :: nat
  assumes "i < W * H * 4"
  shows "\<exists>x y c. x < W \<and> y < H \<and> c < 4 \<and> i = y * (W * 4) + 4 * x + c"
proof -
  have W: "0 < W" using assms by (cases W) auto
  let ?y = "i div (W * 4)" and ?r = "i mod (W * 4)"
  have "i < H * (W * 4)" using assms by (simp add: mult.commute mult.left_commute)
  then have y: "?y < H" using W by (simp add: less_mult_imp_div_less)
  have r: "?r < W * 4" using W by simp
  then have x: "?r div 4 < W" by simp
  have c: "?r mod 4 < 4" by simp
  have "?r = 4 * (?r div 4) + ?r mod 4" by simp
  moreover have "i = ?y * (W * 4) + ?r" by (rule div_mult_mod_eq [symmetric])
  ultimately have "i = ?y * (W * 4) + 4 * (?r div 4) + ?r mod 4" by linarith
  then show ?thesis using x y c by blast
qed

text \<open>The loop over \<open>y\<close>, when every pixel has a value.\<close>

lemma fill_rows_correct:
  assumes "n = nat (height - y)" "0 \<le> y" "y \<le> height" "height \<le> 16384"
    "0 \<le> width" "width \<le> 16384" "4 * width \<le> stride" "height * stride \<le> int (length buf)"
    "\<forall>y' x'. y \<le> y' \<and> y' < height \<and> 0 \<le> x' \<and> x' < width \<longrightarrow> (\<exists>vv. plasma f t x' y' = Inr vv)"
  shows "\<exists>out. fill_rows f t width height stride y (y * stride) buf = Inr out \<and> length out = length buf
      \<and> (\<forall>y' x' c. y \<le> y' \<and> y' < height \<and> 0 \<le> x' \<and> x' < width \<and> 0 \<le> c \<and> c < 4 \<longrightarrow>
             out ! nat (y' * stride + 4 * x' + c) = pixel_byte f t x' y')
      \<and> (\<forall>i. int i < y * stride \<longrightarrow> out ! i = buf ! i)"
  using assms
proof (induction n arbitrary: y buf)
  case 0
  then have "y = height" by simp
  then show ?case by (subst fill_rows.simps) auto
next
  case (Suc n)
  then have lt: "y < height" by linarith
  have ok: "\<exists>vv. plasma f t x' y' = Inr vv" if "y \<le> y'" "y' < height" "0 \<le> x'" "x' < width" for x' y'
    using Suc.prems(9) that by blast
  have st: "0 \<le> stride" using Suc.prems(5,7) by linarith
  have b0: "0 \<le> y * stride" using Suc.prems(2) st by simp
  have nx: "(y + 1) * stride = y * stride + stride" by (simp add: algebra_simps)
  have "(y + 1) * stride \<le> height * stride"
    using lt st by (intro mult_right_mono) auto
  then have b1: "y * stride + stride \<le> int (length buf)"
    using Suc.prems(8) nx by linarith
  then have b2: "y * stride + 4 * width \<le> int (length buf)"
    using Suc.prems(7) by linarith
  have "\<exists>out. fill_row f t width y 0 (y * stride + 4 * 0) buf = Inr out \<and> length out = length buf
      \<and> (\<forall>i. out ! i = (if y * stride + 4 * 0 \<le> int i \<and> int i < y * stride + 4 * width
                          then pixel_byte f t ((int i - y * stride) div 4) y else buf ! i))"
  proof (rule fill_row_correct [OF refl])
    show "(0::int) \<le> 0" by simp
    show "0 \<le> width" "width \<le> 16384" "0 \<le> y" using Suc.prems by simp_all
    show "y \<le> 16384" using Suc.prems(4) lt by linarith
    show "0 \<le> y * stride" by (rule b0)
    show "y * stride + 4 * width \<le> int (length buf)" by (rule b2)
    show "\<forall>x'. 0 \<le> x' \<and> x' < width \<longrightarrow> (\<exists>vv. plasma f t x' y = Inr vv)"
      using ok [of y] lt by simp
  qed
  then obtain buf1 where r1: "fill_row f t width y 0 (y * stride) buf = Inr buf1"
    and l1: "length buf1 = length buf"
    and n1': "\<forall>i. buf1 ! i = (if y * stride \<le> int i \<and> int i < y * stride + 4 * width
                          then pixel_byte f t ((int i - y * stride) div 4) y else buf ! i)"
    by auto
  have n1: "buf1 ! i = (if y * stride \<le> int i \<and> int i < y * stride + 4 * width
                          then pixel_byte f t ((int i - y * stride) div 4) y else buf ! i)" for i
    using n1' by (rule spec)
  have "\<exists>out. fill_rows f t width height stride (y + 1) ((y + 1) * stride) buf1 = Inr out
      \<and> length out = length buf1
      \<and> (\<forall>y' x' c. y + 1 \<le> y' \<and> y' < height \<and> 0 \<le> x' \<and> x' < width \<and> 0 \<le> c \<and> c < 4 \<longrightarrow>
             out ! nat (y' * stride + 4 * x' + c) = pixel_byte f t x' y')
      \<and> (\<forall>i. int i < (y + 1) * stride \<longrightarrow> out ! i = buf1 ! i)"
  proof (rule Suc.IH)
    show "n = nat (height - (y + 1))" using Suc.prems(1) by linarith
    show "0 \<le> y + 1" "y + 1 \<le> height" using Suc.prems(2) lt by simp_all
    show "height \<le> 16384" "0 \<le> width" "width \<le> 16384" "4 * width \<le> stride"
      using Suc.prems by simp_all
    show "height * stride \<le> int (length buf1)" using Suc.prems(8) l1 by simp
    show "\<forall>y' x'. y + 1 \<le> y' \<and> y' < height \<and> 0 \<le> x' \<and> x' < width \<longrightarrow>
        (\<exists>vv. plasma f t x' y' = Inr vv)"
      using ok by simp
  qed
  then obtain out where ro': "fill_rows f t width height stride (y + 1) ((y + 1) * stride) buf1 = Inr out"
    and lo': "length out = length buf1"
    and po': "\<forall>y' x' c. y + 1 \<le> y' \<and> y' < height \<and> 0 \<le> x' \<and> x' < width \<and> 0 \<le> c \<and> c < 4 \<longrightarrow>
             out ! nat (y' * stride + 4 * x' + c) = pixel_byte f t x' y'"
    and ko': "\<forall>i. int i < (y + 1) * stride \<longrightarrow> out ! i = buf1 ! i"
    by blast
  have ro: "fill_rows f t width height stride (y + 1) (y * stride + stride) buf1 = Inr out"
    using ro' by (simp only: nx)
  have lo: "length out = length buf" using lo' l1 by simp
  have po: "out ! nat (y' * stride + 4 * x' + c) = pixel_byte f t x' y'"
    if "y + 1 \<le> y'" "y' < height" "0 \<le> x'" "x' < width" "0 \<le> c" "c < 4" for y' x' c
    using po' that by blast
  have ko: "out ! i = buf1 ! i" if "int i < y * stride + stride" for i
    using ko' that by (simp only: nx)
  have step: "fill_rows f t width height stride y (y * stride) buf = Inr out"
    using lt r1 ro by (subst fill_rows.simps) simp
  have pix: "out ! nat (y' * stride + 4 * x' + c) = pixel_byte f t x' y'"
    if h: "y \<le> y'" "y' < height" "0 \<le> x'" "x' < width" "0 \<le> c" "c < 4" for y' x' c
  proof (cases "y' = y")
    case False
    then show ?thesis using po h by simp
  next
    case True
    let ?i = "nat (y * stride + 4 * x' + c)"
    have i: "int ?i = y * stride + 4 * x' + c" using b0 h by simp
    have "int ?i < y * stride + stride" using i h Suc.prems(7) by linarith
    then have "out ! ?i = buf1 ! ?i" by (rule ko)
    also have "\<dots> = pixel_byte f t ((int ?i - y * stride) div 4) y"
      using n1 [of ?i] i h by simp
    also have "(int ?i - y * stride) div 4 = x'" using i h by simp
    finally show ?thesis using True by simp
  qed
  have keep: "out ! i = buf ! i" if "int i < y * stride" for i
  proof -
    have "out ! i = buf1 ! i" using that st by (intro ko) linarith
    then show ?thesis using n1 [of i] that by simp
  qed
  show ?case using step lo pix keep by blast
qed

text \<open>The loop over \<open>y\<close>, when a pixel has no value.\<close>

lemma fill_rows_fault:
  assumes "n = nat (height - y)" "0 \<le> y" "y \<le> height" "height \<le> 16384"
    "0 \<le> width" "width \<le> 16384" "4 * width \<le> stride" "height * stride \<le> int (length buf)"
    "\<exists>y' x'. y \<le> y' \<and> y' < height \<and> 0 \<le> x' \<and> x' < width \<and> (\<forall>vv. plasma f t x' y' \<noteq> Inr vv)"
  shows "fill_rows f t width height stride y (y * stride) buf = Inl UndefinedConversion"
  using assms
proof (induction n arbitrary: y buf)
  case 0
  then show ?case by auto
next
  case (Suc n)
  then have lt: "y < height" by linarith
  obtain yb xb where bad: "y \<le> yb" "yb < height" "0 \<le> xb" "xb < width"
      "\<forall>vv. plasma f t xb yb \<noteq> Inr vv"
    using Suc.prems(9) by blast
  have st: "0 \<le> stride" using Suc.prems(5,7) by linarith
  have b0: "0 \<le> y * stride" using Suc.prems(2) st by simp
  have nx: "(y + 1) * stride = y * stride + stride" by (simp add: algebra_simps)
  have "(y + 1) * stride \<le> height * stride"
    using lt st by (intro mult_right_mono) auto
  then have b1: "y * stride + stride \<le> int (length buf)"
    using Suc.prems(8) nx by linarith
  then have b2: "y * stride + 4 * width \<le> int (length buf)"
    using Suc.prems(7) by linarith
  have y16: "y \<le> 16384" using Suc.prems(4) lt by linarith
  show ?case
  proof (cases "\<exists>x'. 0 \<le> x' \<and> x' < width \<and> (\<forall>vv. plasma f t x' y \<noteq> Inr vv)")
    case True
    have "fill_row f t width y 0 (y * stride + 4 * 0) buf = Inl UndefinedConversion"
    proof (rule fill_row_fault [OF refl])
      show "(0::int) \<le> 0" by simp
      show "0 \<le> width" "width \<le> 16384" "0 \<le> y" using Suc.prems by simp_all
      show "y \<le> 16384" by (rule y16)
      show "0 \<le> y * stride" by (rule b0)
      show "y * stride + 4 * width \<le> int (length buf)" by (rule b2)
      show "\<exists>x'. 0 \<le> x' \<and> x' < width \<and> (\<forall>vv. plasma f t x' y \<noteq> Inr vv)" by (rule True)
    qed
    then show ?thesis using lt by (subst fill_rows.simps) simp
  next
    case False
    then have rowok: "\<forall>x'. 0 \<le> x' \<and> x' < width \<longrightarrow> (\<exists>vv. plasma f t x' y = Inr vv)"
      by blast
    have "\<exists>out. fill_row f t width y 0 (y * stride + 4 * 0) buf = Inr out \<and> length out = length buf
      \<and> (\<forall>i. out ! i = (if y * stride + 4 * 0 \<le> int i \<and> int i < y * stride + 4 * width
                          then pixel_byte f t ((int i - y * stride) div 4) y else buf ! i))"
    proof (rule fill_row_correct [OF refl])
      show "(0::int) \<le> 0" by simp
      show "0 \<le> width" "width \<le> 16384" "0 \<le> y" using Suc.prems by simp_all
      show "y \<le> 16384" by (rule y16)
      show "0 \<le> y * stride" by (rule b0)
      show "y * stride + 4 * width \<le> int (length buf)" by (rule b2)
      show "\<forall>x'. 0 \<le> x' \<and> x' < width \<longrightarrow> (\<exists>vv. plasma f t x' y = Inr vv)" by (rule rowok)
    qed
    then obtain buf1 where r1: "fill_row f t width y 0 (y * stride) buf = Inr buf1"
      and l1: "length buf1 = length buf"
      by auto
    have "yb \<noteq> y" using bad(3,4,5) rowok by blast
    then have yb1: "y + 1 \<le> yb" using bad(1) by linarith
    have "fill_rows f t width height stride (y + 1) ((y + 1) * stride) buf1 = Inl UndefinedConversion"
    proof (rule Suc.IH)
      show "n = nat (height - (y + 1))" using Suc.prems(1) by linarith
      show "0 \<le> y + 1" "y + 1 \<le> height" using Suc.prems(2) lt by simp_all
      show "height \<le> 16384" "0 \<le> width" "width \<le> 16384" "4 * width \<le> stride"
        using Suc.prems by simp_all
      show "height * stride \<le> int (length buf1)" using Suc.prems(8) l1 by simp
      show "\<exists>y' x'. y + 1 \<le> y' \<and> y' < height \<and> 0 \<le> x' \<and> x' < width
          \<and> (\<forall>vv. plasma f t x' y' \<noteq> Inr vv)"
        using yb1 bad(2,3,4,5) by blast
    qed
    then have "fill_rows f t width height stride (y + 1) (y * stride + stride) buf1 = Inl UndefinedConversion"
      by (simp only: nx)
    then show ?thesis using lt r1 by (subst fill_rows.simps) simp
  qed
qed

text \<open>The whole fill, in terms of the values of the pixels.\<close>

lemma fill_texture_pixels:
  assumes "0 \<le> width" "width \<le> 16384" "0 \<le> height" "height \<le> 16384"
    "int (length buf) = width * height * 4"
    "\<forall>x y. 0 \<le> x \<and> x < width \<and> 0 \<le> y \<and> y < height \<longrightarrow> (\<exists>vv. plasma f t x y = Inr vv)"
  shows "\<exists>out. fill_rows f t width height (width * 4) 0 0 buf = Inr out
      \<and> length out = length buf
      \<and> (\<forall>x y c. x < nat width \<and> y < nat height \<and> c < 4 \<longrightarrow>
            out ! (y * (nat width * 4) + 4 * x + c) = pixel_byte f t (int x) (int y))"
proof -
  have "\<exists>out. fill_rows f t width height (width * 4) 0 (0 * (width * 4)) buf = Inr out
      \<and> length out = length buf
      \<and> (\<forall>y' x' c. 0 \<le> y' \<and> y' < height \<and> 0 \<le> x' \<and> x' < width \<and> 0 \<le> c \<and> c < 4 \<longrightarrow>
             out ! nat (y' * (width * 4) + 4 * x' + c) = pixel_byte f t x' y')
      \<and> (\<forall>i. int i < 0 * (width * 4) \<longrightarrow> out ! i = buf ! i)"
  proof (rule fill_rows_correct [OF refl])
    show "(0::int) \<le> 0" by simp
    show "0 \<le> height" "height \<le> 16384" "0 \<le> width" "width \<le> 16384"
      using assms by simp_all
    show "4 * width \<le> width * 4" by simp
    show "height * (width * 4) \<le> int (length buf)"
      using assms(5) by (simp add: algebra_simps)
    show "\<forall>y' x'. 0 \<le> y' \<and> y' < height \<and> 0 \<le> x' \<and> x' < width \<longrightarrow> (\<exists>vv. plasma f t x' y' = Inr vv)"
      using assms(6) by blast
  qed
  then obtain out where r0: "fill_rows f t width height (width * 4) 0 (0 * (width * 4)) buf = Inr out"
    and l: "length out = length buf"
    and p: "\<forall>y' x' c. 0 \<le> y' \<and> y' < height \<and> 0 \<le> x' \<and> x' < width \<and> 0 \<le> c \<and> c < 4 \<longrightarrow>
             out ! nat (y' * (width * 4) + 4 * x' + c) = pixel_byte f t x' y'"
    by blast
  have r: "fill_rows f t width height (width * 4) 0 0 buf = Inr out"
    using r0 by simp
  have q: "out ! (y * (nat width * 4) + 4 * x + c) = pixel_byte f t (int x) (int y)"
    if h: "x < nat width" "y < nat height" "c < 4" for x y c
  proof -
    have "0 \<le> int y \<and> int y < height \<and> 0 \<le> int x \<and> int x < width \<and> 0 \<le> int c \<and> int c < 4"
      using h by linarith
    then have "out ! nat (int y * (width * 4) + 4 * int x + int c) = pixel_byte f t (int x) (int y)"
      using p by blast
    moreover have e: "int (y * (nat width * 4) + 4 * x + c) = int y * (width * 4) + 4 * int x + int c"
      using assms(1) by simp
    have "nat (int y * (width * 4) + 4 * int x + int c) = y * (nat width * 4) + 4 * x + c"
      by (simp only: e [symmetric] nat_int)
    ultimately show ?thesis by (simp only:)
  qed
  have q': "\<forall>x y c. x < nat width \<and> y < nat height \<and> c < 4 \<longrightarrow>
            out ! (y * (nat width * 4) + 4 * x + c) = pixel_byte f t (int x) (int y)"
    using q by blast
  show ?thesis
    using r l q' by (intro exI [of _ out] conjI) assumption+
qed

lemma fill_texture_fault:
  assumes "0 \<le> width" "width \<le> 16384" "0 \<le> height" "height \<le> 16384"
    "int (length buf) = width * height * 4"
    "\<exists>x y. 0 \<le> x \<and> x < width \<and> 0 \<le> y \<and> y < height \<and> (\<forall>vv. plasma f t x y \<noteq> Inr vv)"
  shows "fill_rows f t width height (width * 4) 0 0 buf = Inl UndefinedConversion"
proof -
  have "fill_rows f t width height (width * 4) 0 (0 * (width * 4)) buf = Inl UndefinedConversion"
  proof (rule fill_rows_fault [OF refl])
    show "(0::int) \<le> 0" by simp
    show "0 \<le> height" "height \<le> 16384" "0 \<le> width" "width \<le> 16384"
      using assms by simp_all
    show "4 * width \<le> width * 4" by simp
    show "height * (width * 4) \<le> int (length buf)"
      using assms(5) by (simp add: algebra_simps)
    show "\<exists>y' x'. 0 \<le> y' \<and> y' < height \<and> 0 \<le> x' \<and> x' < width \<and> (\<forall>vv. plasma f t x' y' \<noteq> Inr vv)"
      using assms(6) by blast
  qed
  then show ?thesis by simp
qed

subsection \<open>Arithmetic that rounds\<close>

lemma accurate_add:
  assumes "fpu_accurate f" "\<bar>a + b\<bar> \<le> 2 ^ 100"
  shows "\<exists>r. fadd f a b = Some r \<and> \<bar>r - (a + b)\<bar> \<le> \<bar>a + b\<bar> / 2 ^ 20 + 1 / 2 ^ 100"
  using assms unfolding fpu_accurate_def by blast

lemma accurate_sub:
  assumes "fpu_accurate f" "\<bar>a - b\<bar> \<le> 2 ^ 100"
  shows "\<exists>r. fsub f a b = Some r \<and> \<bar>r - (a - b)\<bar> \<le> \<bar>a - b\<bar> / 2 ^ 20 + 1 / 2 ^ 100"
  using assms unfolding fpu_accurate_def by blast

lemma accurate_mul:
  assumes "fpu_accurate f" "\<bar>a * b\<bar> \<le> 2 ^ 100"
  shows "\<exists>r. fmul f a b = Some r \<and> \<bar>r - a * b\<bar> \<le> \<bar>a * b\<bar> / 2 ^ 20 + 1 / 2 ^ 100"
  using assms unfolding fpu_accurate_def by blast

lemma accurate_div:
  assumes "fpu_accurate f" "b \<noteq> 0" "\<bar>a / b\<bar> \<le> 2 ^ 100"
  shows "\<exists>r. fdiv f a b = Some r \<and> \<bar>r - a / b\<bar> \<le> \<bar>a / b\<bar> / 2 ^ 20 + 1 / 2 ^ 100"
  using assms unfolding fpu_accurate_def by blast

lemma accurate_sqrt:
  assumes "fpu_accurate f" "0 \<le> a" "a \<le> 2 ^ 100"
  shows "\<exists>r. sqrtf f a = Some r \<and> \<bar>r - sqrt a\<bar> \<le> sqrt a / 2 ^ 20 + 1 / 2 ^ 100"
  using assms unfolding fpu_accurate_def by blast

lemma accurate_sin: "fpu_accurate f \<Longrightarrow> \<bar>sinf f a\<bar> \<le> 1"
  unfolding fpu_accurate_def by blast

lemma accurate_int:
  "fpu_accurate f \<Longrightarrow> \<bar>int_to_float f n - real_of_int n\<bar> \<le> \<bar>real_of_int n\<bar> / 2 ^ 20"
  unfolding fpu_accurate_def by blast

text \<open>Bounded operands: the operation gives a finite number near the exact result.\<close>

lemma add_bounded:
  assumes acc: "fpu_accurate f" and "\<bar>a\<bar> \<le> A" "\<bar>b\<bar> \<le> B" "A + B \<le> 2 ^ 99"
  shows "\<exists>r. fadd f a b = Some r \<and> \<bar>r - (a + b)\<bar> \<le> (A + B) / 2 ^ 20 + 1 / 2 ^ 100"
proof -
  have s: "\<bar>a + b\<bar> \<le> A + B" using assms by linarith
  then have "\<bar>a + b\<bar> \<le> 2 ^ 100" using assms(4) by simp
  then obtain r where r: "fadd f a b = Some r" "\<bar>r - (a + b)\<bar> \<le> \<bar>a + b\<bar> / 2 ^ 20 + 1 / 2 ^ 100"
    using accurate_add [OF acc] by blast
  have "\<bar>a + b\<bar> / 2 ^ 20 \<le> (A + B) / 2 ^ 20" using s by (simp add: divide_right_mono)
  then show ?thesis using r by (intro exI [of _ r]) linarith
qed

lemma sub_bounded:
  assumes acc: "fpu_accurate f" and "\<bar>a\<bar> \<le> A" "\<bar>b\<bar> \<le> B" "A + B \<le> 2 ^ 99"
  shows "\<exists>r. fsub f a b = Some r \<and> \<bar>r - (a - b)\<bar> \<le> (A + B) / 2 ^ 20 + 1 / 2 ^ 100"
proof -
  have s: "\<bar>a - b\<bar> \<le> A + B" using assms by linarith
  then have "\<bar>a - b\<bar> \<le> 2 ^ 100" using assms(4) by simp
  then obtain r where r: "fsub f a b = Some r" "\<bar>r - (a - b)\<bar> \<le> \<bar>a - b\<bar> / 2 ^ 20 + 1 / 2 ^ 100"
    using accurate_sub [OF acc] by blast
  have "\<bar>a - b\<bar> / 2 ^ 20 \<le> (A + B) / 2 ^ 20" using s by (simp add: divide_right_mono)
  then show ?thesis using r by (intro exI [of _ r]) linarith
qed

lemma wave_bounded:
  assumes acc: "fpu_accurate f"
  shows "\<exists>w. float2 (fadd f) (Some 127) (float2 (fmul f) (Some 127) (map_option (sinf f) (Some a))) = Some w
           \<and> - (1 / 1000) \<le> w \<and> w \<le> 254 + 1 / 1000"
proof -
  let ?s = "sinf f a"
  have s: "\<bar>?s\<bar> \<le> 1" by (rule accurate_sin [OF acc])
  then have p: "\<bar>127 * ?s\<bar> \<le> 127" by (simp add: abs_mult)
  then have "\<bar>127 * ?s\<bar> \<le> 2 ^ 100" by simp
  then obtain m where m: "fmul f 127 ?s = Some m" "\<bar>m - 127 * ?s\<bar> \<le> \<bar>127 * ?s\<bar> / 2 ^ 20 + 1 / 2 ^ 100"
    using accurate_mul [OF acc] by blast
  have "\<bar>127 * ?s\<bar> / 2 ^ 20 \<le> 127 / 2 ^ 20" using p by (simp add: divide_right_mono)
  then have mb: "\<bar>m - 127 * ?s\<bar> \<le> 127 / 2 ^ 20 + 1 / 2 ^ 100" using m(2) by linarith
  have c1: "(127::real) / 2 ^ 20 + 1 / 2 ^ 100 \<le> 1 / 4000" by simp
  have c2: "((127::real) + 128) / 2 ^ 20 + 1 / 2 ^ 100 \<le> 1 / 4000" by simp
  have m1: "\<bar>m\<bar> \<le> 128" using p mb c1 by linarith
  obtain w where w: "fadd f 127 m = Some w" "\<bar>w - (127 + m)\<bar> \<le> (127 + 128) / 2 ^ 20 + 1 / 2 ^ 100"
    using add_bounded [OF acc, of 127 127 m 128] m1 by auto
  have "- (1 / 1000) \<le> w \<and> w \<le> 254 + 1 / 1000"
    using w(2) mb p c1 c2 by linarith
  then show ?thesis using m(1) w(1) by (simp add: float2_def)
qed


text \<open>The angle of a wave whose first term is an \<^verbatim>\<open>int\<close> divided by a literal.\<close>

lemma quotient_bounded:
  assumes acc: "fpu_accurate f" and n: "0 \<le> n" "n \<le> 32768" and k: "1 \<le> k"
  shows "\<exists>u. fdiv f (int_to_float f n) k = Some u \<and> \<bar>u\<bar> \<le> 32770"
proof -
  let ?i = "int_to_float f n"
  have "\<bar>?i - real_of_int n\<bar> \<le> \<bar>real_of_int n\<bar> / 2 ^ 20" by (rule accurate_int [OF acc])
  moreover have n1: "\<bar>real_of_int n\<bar> \<le> 32768" using n by simp
  moreover have "\<bar>real_of_int n\<bar> / 2 ^ 20 \<le> 32768 / 2 ^ 20"
    using n1 by (simp add: divide_right_mono)
  moreover have "(32768::real) / 2 ^ 20 \<le> 1" by simp
  ultimately have i: "\<bar>?i\<bar> \<le> 32769" by linarith
  have "\<bar>?i / k\<bar> = \<bar>?i\<bar> / k" using k by simp
  also have "\<dots> \<le> \<bar>?i\<bar> / 1" using k by (intro frac_le) simp_all
  finally have q: "\<bar>?i / k\<bar> \<le> 32769" using i by simp
  then have "k \<noteq> 0" "\<bar>?i / k\<bar> \<le> 2 ^ 100" using k by simp_all
  then obtain u where u: "fdiv f ?i k = Some u" "\<bar>u - ?i / k\<bar> \<le> \<bar>?i / k\<bar> / 2 ^ 20 + 1 / 2 ^ 100"
    using accurate_div [OF acc] by blast
  have c: "(1::real) / 2 ^ 100 \<le> 1 / 4" by simp
  have "\<bar>?i / k\<bar> / 2 ^ 20 \<le> 32769 / 2 ^ 20" using q by (simp add: divide_right_mono)
  then have "\<bar>?i / k\<bar> / 2 ^ 20 \<le> 1 / 4" by simp
  then have "\<bar>u\<bar> \<le> 32770" using u(2) q c by linarith
  then show ?thesis using u(1) by blast
qed

lemma root_bounded:
  assumes acc: "fpu_accurate f" and n: "0 \<le> n" "n \<le> 2 ^ 29"
  shows "\<exists>u. float2 (fdiv f) (sqrtf f (int_to_float f n)) (Some 4) = Some u \<and> \<bar>u\<bar> \<le> 32770"
proof -
  let ?i = "int_to_float f n"
  have e: "\<bar>?i - real_of_int n\<bar> \<le> \<bar>real_of_int n\<bar> / 2 ^ 20" by (rule accurate_int [OF acc])
  have n0: "0 \<le> real_of_int n" using n by simp
  have "real_of_int n \<le> real_of_int (2 ^ 29)" using n(2) by (simp only: of_int_le_iff)
  then have n1: "real_of_int n \<le> 2 ^ 29" by simp
  have "\<bar>real_of_int n\<bar> / 2 ^ 20 \<le> \<bar>real_of_int n\<bar> / 1"
    by (intro frac_le) simp_all
  then have e1: "\<bar>?i - real_of_int n\<bar> \<le> real_of_int n" using e n0 by simp
  have i0: "0 \<le> ?i" using e1 by linarith
  have c30: "(2::real) * 2 ^ 29 = 2 ^ 30" by simp
  have i1: "?i \<le> 2 ^ 30" using e1 n1 c30 by linarith
  then have "?i \<le> 2 ^ 100" by simp
  then obtain q where q: "sqrtf f ?i = Some q" "\<bar>q - sqrt ?i\<bar> \<le> sqrt ?i / 2 ^ 20 + 1 / 2 ^ 100"
    using accurate_sqrt [OF acc i0] by blast
  have s0: "0 \<le> sqrt ?i" using i0 by simp
  have "?i \<le> (32768::real)\<^sup>2" using i1 by simp
  then have s1: "sqrt ?i \<le> 32768" by (intro real_le_lsqrt) simp_all
  have c: "(1::real) / 2 ^ 100 \<le> 1 / 4" by simp
  have "sqrt ?i / 2 ^ 20 \<le> 32768 / 2 ^ 20" using s1 by (simp add: divide_right_mono)
  then have "sqrt ?i / 2 ^ 20 \<le> 1 / 4" by simp
  then have qb: "\<bar>q\<bar> \<le> 32769" using q(2) s0 s1 c by linarith
  then have "(4::real) \<noteq> 0" "\<bar>q / 4\<bar> \<le> 2 ^ 100" by simp_all
  then obtain u where u: "fdiv f q 4 = Some u" "\<bar>u - q / 4\<bar> \<le> \<bar>q / 4\<bar> / 2 ^ 20 + 1 / 2 ^ 100"
    using accurate_div [OF acc] by blast
  have q4: "\<bar>q / 4\<bar> \<le> 32769" using qb by simp
  then have "\<bar>q / 4\<bar> / 2 ^ 20 \<le> 32769 / 2 ^ 20" by (simp add: divide_right_mono)
  then have "\<bar>q / 4\<bar> / 2 ^ 20 \<le> 1 / 4" by simp
  then have "\<bar>u\<bar> \<le> 32770" using u(2) q4 c by linarith
  then show ?thesis using q(1) u(1) by (simp add: float2_def)
qed

text \<open>With a time of moderate size, the sum of the four waves is finite and between \<open>-1\<close>
  and \<open>1017\<close>.\<close>

lemma accurate_sum:
  fixes f :: fpu and t :: "real option"
  defines "wave \<equiv> \<lambda>a. float2 (fadd f) (Some 127) (float2 (fmul f) (Some 127) (map_option (sinf f) a))"
  assumes acc: "fpu_accurate f" and t: "t = Some tv" "\<bar>tv\<bar> \<le> 2 ^ 91"
    and b: "0 \<le> x" "x \<le> 16384" "0 \<le> y" "y \<le> 16384"
  shows "\<exists>r. float2 (fadd f)
               (float2 (fadd f)
                 (float2 (fadd f)
                   (wave (float2 (fadd f) (fdiv f (int_to_float f x) 7) t))
                   (wave (float2 (fsub f) (fdiv f (int_to_float f y) 5) t)))
                 (wave (float2 (fsub f) (fdiv f (int_to_float f (x + y)) 6) t)))
               (wave (float2 (fsub f)
                    (float2 (fdiv f) (sqrtf f (int_to_float f (x * x + y * y))) (Some 4)) t))
             = Some r \<and> - 1 < r \<and> r < 1017"
proof -
  have big: "(32770::real) + 2 ^ 91 \<le> 2 ^ 99" by simp
  have wv: "\<exists>w. wave (Some a) = Some w \<and> - (1 / 1000) \<le> w \<and> w \<le> 254 + 1 / 1000" for a
    unfolding wave_def by (rule wave_bounded [OF acc])
  have addt: "\<exists>w. wave (float2 (fadd f) (Some u) t) = Some w \<and> - (1 / 1000) \<le> w \<and> w \<le> 254 + 1 / 1000"
    if ub: "\<bar>u\<bar> \<le> 32770" for u
  proof -
    obtain a where "fadd f u tv = Some a"
      using add_bounded [OF acc ub t(2) big] by blast
    then have "float2 (fadd f) (Some u) t = Some a" using t(1) by (simp add: float2_def)
    then show ?thesis using wv [of a] by simp
  qed
  have subt: "\<exists>w. wave (float2 (fsub f) (Some u) t) = Some w \<and> - (1 / 1000) \<le> w \<and> w \<le> 254 + 1 / 1000"
    if ub: "\<bar>u\<bar> \<le> 32770" for u
  proof -
    obtain a where "fsub f u tv = Some a"
      using sub_bounded [OF acc ub t(2) big] by blast
    then have "float2 (fsub f) (Some u) t = Some a" using t(1) by (simp add: float2_def)
    then show ?thesis using wv [of a] by simp
  qed
  have "x * x \<le> 16384 * 16384" "y * y \<le> 16384 * 16384"
    using mult_mono [of x 16384 x 16384] mult_mono [of y 16384 y 16384] b by simp_all
  then have sq: "0 \<le> x * x + y * y" "x * x + y * y \<le> 2 ^ 29"
    using zero_le_square [of x] zero_le_square [of y] by simp_all
  obtain u1 where u1: "fdiv f (int_to_float f x) 7 = Some u1" "\<bar>u1\<bar> \<le> 32770"
    using quotient_bounded [OF acc, of x 7] b by auto
  obtain u2 where u2: "fdiv f (int_to_float f y) 5 = Some u2" "\<bar>u2\<bar> \<le> 32770"
    using quotient_bounded [OF acc, of y 5] b by auto
  obtain u3 where u3: "fdiv f (int_to_float f (x + y)) 6 = Some u3" "\<bar>u3\<bar> \<le> 32770"
    using quotient_bounded [OF acc, of "x + y" 6] b by auto
  obtain u4 where u4: "float2 (fdiv f) (sqrtf f (int_to_float f (x * x + y * y))) (Some 4) = Some u4"
      "\<bar>u4\<bar> \<le> 32770"
    using root_bounded [OF acc sq] by blast
  obtain w1 where w1: "wave (float2 (fadd f) (fdiv f (int_to_float f x) 7) t) = Some w1"
      "- (1 / 1000) \<le> w1" "w1 \<le> 254 + 1 / 1000"
    using addt [OF u1(2)] unfolding u1(1) by blast
  obtain w2 where w2: "wave (float2 (fsub f) (fdiv f (int_to_float f y) 5) t) = Some w2"
      "- (1 / 1000) \<le> w2" "w2 \<le> 254 + 1 / 1000"
    using subt [OF u2(2)] unfolding u2(1) by blast
  obtain w3 where w3: "wave (float2 (fsub f) (fdiv f (int_to_float f (x + y)) 6) t) = Some w3"
      "- (1 / 1000) \<le> w3" "w3 \<le> 254 + 1 / 1000"
    using subt [OF u3(2)] unfolding u3(1) by blast
  obtain w4 where w4: "wave (float2 (fsub f)
        (float2 (fdiv f) (sqrtf f (int_to_float f (x * x + y * y))) (Some 4)) t) = Some w4"
      "- (1 / 1000) \<le> w4" "w4 \<le> 254 + 1 / 1000"
    using subt [OF u4(2)] unfolding u4(1) by blast
  have c: "((255::real) + 255) / 2 ^ 20 + 1 / 2 ^ 100 \<le> 1 / 1000"
      "((510::real) + 255) / 2 ^ 20 + 1 / 2 ^ 100 \<le> 1 / 1000"
      "((765::real) + 255) / 2 ^ 20 + 1 / 2 ^ 100 \<le> 1 / 1000"
    by simp_all
  have "\<bar>w1\<bar> \<le> 255" "\<bar>w2\<bar> \<le> 255" using w1(2,3) w2(2,3) by linarith+
  then obtain s2 where s2: "fadd f w1 w2 = Some s2"
      "\<bar>s2 - (w1 + w2)\<bar> \<le> (255 + 255) / 2 ^ 20 + 1 / 2 ^ 100"
    using add_bounded [OF acc, of w1 255 w2 255] by auto
  have "\<bar>s2\<bar> \<le> 510" "\<bar>w3\<bar> \<le> 255" using s2(2) c(1) w1(2,3) w2(2,3) w3(2,3) by linarith+
  then obtain s3 where s3: "fadd f s2 w3 = Some s3"
      "\<bar>s3 - (s2 + w3)\<bar> \<le> (510 + 255) / 2 ^ 20 + 1 / 2 ^ 100"
    using add_bounded [OF acc, of s2 510 w3 255] by auto
  have "\<bar>s3\<bar> \<le> 765" "\<bar>w4\<bar> \<le> 255"
    using s3(2) s2(2) c(1,2) w1(2,3) w2(2,3) w3(2,3) w4(2,3) by linarith+
  then obtain r where r: "fadd f s3 w4 = Some r"
      "\<bar>r - (s3 + w4)\<bar> \<le> (765 + 255) / 2 ^ 20 + 1 / 2 ^ 100"
    using add_bounded [OF acc, of s3 765 w4 255] by auto
  have "- 1 < r \<and> r < 1017"
    using r(2) s3(2) s2(2) c w1(2,3) w2(2,3) w3(2,3) w4(2,3) by linarith
  then show ?thesis
    using w1(1) w2(1) w3(1) w4(1) s2(1) s3(1) r(1) by (simp add: float2_def)
qed

lemma ideal_fpu_accurate: "fpu_accurate ideal_fpu"
  by (simp add: fpu_accurate_def ideal_fpu_def)

subsection \<open>The value of a pixel\<close>

lemma sdiv_nonneg: "0 \<le> k \<Longrightarrow> k sdiv 4 = k div (4::int)"
  by (cases "k = 0") (simp_all add: signed_divide_int_def)

lemma wave_nonneg: "0 \<le> 127 + 127 * sin a" for a :: real
proof -
  have "- 1 \<le> sin a" by simp
  then show ?thesis by linarith
qed

lemma wave_le: "127 + 127 * sin a \<le> 254" for a :: real
proof -
  have "sin a \<le> 1" by simp
  then show ?thesis by linarith
qed

lemma average_floor:
  fixes S :: real
  assumes "0 \<le> S"
  shows "(if 0 \<le> S then \<lfloor>S\<rfloor> else \<lceil>S\<rceil>) sdiv 4 = \<lfloor>S / 4\<rfloor>"
proof -
  have "\<lfloor>S\<rfloor> sdiv 4 = \<lfloor>S\<rfloor> div 4"
    using assms by (intro sdiv_nonneg) (simp only: zero_le_floor)
  moreover have "\<lfloor>S\<rfloor> div 4 = \<lfloor>S / 4\<rfloor>"
    using floor_divide_real_eq_div [of 4 S] by simp
  ultimately show ?thesis using assms by simp
qed

lemma float2_None: "float2 op a None = None" "float2 op None b = None"
  by (cases a) (simp_all add: float2_def)

lemma range_weaken:
  fixes T :: "int \<Rightarrow> int \<Rightarrow> real option"
  assumes "\<forall>x y. R x y \<longrightarrow> (\<exists>r. T x y = Some r \<and> - 1 < r \<and> r < 1017)"
  shows "\<forall>x y. R x y \<longrightarrow> (\<exists>r. T x y = Some r \<and> - 2147483649 < r \<and> r < 2147483648)"
proof (intro allI impI)
  fix x y assume "R x y"
  then obtain r where "T x y = Some r" "- 1 < r" "r < 1017" using assms by blast
  then show "\<exists>r. T x y = Some r \<and> - 2147483649 < r \<and> r < 2147483648"
    by (intro exI [of _ r]) simp
qed

lemma four_bytes:
  assumes "length out = 4" "out ! 0 = a" "out ! 1 = b" "out ! 2 = c" "out ! 3 = d"
  shows "out = [a, b, c, d]"
proof (rule nth_equalityI)
  show "length out = length [a, b, c, d]" using assms(1) by simp
  fix i assume "i < length out"
  then have "i = 0 \<or> i = 1 \<or> i = 2 \<or> i = 3" using assms(1) by linarith
  then show "out ! i = [a, b, c, d] ! i" using assms(2-5) by auto
qed

text \<open>
  Claim C5. \<^verbatim>\<open>FillTextureFromCode\<close> is taken for a texture of \<open>width\<close> by \<open>height\<close> pixels
  (at most 16384 each, the largest texture of Direct3D 11), a stride of \<open>4 * width\<close> and a
  block of \<open>width * height * 4\<close> bytes, with any arithmetic \<open>f\<close> and any float \<open>time\<close>.
  \<open>t\<close> is four times the time; \<open>wave a\<close> is \<open>127 + 127 * sin a\<close>; \<open>waves x y\<close> is the sum of
  the four waves of the pixel \<open>(x, y)\<close>, whose angles are \<open>x / 7 + t\<close>, \<open>y / 5 - t\<close>,
  \<open>(x + y) / 6 - t\<close> and \<open>sqrt (x * x + y * y) / 4 - t\<close>, all of it computed by the operations
  of \<open>f\<close> in the order of the source; \<open>quarter r\<close> is the conversion of \<open>r\<close> to \<^verbatim>\<open>int\<close> followed
  by the division by 4 of \<^verbatim>\<open>int\<close>.

  \<^item> If the sum \<open>waves x y\<close> of every pixel is a finite number that converts to \<^verbatim>\<open>int\<close>, the fill
    returns without fault; in the block it leaves, each of the four channels of every pixel
    \<open>(x, y)\<close> holds the low byte of \<open>quarter (waves x y)\<close>; and every byte of the block is
    written: the result is the same whatever the block held before, so it depends on the
    width, the height and the time alone (and on the arithmetic of the platform).
  \<^item> If the sum of some pixel is not such a number (the time is not a finite number, or
    four times the time overflows, or a sum does), the conversion to \<^verbatim>\<open>int\<close> is undefined and
    the fill faults.
  \<^item> With arithmetic that rounds as single precision does or better, and a time of at
    most \<open>2\<^sup>8\<^sup>8\<close> in size, the sum of every pixel is a finite number between \<open>-1\<close> and
    \<open>1017\<close>, so the first case applies.
  \<^item> In exact arithmetic, which the arithmetic of the platform only approximates, the sum
    is the sum of the four waves in the real numbers, and the value of the pixel is the
    integer part of their average.
\<close>

theorem fill_texture_every_pixel:
  fixes f :: fpu and time :: "real option" and width height :: int and buf :: "byte list"
  defines "t \<equiv> float2 (fmul f) time (Some 4)"
  defines "wave \<equiv> \<lambda>a. float2 (fadd f) (Some 127) (float2 (fmul f) (Some 127) (map_option (sinf f) a))"
  defines "waves \<equiv> \<lambda>x y.
     float2 (fadd f)
       (float2 (fadd f)
         (float2 (fadd f)
           (wave (float2 (fadd f) (fdiv f (int_to_float f x) 7) t))
           (wave (float2 (fsub f) (fdiv f (int_to_float f y) 5) t)))
         (wave (float2 (fsub f) (fdiv f (int_to_float f (x + y)) 6) t)))
       (wave (float2 (fsub f)
            (float2 (fdiv f) (sqrtf f (int_to_float f (x * x + y * y))) (Some 4)) t))"
  defines "quarter \<equiv> \<lambda>r :: real. (if 0 \<le> r then \<lfloor>r\<rfloor> else \<lceil>r\<rceil>) sdiv 4"
  defines "exact \<equiv> \<lambda>(v :: real) (x :: int) (y :: int).
     (127 + 127 * sin (real_of_int x / 7 + v * 4)) + (127 + 127 * sin (real_of_int y / 5 - v * 4))
       + (127 + 127 * sin (real_of_int (x + y) / 6 - v * 4))
       + (127 + 127 * sin (sqrt (real_of_int (x * x + y * y)) / 4 - v * 4))"
  assumes size: "0 \<le> width" "width \<le> 16384" "0 \<le> height" "height \<le> 16384"
    "int (length buf) = width * height * 4"
  shows "((\<forall>x y. 0 \<le> x \<and> x < width \<and> 0 \<le> y \<and> y < height \<longrightarrow>
             (\<exists>r. waves x y = Some r \<and> - 2147483649 < r \<and> r < 2147483648)) \<longrightarrow>
          (\<exists>out. FillTextureFromCode f time width height (width * 4) buf = Inr out
             \<and> length out = length buf
             \<and> (\<forall>x y c. 0 \<le> x \<and> x < width \<and> 0 \<le> y \<and> y < height \<and> c < 4 \<longrightarrow>
                  (\<exists>r. waves x y = Some r
                     \<and> out ! (nat (y * (width * 4) + x * 4) + c) = word_of_int (quarter r)))
             \<and> (\<forall>buf'. length buf' = length buf \<longrightarrow>
                  FillTextureFromCode f time width height (width * 4) buf' = Inr out)))
    \<and> ((\<exists>x y. 0 \<le> x \<and> x < width \<and> 0 \<le> y \<and> y < height
             \<and> \<not> (\<exists>r. waves x y = Some r \<and> - 2147483649 < r \<and> r < 2147483648)) \<longrightarrow>
          FillTextureFromCode f time width height (width * 4) buf = Inl UndefinedConversion)
    \<and> (fpu_accurate f \<and> (\<exists>v. time = Some v \<and> \<bar>v * 4\<bar> \<le> 2 ^ 90) \<longrightarrow>
          (\<forall>x y. 0 \<le> x \<and> x < width \<and> 0 \<le> y \<and> y < height \<longrightarrow>
             (\<exists>r. waves x y = Some r \<and> - 1 < r \<and> r < 1017)))
    \<and> (f = ideal_fpu \<longrightarrow>
          (\<forall>x y v. 0 \<le> x \<and> x < width \<and> 0 \<le> y \<and> y < height \<and> time = Some v \<longrightarrow>
             waves x y = Some (exact v x y) \<and> quarter (exact v x y) = \<lfloor>exact v x y / 4\<rfloor>))"
proof -
  let ?W = "nat width" and ?H = "nat height"
  let ?ok = "\<lambda>x y. \<exists>r. waves x y = Some r \<and> - 2147483649 < r \<and> r < 2147483648"
  have fill: "FillTextureFromCode f time width height (width * 4) b =
      fill_rows f t width height (width * 4) 0 0 b" for b
    by (simp only: FillTextureFromCode_def t_def Let_def)
  have pl: "plasma f t x y =
      (case waves x y of
         None \<Rightarrow> Inl UndefinedConversion
       | Some r \<Rightarrow> if - 2147483649 < r \<and> r < 2147483648 then Inr (quarter r)
                   else Inl UndefinedConversion)"
    if xy: "0 \<le> x" "x < width" "0 \<le> y" "y < height" for x y
  proof -
    have "x \<le> 16384" "y \<le> 16384" using xy size(2,4) by linarith+
    then have "fits_int (x + y) \<and> fits_int (x * x) \<and> fits_int (y * y) \<and> fits_int (x * x + y * y)"
      using xy by (intro plasma_fits) simp_all
    then have "plasma f t x y =
        (case float_to_int (waves x y) of Inl e \<Rightarrow> Inl e | Inr n \<Rightarrow> Inr (n sdiv 4))"
      unfolding plasma_def waves_def wave_def by (simp only: simp_thms if_True)
    then show ?thesis
      by (cases "waves x y") (simp_all add: float_to_int_def quarter_def)
  qed
  have val: "plasma f t x y = Inr (quarter r)"
    if xy: "0 \<le> x" "x < width" "0 \<le> y" "y < height"
      and r: "waves x y = Some r" "- 2147483649 < r" "r < 2147483648" for x y r
    using pl [OF xy] r by simp
  have noval: "\<forall>vv. plasma f t x y \<noteq> Inr vv"
    if xy: "0 \<le> x" "x < width" "0 \<le> y" "y < height" and n: "\<not> ?ok x y" for x y
    using pl [OF xy] n by (cases "waves x y") auto
  have first: "\<exists>out. FillTextureFromCode f time width height (width * 4) buf = Inr out
             \<and> length out = length buf
             \<and> (\<forall>x y c. 0 \<le> x \<and> x < width \<and> 0 \<le> y \<and> y < height \<and> c < 4 \<longrightarrow>
                  (\<exists>r. waves x y = Some r
                     \<and> out ! (nat (y * (width * 4) + x * 4) + c) = word_of_int (quarter r)))
             \<and> (\<forall>buf'. length buf' = length buf \<longrightarrow>
                  FillTextureFromCode f time width height (width * 4) buf' = Inr out)"
    if ok: "\<forall>x y. 0 \<le> x \<and> x < width \<and> 0 \<le> y \<and> y < height \<longrightarrow> ?ok x y"
  proof -
    have okp: "\<forall>x y. 0 \<le> x \<and> x < width \<and> 0 \<le> y \<and> y < height \<longrightarrow> (\<exists>vv. plasma f t x y = Inr vv)"
    proof (intro allI impI)
      fix x y assume a: "0 \<le> x \<and> x < width \<and> 0 \<le> y \<and> y < height"
      then obtain r where "waves x y = Some r" "- 2147483649 < r" "r < 2147483648"
        using ok by blast
      then have "plasma f t x y = Inr (quarter r)" using a by (intro val) simp_all
      then show "\<exists>vv. plasma f t x y = Inr vv" by blast
    qed
    obtain out where r: "fill_rows f t width height (width * 4) 0 0 buf = Inr out"
      and l: "length out = length buf"
      and p: "\<And>x y c. x < ?W \<Longrightarrow> y < ?H \<Longrightarrow> c < 4 \<Longrightarrow>
              out ! (y * (?W * 4) + 4 * x + c) = pixel_byte f t (int x) (int y)"
      using fill_texture_pixels [OF size okp] by blast
    have "int (?W * ?H * 4) = width * height * 4"
      using size(1,3) by simp
    then have len: "length buf = ?W * ?H * 4"
      using size(5) by linarith
    have pix: "\<exists>r. waves x y = Some r
                 \<and> out ! (nat (y * (width * 4) + x * 4) + c) = word_of_int (quarter r)"
      if xy: "0 \<le> x" "x < width" "0 \<le> y" "y < height" "c < 4" for x y c
    proof -
      obtain r where tr: "waves x y = Some r" "- 2147483649 < r" "r < 2147483648"
        using ok xy(1-4) by blast
      have "plasma f t x y = Inr (quarter r)" using xy(1-4) tr by (rule val)
      then have pb: "pixel_byte f t x y = word_of_int (quarter r)" by (simp add: pixel_byte_def)
      have e: "int (nat y * (?W * 4) + 4 * nat x) = y * (width * 4) + x * 4"
        using xy size(1) by simp
      have "nat (y * (width * 4) + x * 4) = nat y * (?W * 4) + 4 * nat x"
        by (simp only: e [symmetric] nat_int)
      moreover have "out ! (nat y * (?W * 4) + 4 * nat x + c) = pixel_byte f t (int (nat x)) (int (nat y))"
      proof (rule p)
        show "nat x < ?W" "nat y < ?H" using xy by linarith+
        show "c < 4" by (rule xy)
      qed
      ultimately have "out ! (nat (y * (width * 4) + x * 4) + c) = word_of_int (quarter r)"
        using pb xy by simp
      then show ?thesis using tr(1) by blast
    qed
    have same: "FillTextureFromCode f time width height (width * 4) buf' = Inr out"
      if lb: "length buf' = length buf" for buf'
    proof -
      have "int (length buf') = width * height * 4" using lb size(5) by simp
      from fill_texture_pixels [OF size(1-4) this okp]
      obtain out' where r': "fill_rows f t width height (width * 4) 0 0 buf' = Inr out'"
        and l': "length out' = length buf'"
        and p': "\<And>x y c. x < ?W \<Longrightarrow> y < ?H \<Longrightarrow> c < 4 \<Longrightarrow>
              out' ! (y * (?W * 4) + 4 * x + c) = pixel_byte f t (int x) (int y)"
        by blast
      have "out' = out"
      proof (rule nth_equalityI)
        show "length out' = length out" using l l' lb by simp
        fix i assume "i < length out'"
        then have "i < ?W * ?H * 4" using l' lb len by simp
        then obtain x y c where "x < ?W" "y < ?H" "c < 4" "i = y * (?W * 4) + 4 * x + c"
          using index_split by blast
        then show "out' ! i = out ! i" using p p' by simp
      qed
      then show ?thesis using r' by (simp add: fill)
    qed
    have r0: "FillTextureFromCode f time width height (width * 4) buf = Inr out"
      using r by (simp add: fill)
    have pix': "\<forall>x y c. 0 \<le> x \<and> x < width \<and> 0 \<le> y \<and> y < height \<and> c < 4 \<longrightarrow>
                  (\<exists>r. waves x y = Some r
                     \<and> out ! (nat (y * (width * 4) + x * 4) + c) = word_of_int (quarter r))"
      using pix by blast
    have same': "\<forall>buf'. length buf' = length buf \<longrightarrow>
              FillTextureFromCode f time width height (width * 4) buf' = Inr out"
      using same by blast
    show ?thesis
      using r0 l pix' same' by (intro exI [of _ out] conjI) assumption+
  qed
  have second: "FillTextureFromCode f time width height (width * 4) buf = Inl UndefinedConversion"
    if bad: "\<exists>x y. 0 \<le> x \<and> x < width \<and> 0 \<le> y \<and> y < height \<and> \<not> ?ok x y"
  proof -
    obtain x y where xy: "0 \<le> x" "x < width" "0 \<le> y" "y < height" and n: "\<not> ?ok x y"
      using bad by blast
    have "\<forall>vv. plasma f t x y \<noteq> Inr vv" using xy n by (rule noval)
    then have "\<exists>x y. 0 \<le> x \<and> x < width \<and> 0 \<le> y \<and> y < height \<and> (\<forall>vv. plasma f t x y \<noteq> Inr vv)"
      using xy by blast
    then have "fill_rows f t width height (width * 4) 0 0 buf = Inl UndefinedConversion"
      by (rule fill_texture_fault [OF size])
    then show ?thesis by (simp add: fill)
  qed
  have third: "\<exists>r. waves x y = Some r \<and> - 1 < r \<and> r < 1017"
    if at: "fpu_accurate f \<and> (\<exists>v. time = Some v \<and> \<bar>v * 4\<bar> \<le> 2 ^ 90)"
      and xy: "0 \<le> x \<and> x < width \<and> 0 \<le> y \<and> y < height" for x y
  proof -
    have acc: "fpu_accurate f" and tm: "\<exists>v. time = Some v \<and> \<bar>v * 4\<bar> \<le> 2 ^ 90"
      using at by simp_all
    obtain v where v: "time = Some v" "\<bar>v * 4\<bar> \<le> 2 ^ 90" using tm by blast
    then have "\<bar>v * 4\<bar> \<le> 2 ^ 100" by simp
    then obtain tv where tv: "fmul f v 4 = Some tv" "\<bar>tv - v * 4\<bar> \<le> \<bar>v * 4\<bar> / 2 ^ 20 + 1 / 2 ^ 100"
      using accurate_mul [OF acc] by blast
    have "\<bar>v * 4\<bar> / 2 ^ 20 \<le> 2 ^ 90 / 2 ^ 20" using v(2) by (simp only: divide_right_mono zero_le_power zero_le_numeral)
    moreover have "(2::real) ^ 90 + 2 ^ 90 / 2 ^ 20 + 1 / 2 ^ 100 \<le> 2 ^ 91" by simp
    ultimately have tb: "\<bar>tv\<bar> \<le> 2 ^ 91" using tv(2) v(2) by linarith
    have t: "t = Some tv" using v(1) tv(1) by (simp add: t_def float2_def)
    have b: "0 \<le> x" "x \<le> 16384" "0 \<le> y" "y \<le> 16384" using xy size(2,4) by linarith+
    show ?thesis
      unfolding waves_def wave_def by (rule accurate_sum [OF acc t tb b])
  qed
  have fourth: "waves x y = Some (exact v x y) \<and> quarter (exact v x y) = \<lfloor>exact v x y / 4\<rfloor>"
    if id: "f = ideal_fpu" and xy: "0 \<le> x \<and> x < width \<and> 0 \<le> y \<and> y < height \<and> time = Some v"
    for x y v
  proof -
    have "0 \<le> x * x + y * y" using zero_le_square [of x] zero_le_square [of y] by linarith
    then have "0 \<le> real_of_int (x * x + y * y)" by (simp only: of_int_0_le_iff)
    then have a: "waves x y = Some (exact v x y)"
      using xy by (simp add: waves_def wave_def t_def exact_def id ideal_fpu_def float2_def)
    have "0 \<le> exact v x y"
      unfolding exact_def
      using wave_nonneg [of "real_of_int x / 7 + v * 4"] wave_nonneg [of "real_of_int y / 5 - v * 4"]
        wave_nonneg [of "real_of_int (x + y) / 6 - v * 4"]
        wave_nonneg [of "sqrt (real_of_int (x * x + y * y)) / 4 - v * 4"]
      by linarith
    then have "quarter (exact v x y) = \<lfloor>exact v x y / 4\<rfloor>"
      unfolding quarter_def by (rule average_floor)
    then show ?thesis using a by simp
  qed
  show ?thesis
    apply (rule conjI)
     apply (rule impI)
     apply (erule first)
    apply (rule conjI)
     apply (rule impI)
     apply (erule second)
    apply (rule conjI)
     apply (intro impI allI)
     apply (erule third, assumption)
    apply (intro impI allI)
    apply (erule fourth, assumption)
    done
qed

theorem fill_texture_every_pixel_witness:
  "(0::int) \<le> 1 \<and> (1::int) \<le> 16384 \<and> int (length (replicate 4 (0::byte))) = 1 * 1 * 4
   \<and> fpu_accurate ideal_fpu \<and> \<bar>(0::real) * 4\<bar> \<le> 2 ^ 90
   \<and> FillTextureFromCode ideal_fpu (Some 0) 1 1 (1 * 4) (replicate 4 0) = Inr [127, 127, 127, 127]
   \<and> FillTextureFromCode ideal_fpu (Some 0) 1 1 (1 * 4) (replicate 4 255) = Inr [127, 127, 127, 127]
   \<and> FillTextureFromCode ideal_fpu None 1 1 (1 * 4) (replicate 4 0) = Inl UndefinedConversion"
proof -
  let ?f = ideal_fpu
  let ?wave = "\<lambda>t a. float2 (fadd ?f) (Some 127) (float2 (fmul ?f) (Some 127) (map_option (sinf ?f) a))"
  let ?waves = "\<lambda>t x y.
     float2 (fadd ?f)
       (float2 (fadd ?f)
         (float2 (fadd ?f)
           (?wave t (float2 (fadd ?f) (fdiv ?f (int_to_float ?f x) 7) t))
           (?wave t (float2 (fsub ?f) (fdiv ?f (int_to_float ?f y) 5) t)))
         (?wave t (float2 (fsub ?f) (fdiv ?f (int_to_float ?f (x + y)) 6) t)))
       (?wave t (float2 (fsub ?f)
            (float2 (fdiv ?f) (sqrtf ?f (int_to_float ?f (x * x + y * y))) (Some 4)) t))"
  let ?t0 = "float2 (fmul ?f) (Some 0) (Some 4)"
  have h: "(0::int) \<le> 1" "(1::int) \<le> 16384" "(0::int) \<le> 1" "(1::int) \<le> 16384"
    "int (length (replicate 4 (0::byte))) = 1 * 1 * 4"
    by simp_all
  have tb: "\<bar>(0::real) * 4\<bar> \<le> 2 ^ 90" by simp
  note c = fill_texture_every_pixel [where f = ideal_fpu and time = "Some 0" and width = 1
      and height = 1 and buf = "replicate 4 0", OF h]
  note n = fill_texture_every_pixel [where f = ideal_fpu and time = None and width = 1
      and height = 1 and buf = "replicate 4 0", OF h]
  have "\<exists>v. Some (0::real) = Some v \<and> \<bar>v * 4\<bar> \<le> 2 ^ 90" using tb by blast
  then have "fpu_accurate ideal_fpu \<and> (\<exists>v. Some (0::real) = Some v \<and> \<bar>v * 4\<bar> \<le> 2 ^ 90)"
    using ideal_fpu_accurate by (intro conjI)
  then have "\<forall>x y. 0 \<le> x \<and> x < 1 \<and> 0 \<le> y \<and> y < 1 \<longrightarrow>
      (\<exists>r. ?waves ?t0 x y = Some r \<and> - 1 < r \<and> r < 1017)"
    by (rule c [THEN conjunct2, THEN conjunct2, THEN conjunct1, THEN mp])
  then have "\<forall>x y. 0 \<le> x \<and> x < 1 \<and> 0 \<le> y \<and> y < 1 \<longrightarrow>
      (\<exists>r. ?waves ?t0 x y = Some r \<and> - 2147483649 < r \<and> r < 2147483648)"
    by (rule range_weaken)
  then have "\<exists>out. FillTextureFromCode ideal_fpu (Some 0) 1 1 (1 * 4) (replicate 4 0) = Inr out
    \<and> length out = length (replicate 4 (0::byte))
    \<and> (\<forall>x y c. 0 \<le> x \<and> x < 1 \<and> 0 \<le> y \<and> y < 1 \<and> c < 4 \<longrightarrow>
              (\<exists>r. ?waves ?t0 x y = Some r
                 \<and> out ! (nat (y * (1 * 4) + x * 4) + c) =
                     word_of_int ((if 0 \<le> r then \<lfloor>r\<rfloor> else \<lceil>r\<rceil>) sdiv 4)))
    \<and> (\<forall>buf'. length buf' = length (replicate 4 (0::byte)) \<longrightarrow>
              FillTextureFromCode ideal_fpu (Some 0) 1 1 (1 * 4) buf' = Inr out)"
    by (rule c [THEN conjunct1, THEN mp])
  then obtain out where r: "FillTextureFromCode ideal_fpu (Some 0) 1 1 (1 * 4) (replicate 4 0) = Inr out"
    and l: "length out = length (replicate 4 (0::byte))"
    and p: "\<forall>x y c. 0 \<le> x \<and> x < 1 \<and> 0 \<le> y \<and> y < 1 \<and> c < 4 \<longrightarrow>
              (\<exists>r. ?waves ?t0 x y = Some r
                 \<and> out ! (nat (y * (1 * 4) + x * 4) + c) =
                     word_of_int ((if 0 \<le> r then \<lfloor>r\<rfloor> else \<lceil>r\<rceil>) sdiv 4))"
    and s: "\<forall>buf'. length buf' = length (replicate 4 (0::byte)) \<longrightarrow>
              FillTextureFromCode ideal_fpu (Some 0) 1 1 (1 * 4) buf' = Inr out"
    by (elim exE conjE)
  have t00: "?waves ?t0 0 0 = Some 508"
    by (simp add: ideal_fpu_def float2_def)
  have q: "(if 0 \<le> (508::real) then \<lfloor>508::real\<rfloor> else \<lceil>508::real\<rceil>) sdiv 4 = 127"
    by (simp add: sdiv_nonneg)
  have px: "out ! k = 127" if k: "k < 4" for k
  proof -
    have "(0::int) \<le> 0 \<and> (0::int) < 1 \<and> (0::int) \<le> 0 \<and> (0::int) < 1 \<and> k < 4" using k by simp
    then have "\<exists>r. ?waves ?t0 0 0 = Some r
        \<and> out ! (nat (0 * (1 * 4) + 0 * 4) + k) =
           word_of_int ((if 0 \<le> r then \<lfloor>r\<rfloor> else \<lceil>r\<rceil>) sdiv 4)"
      by (rule p [rule_format])
    then obtain r where "?waves ?t0 0 0 = Some r"
        "out ! (nat (0 * (1 * 4) + 0 * 4) + k) =
           word_of_int ((if 0 \<le> r then \<lfloor>r\<rfloor> else \<lceil>r\<rceil>) sdiv 4)"
      by (elim exE conjE)
    then show ?thesis using t00 q by simp
  qed
  have "out = [127, 127, 127, 127]"
    using l px [of 0] px [of 1] px [of 2] px [of 3] by (intro four_bytes) simp_all
  then have r1: "FillTextureFromCode ideal_fpu (Some 0) 1 1 (1 * 4) (replicate 4 0) = Inr [127, 127, 127, 127]"
    using r by simp
  have "length (replicate 4 (255::byte)) = length (replicate 4 (0::byte))" by simp
  then have "FillTextureFromCode ideal_fpu (Some 0) 1 1 (1 * 4) (replicate 4 255) = Inr out"
    by (rule s [rule_format])
  then have r2: "FillTextureFromCode ideal_fpu (Some 0) 1 1 (1 * 4) (replicate 4 255) = Inr [127, 127, 127, 127]"
    using \<open>out = [127, 127, 127, 127]\<close> by simp
  have "?waves (float2 (fmul ?f) None (Some 4)) 0 0 = None"
    by (simp add: float2_None)
  then have "\<exists>x y. 0 \<le> x \<and> x < 1 \<and> 0 \<le> y \<and> y < 1
      \<and> \<not> (\<exists>r. ?waves (float2 (fmul ?f) None (Some 4)) x y = Some r \<and> - 2147483649 < r \<and> r < 2147483648)"
    by (intro exI [of _ 0]) simp
  then have r3: "FillTextureFromCode ideal_fpu None 1 1 (1 * 4) (replicate 4 0) = Inl UndefinedConversion"
    by (rule n [THEN conjunct2, THEN conjunct1, THEN mp])
  show ?thesis
    by (rule conjI, rule h(1), rule conjI, rule h(2), rule conjI, rule h(5),
        rule conjI, rule ideal_fpu_accurate, rule conjI, rule tb,
        rule conjI, rule r1, rule conjI, rule r2, rule r3)
qed

end
